(* ===== verification/Prelude.thy ===== *)
theory Prelude
  imports Main "HOL-Library.Word" "HOL-Library.Monad_Syntax"
begin

text \<open>
  Shared vocabulary of the development: the machine types of the driver
  (\<open>BYTE\<close>, \<open>USHORT\<close>, 32-bit \<open>unsigned int\<close>), the C operations whose meaning
  differs from HOL's (integer division truncates towards zero, conversions to
  unsigned types wrap), the \<open>for\<close>-loop idiom over a slot range as \<open>fold\<close>, and
  the generic list lemmas the component theories rewrite with.
\<close>

type_synonym u8 = "8 word"
type_synonym u16 = "16 word"
type_synonym u32 = "32 word"

named_theorems slot_simps "rewrites for per-slot array updates of the gesture state"

subsection \<open>C integer operations\<close>

text \<open>
  C's \<open>/\<close> on \<open>int\<close> truncates towards zero (HOL's \<open>div\<close> rounds down);
  division by zero is undefined in C and is 0 here, every theorem that divides
  says why the divisor is not zero.
\<close>

definition cdiv :: "int \<Rightarrow> int \<Rightarrow> int" where
  "cdiv a b = sgn a * sgn b * (\<bar>a\<bar> div \<bar>b\<bar>)"

text \<open>Conversion of an \<open>int\<close> to \<open>BYTE\<close> or \<open>USHORT\<close>: reduction modulo \<open>2^w\<close>.\<close>

definition to_u8 :: "int \<Rightarrow> u8" where
  "to_u8 v = word_of_int v"

definition to_u16 :: "int \<Rightarrow> u16" where
  "to_u16 v = word_of_int v"

lemma cdiv_nonneg [simp]: "0 \<le> a \<Longrightarrow> 0 \<le> b \<Longrightarrow> cdiv a b = a div b"
  by (cases "a = 0"; cases "b = 0") (simp_all add: cdiv_def)

lemma cdiv_neg_left: "cdiv (- a) b = - cdiv a b"
  by (simp add: cdiv_def)

lemma cdiv_zero_left [simp]: "cdiv 0 b = 0"
  by (simp add: cdiv_def)

lemma abs_cdiv_le: "0 < b \<Longrightarrow> \<bar>cdiv a b\<bar> \<le> \<bar>a\<bar>"
proof -
  assume b: "0 < b"
  have "\<bar>a\<bar> div b \<le> \<bar>a\<bar>"
    using b by (cases "a = 0") (simp_all add: int_div_le_self)
  moreover have "\<bar>cdiv a b\<bar> = \<bar>a\<bar> div b"
    using b by (cases "a = 0") (auto simp: cdiv_def abs_mult pos_imp_zdiv_nonneg_iff)
  ultimately show ?thesis by simp
qed

lemma cdiv_times_10 [simp]: "cdiv (d * 10) 10 = d"
  by (cases "d = 0") (simp_all add: cdiv_def abs_mult sgn_mult sgn_mult_abs)

lemma unat_to_u8_small [simp]: "0 \<le> v \<Longrightarrow> v < 256 \<Longrightarrow> unat (to_u8 v) = nat v"
  by (simp add: to_u8_def unat_eq_nat_uint uint_word_of_int_eq take_bit_int_eq_self)

lemma unat_to_u16_small [simp]: "0 \<le> v \<Longrightarrow> v < 65536 \<Longrightarrow> unat (to_u16 v) = nat v"
  by (simp add: to_u16_def unat_eq_nat_uint uint_word_of_int_eq take_bit_int_eq_self)

subsection \<open>Loops over a range of array indices\<close>

text \<open>
  \<open>for (j = 0; j < n; j++) a[j] = 0;\<close> and its kin become a \<open>fold\<close> over
  \<open>[0..<n]\<close>. The lemmas below say what the common ones compute.
\<close>

lemma fold_clear_prefix:
  "n \<le> length h \<Longrightarrow> fold (\<lambda>j h. h[j := 0]) [0..<n] h = replicate n 0 @ drop n h"
proof (induction n)
  case 0
  then show ?case by simp
next
  case (Suc n)
  then have "fold (\<lambda>j h. h[j := 0]) [0..<n] h = replicate n 0 @ drop n h" by simp
  moreover from Suc.prems have "drop n h = h ! n # drop (Suc n) h"
    by (simp add: Cons_nth_drop_Suc)
  ultimately show ?case
    using Suc.prems by (simp add: list_update_append replicate_append_same)
qed

lemma fold_clear_all [simp]:
  "length h = n \<Longrightarrow> fold (\<lambda>j h. h[j := 0]) [0..<n] h = replicate n 0"
  by (simp add: fold_clear_prefix)

lemma fold_shift_left_prefix:
  "1 \<le> m \<Longrightarrow> m \<le> length h \<Longrightarrow>
   fold (\<lambda>j h. h[j - 1 := h ! j]) [1..<m] h = take (m - 1) (tl h) @ drop (m - 1) h"
proof (induction m)
  case 0
  then show ?case by simp
next
  case (Suc m)
  show ?case
  proof (cases "m = 0")
    case True
    then show ?thesis by simp
  next
    case False
    with Suc have IH: "fold (\<lambda>j h. h[j - 1 := h ! j]) [1..<m] h = take (m - 1) (tl h) @ drop (m - 1) h"
      by simp
    have len: "Suc m \<le> length h" by fact
    have "(take (m - 1) (tl h) @ drop (m - 1) h) ! m = h ! m"
      using len False by (auto simp: nth_append)
    moreover obtain k where k: "m = Suc k" using False by (cases m) auto
    moreover have "drop k h = h ! k # drop (Suc k) h"
      using len k by (simp add: Cons_nth_drop_Suc)
    moreover have "take (Suc k) (tl h) = take k (tl h) @ [h ! Suc k]"
      using len k by (simp add: take_Suc_conv_app_nth nth_tl)
    ultimately have "(take (m - 1) (tl h) @ drop (m - 1) h)[m - 1 := h ! m] = take m (tl h) @ drop m h"
      using len by (simp add: list_update_append)
    then show ?thesis
      using IH False \<open>_ ! m = h ! m\<close> by simp
  qed
qed

text \<open>The shift loop \<open>for (j = 1; j < n; j++) h[j-1] = h[j];\<close> drops the oldest entry
  and leaves the last one duplicated.\<close>

lemma fold_shift_left:
  "length h = n \<Longrightarrow> 1 \<le> n \<Longrightarrow> fold (\<lambda>j h. h[j - 1 := h ! j]) [1..<n] h = tl h @ [last h]"
proof -
  assume len: "length h = n" and n: "1 \<le> n"
  then have "fold (\<lambda>j h. h[j - 1 := h ! j]) [1..<n] h = take (n - 1) (tl h) @ drop (n - 1) h"
    using fold_shift_left_prefix [of n h] by simp
  moreover have "take (n - 1) (tl h) = tl h" using len by simp
  moreover have "drop (n - 1) h = [last h]"
    using len n by (cases h rule: rev_cases) auto
  ultimately show ?thesis by simp
qed

lemma upt_slots [slot_simps]:
  "[0..<5] = [0, 1, 2, 3, 4]" "[0..<3] = [0, 1, 2]" "[0..<10] = [0, 1, 2, 3, 4, 5, 6, 7, 8, 9]"
  "[1..<10] = [1, 2, 3, 4, 5, 6, 7, 8, 9]"
  by (simp_all add: upt_rec)

lemma length_fold_shift [simp]:
  "length (fold (\<lambda>j h. h[j - 1 := h ! j]) js h) = length h"
  by (induction js arbitrary: h) simp_all

lemma length_fold_clear [simp]:
  "length (fold (\<lambda>j h. h[j := (0::int)]) js h) = length h"
  by (induction js arbitrary: h) simp_all

lemma list_all_list_update [simp]:
  "list_all P xs \<Longrightarrow> P v \<Longrightarrow> list_all P (xs[i := v])"
  by (induction xs arbitrary: i) (auto split: nat.splits)

lemma list_all_update_length:
  "list_all (\<lambda>h. length h = n) xs \<Longrightarrow> length v = length (xs ! i) \<Longrightarrow>
   list_all (\<lambda>h. length h = n) (xs[i := v])"
  by (cases "i < length xs") (auto simp: list_all_length nth_list_update list_update_beyond)

lemma length_fold_preserve:
  "(\<And>x a. length (f x a) = length a) \<Longrightarrow> length (fold f xs a) = length a"
  by (induction xs arbitrary: a) simp_all

lemma sum_list_update_int:
  "i < length xs \<Longrightarrow> sum_list (xs[i := v]) = sum_list xs - xs ! i + (v :: int)"
  by (induction xs arbitrary: i) (auto split: nat.splits)

end
