(* ===== verification/Reports.thy ===== *)
theory Reports
  imports Prelude
begin

text \<open>
  The output side of the driver: the report structures of \<open>hidcommon.h\<close>,
  their wire layout, and the report sink.  The sink is the parent record of the
  gesture state (theory \<open>Gesture_State\<close>): it holds the global
  \<open>lastreport\<close> of \<open>driver.cpp\<close> (used by \<open>update_relative_mouse\<close> to drop
  a report equal to the previous one), the sequence of reports handed to
  \<open>SynaProcessVendorReport\<close> (\<open>hiddevice.cpp\<close>), the number of read requests
  waiting in the manual \<open>ReportQueue\<close>, and the reports that completed one.
\<close>

unbundle bit_operations_syntax

subsection \<open>Report structures (hidcommon.h)\<close>

definition REPORTID_RELATIVE_MOUSE :: u8 where "REPORTID_RELATIVE_MOUSE = 0x04"
definition REPORTID_SCROLL :: u8 where "REPORTID_SCROLL = 0x06"
definition REPORTID_KEYBOARD :: u8 where "REPORTID_KEYBOARD = 0x07"
definition REPORTID_SETTINGS :: u8 where "REPORTID_SETTINGS = 0x09"
definition KBD_LCONTROL_BIT :: u8 where "KBD_LCONTROL_BIT = 1"
definition KBD_LSHIFT_BIT :: u8 where "KBD_LSHIFT_BIT = 2"
definition KBD_LALT_BIT :: u8 where "KBD_LALT_BIT = 4"
definition KBD_LGUI_BIT :: u8 where "KBD_LGUI_BIT = 8"
definition MOUSE_BUTTON_1 :: int where "MOUSE_BUTTON_1 = 1"
definition MOUSE_BUTTON_2 :: int where "MOUSE_BUTTON_2 = 2"
definition MOUSE_BUTTON_3 :: int where "MOUSE_BUTTON_3 = 4"

text \<open>\<open>_SYNA_RELATIVE_MOUSE_REPORT\<close> without its constant report id.\<close>

datatype mouse_report =
  MouseReport (Button: u8) (XValue: u8) (YValue: u8) (WheelPosition: u8) (HWheelPosition: u8)

text \<open>
  The reports the driver sends up: relative mouse, scroll (\<open>Flag\<close> and two
  touches of \<open>USHORT\<close> coordinates), keyboard (\<open>ShiftKeyFlags\<close> and six key
  codes) and the 64-byte info report of \<open>ProcessInfo\<close>.
\<close>

datatype report =
    RelMouse mouse_report
  | ScrollRep u8 u16 u16 u16 u16
  | KeyboardRep u8 "u8 list"
  | InfoRep "u8 list"

text \<open>
  Wire layout of the packed structures (x86, little-endian \<open>USHORT\<close>).  The
  \<open>Reserved\<close> byte of the keyboard report is never written by
  \<open>update_keyboard\<close>; it is laid out as 0 here.
\<close>

definition le16 :: "u16 \<Rightarrow> u8 list" where
  "le16 w = [ucast w, ucast (drop_bit 8 w)]"

fun report_bytes :: "report \<Rightarrow> u8 list" where
  "report_bytes (RelMouse (MouseReport b x y w h)) = [REPORTID_RELATIVE_MOUSE, b, x, y, w, h]"
| "report_bytes (ScrollRep f t1x t1y t2x t2y) =
     [REPORTID_SCROLL, f] @ le16 t1x @ le16 t1y @ le16 t2x @ le16 t2y"
| "report_bytes (KeyboardRep s ks) = [REPORTID_KEYBOARD, s, 0] @ ks"
| "report_bytes (InfoRep v) = REPORTID_SETTINGS # v"

subsection \<open>The report sink\<close>

text \<open>
  A read request waiting in \<open>ReportQueue\<close> is known by the size of its output
  buffer.  \<open>stranded\<close> holds the requests \<open>SynaProcessVendorReport\<close> took off
  the queue and never completed, with the report they were taken for.
\<close>

record sink =
  lastreport :: mouse_report
  emitted :: "report list"
  pending :: "nat list"
  delivered :: "report list"
  stranded :: "(nat \<times> report) list"

text \<open>
  \<open>SynaProcessVendorReport\<close> (hiddevice.cpp 285-364) is called with the
  report and \<open>sizeof\<close> its structure, the length of its wire bytes.  It takes
  the oldest read request off \<open>ReportQueue\<close>, if there is one, and asks for
  its output buffer with that length as the minimum
  (\<open>WdfRequestRetrieveOutputBuffer\<close> fails with \<open>STATUS_BUFFER_TOO_SMALL\<close>
  below it).  A buffer large enough receives the report and the request is
  completed; a smaller one only logs the failure, and the request, already off
  the queue, is neither completed nor put back.  With no request waiting the
  report is dropped.  \<open>emitted\<close> records every call, in order.
\<close>

definition fits :: "report \<Rightarrow> nat list \<Rightarrow> bool" where
  "fits r bs \<longleftrightarrow> bs \<noteq> [] \<and> length (report_bytes r) \<le> hd bs"

definition SynaProcessVendorReport :: "report \<Rightarrow> 'a sink_scheme \<Rightarrow> 'a sink_scheme" where
  "SynaProcessVendorReport r s =
     (let s = s\<lparr>emitted := emitted s @ [r]\<rparr> in
      case pending s of
        [] \<Rightarrow> s
      | b # bs \<Rightarrow>
          if length (report_bytes r) \<le> b
          then s\<lparr>pending := bs, delivered := delivered s @ [r]\<rparr>
          else s\<lparr>pending := bs, stranded := stranded s @ [(b, r)]\<rparr>)"

text \<open>\<open>update_relative_mouse\<close>: nothing is sent when the report equals the last one sent.\<close>

definition update_relative_mouse ::
  "u8 \<Rightarrow> u8 \<Rightarrow> u8 \<Rightarrow> u8 \<Rightarrow> u8 \<Rightarrow> 'a sink_scheme \<Rightarrow> 'a sink_scheme" where
  "update_relative_mouse button x y wheel hwheel s =
     (let r = MouseReport button x y wheel hwheel in
      if r = lastreport s then s
      else SynaProcessVendorReport (RelMouse r) (s\<lparr>lastreport := r\<rparr>))"

definition update_keyboard :: "u8 \<Rightarrow> u8 list \<Rightarrow> 'a sink_scheme \<Rightarrow> 'a sink_scheme" where
  "update_keyboard shiftKeys keyCodes s = SynaProcessVendorReport (KeyboardRep shiftKeys keyCodes) s"

definition stop_scroll :: "'a sink_scheme \<Rightarrow> 'a sink_scheme" where
  "stop_scroll s = SynaProcessVendorReport (ScrollRep 1 65535 65535 65535 65535) s"

definition filterNegative :: "int \<Rightarrow> u16" where
  "filterNegative v = (if v > 0 then to_u16 v else 65535)"

text \<open>
  The press-then-release idiom of the gesture code: one keyboard report with
  modifiers \<open>s1\<close> and key \<open>code\<close>, then one with modifiers \<open>s2\<close> and no key.
\<close>

abbreviation no_keys :: "u8 list" where "no_keys \<equiv> [0, 0, 0, 0, 0, 0]"

definition kbd_pulse :: "u8 \<Rightarrow> u8 \<Rightarrow> u8 \<Rightarrow> 'a sink_scheme \<Rightarrow> 'a sink_scheme" where
  "kbd_pulse s1 code s2 s = update_keyboard s2 no_keys (update_keyboard s1 [code, 0, 0, 0, 0, 0] s)"

subsection \<open>Sink lemmas\<close>

lemmas report_constants [simp] =
  REPORTID_RELATIVE_MOUSE_def REPORTID_SCROLL_def REPORTID_KEYBOARD_def REPORTID_SETTINGS_def KBD_LCONTROL_BIT_def KBD_LSHIFT_BIT_def KBD_LALT_BIT_def KBD_LGUI_BIT_def MOUSE_BUTTON_1_def MOUSE_BUTTON_2_def MOUSE_BUTTON_3_def

text \<open>
  Each sink operation is an update of the sink's own fields; in this form the
  simplifier carries every field of an extending record (the gesture state)
  through it unchanged.
\<close>

lemma SynaProcessVendorReport_upd [simp]:
  "SynaProcessVendorReport r s =
     s\<lparr>emitted := emitted s @ [r], pending := tl (pending s),
       delivered := delivered s @ (if fits r (pending s) then [r] else []),
       stranded := stranded s @ (if pending s \<noteq> [] \<and> \<not> fits r (pending s) then [(hd (pending s), r)] else [])\<rparr>"
  by (cases "pending s") (simp_all add: SynaProcessVendorReport_def fits_def Let_def)

lemma update_relative_mouse_upd [simp]:
  "update_relative_mouse b x y w h s =
     (if MouseReport b x y w h = lastreport s then s
      else SynaProcessVendorReport (RelMouse (MouseReport b x y w h)) (s\<lparr>lastreport := MouseReport b x y w h\<rparr>))"
  by (simp add: update_relative_mouse_def Let_def del: SynaProcessVendorReport_upd)

lemmas sink_ops_upd [simp] = update_keyboard_def stop_scroll_def kbd_pulse_def

end
