(* ===== verification/Gesture_State.thy ===== *)
theory Gesture_State
  imports Reports
begin

text \<open>
  The state of the gesture recogniser, \<open>struct csgesture_softc\<close>, and its
  user settings.  The structure is declared in \<open>gesturerec.h\<close>, which is not
  part of the sources; its fields are those \<open>driver.cpp\<close> reads and writes,
  with the C types their uses imply: per-slot arrays of \<open>MAX_FINGERS = 5\<close>
  \<open>int\<close>s as lists of length 5, the two 10-sample displacement rings per slot
  as lists of such lists, slot ids as \<open>int\<close> with -1 for ``none''.  The
  settings enumerations are datatypes; their numeric values (needed only when a
  settings register is written) are those of \<open>gesturerec.h\<close>, in declaration
  order from 0.  The record extends the report sink of theory \<open>Reports\<close>, so
  that one value carries the recogniser state together with the global
  \<open>lastreport\<close> and the reports sent so far.
\<close>

abbreviation MAX_FINGERS :: nat where "MAX_FINGERS \<equiv> 5"

subsection \<open>Settings\<close>

datatype ThreeFingerTapAction =
  ThreeFingerTapActionWheelClick | ThreeFingerTapActionCortana | ThreeFingerTapActionNone

datatype SwipeUpGesture = SwipeUpGestureTaskView | SwipeUpGestureNone

datatype SwipeDownGesture = SwipeDownGestureShowDesktop | SwipeDownGestureNone

datatype SwipeGesture =
  SwipeGestureSwitchWorkspace | SwipeGestureAltTabSwitcher | SwipeGestureNone

text \<open>
  The casts \<open>(ThreeFingerTapAction)settingValue\<close> and kin of
  \<open>ProcessSetting\<close>.  A value that names no enumerator compares unequal to
  every enumerator the code tests, exactly as the \<open>None\<close> enumerator does.
\<close>

definition ThreeFingerTapAction_of :: "int \<Rightarrow> ThreeFingerTapAction" where
  "ThreeFingerTapAction_of v =
     (if v = 0 then ThreeFingerTapActionWheelClick
      else if v = 1 then ThreeFingerTapActionCortana else ThreeFingerTapActionNone)"

definition SwipeUpGesture_of :: "int \<Rightarrow> SwipeUpGesture" where
  "SwipeUpGesture_of v = (if v = 0 then SwipeUpGestureTaskView else SwipeUpGestureNone)"

definition SwipeDownGesture_of :: "int \<Rightarrow> SwipeDownGesture" where
  "SwipeDownGesture_of v = (if v = 0 then SwipeDownGestureShowDesktop else SwipeDownGestureNone)"

definition SwipeGesture_of :: "int \<Rightarrow> SwipeGesture" where
  "SwipeGesture_of v =
     (if v = 0 then SwipeGestureSwitchWorkspace
      else if v = 1 then SwipeGestureAltTabSwitcher else SwipeGestureNone)"

record settings =
  pointerMultiplier :: int
  swapLeftRightFingers :: bool
  clickWithNoFingers :: bool
  multiFingerClick :: bool
  rightClickBottomRight :: bool
  tapToClickEnabled :: bool
  multiFingerTap :: bool
  tapDragEnabled :: bool
  threeFingerTapAction :: ThreeFingerTapAction
  fourFingerTapEnabled :: bool
  scrollEnabled :: bool
  threeFingerSwipeUpGesture :: SwipeUpGesture
  threeFingerSwipeDownGesture :: SwipeDownGesture
  threeFingerSwipeLeftRightGesture :: SwipeGesture
  fourFingerSwipeUpGesture :: SwipeUpGesture
  fourFingerSwipeDownGesture :: SwipeDownGesture
  fourFingerSwipeLeftRightGesture :: SwipeGesture

subsection \<open>The recogniser state\<close>

record softc = sink +
  resx :: int
  resy :: int
  sc_x :: "int list"
  sc_y :: "int list"
  sc_p :: "int list"
  lastx :: "int list"
  lasty :: "int list"
  lastp :: "int list"
  tick :: "int list"
  truetick :: "int list"
  totalx :: "int list"
  totaly :: "int list"
  totalp :: "int list"
  flextotalx :: "int list"
  flextotaly :: "int list"
  xhistory :: "int list list"
  yhistory :: "int list list"
  blacklistedids :: "int list"
  sc_dx :: int
  sc_dy :: int
  scrollx :: int
  scrolly :: int
  panningActive :: bool
  idForPanning :: int
  scrollingActive :: bool
  idsForScrolling :: "int list"
  ticksSinceScrolling :: int
  scrollInertiaActive :: bool
  multitaskingx :: int
  multitaskingy :: int
  multitaskinggesturetick :: int
  multitaskingdone :: bool
  alttabswitchershowing :: bool
  idsforalttab :: "int list"
  mouseDownDueToTap :: bool
  idForMouseDown :: int
  mousedown :: bool
  mousebutton :: int
  buttonmask :: int
  buttondown :: bool
  tickssinceclick :: int
  ticksincelastrelease :: int
  product_id :: string
  firmware_version :: string
  settings :: settings

subsection \<open>Settings operations (driver.cpp)\<close>

definition default_settings :: settings where
  "default_settings =
     \<lparr>pointerMultiplier = 10,
      swapLeftRightFingers = False, clickWithNoFingers = True, multiFingerClick = True,
      rightClickBottomRight = False,
      tapToClickEnabled = True, multiFingerTap = True, tapDragEnabled = True,
      threeFingerTapAction = ThreeFingerTapActionCortana,
      fourFingerTapEnabled = True,
      scrollEnabled = True,
      threeFingerSwipeUpGesture = SwipeUpGestureTaskView,
      threeFingerSwipeDownGesture = SwipeDownGestureShowDesktop,
      threeFingerSwipeLeftRightGesture = SwipeGestureAltTabSwitcher,
      fourFingerSwipeUpGesture = SwipeUpGestureTaskView,
      fourFingerSwipeDownGesture = SwipeDownGestureShowDesktop,
      fourFingerSwipeLeftRightGesture = SwipeGestureSwitchWorkspace\<rparr>"

definition SetDefaultSettings :: "softc \<Rightarrow> softc" where
  "SetDefaultSettings sc = sc\<lparr>settings := default_settings\<rparr>"

text \<open>
  \<open>ProcessSetting\<close>: registers 0 to 16 write one setting (an \<open>int\<close> stored
  into a \<open>bool\<close> is true when non-zero), register 255 answers with an info
  report, every other register is ignored.
\<close>

definition set_setting :: "int \<Rightarrow> int \<Rightarrow> settings \<Rightarrow> settings" where
  "set_setting r v st =
    (if r = 0 then st\<lparr>pointerMultiplier := v\<rparr>
     else if r = 1 then st\<lparr>swapLeftRightFingers := (v \<noteq> 0)\<rparr>
     else if r = 2 then st\<lparr>clickWithNoFingers := (v \<noteq> 0)\<rparr>
     else if r = 3 then st\<lparr>multiFingerClick := (v \<noteq> 0)\<rparr>
     else if r = 4 then st\<lparr>rightClickBottomRight := (v \<noteq> 0)\<rparr>
     else if r = 5 then st\<lparr>tapToClickEnabled := (v \<noteq> 0)\<rparr>
     else if r = 6 then st\<lparr>multiFingerTap := (v \<noteq> 0)\<rparr>
     else if r = 7 then st\<lparr>tapDragEnabled := (v \<noteq> 0)\<rparr>
     else if r = 8 then st\<lparr>threeFingerTapAction := ThreeFingerTapAction_of v\<rparr>
     else if r = 9 then st\<lparr>fourFingerTapEnabled := (v \<noteq> 0)\<rparr>
     else if r = 10 then st\<lparr>scrollEnabled := (v \<noteq> 0)\<rparr>
     else if r = 11 then st\<lparr>threeFingerSwipeUpGesture := SwipeUpGesture_of v\<rparr>
     else if r = 12 then st\<lparr>threeFingerSwipeDownGesture := SwipeDownGesture_of v\<rparr>
     else if r = 13 then st\<lparr>threeFingerSwipeLeftRightGesture := SwipeGesture_of v\<rparr>
     else if r = 14 then st\<lparr>fourFingerSwipeUpGesture := SwipeUpGesture_of v\<rparr>
     else if r = 15 then st\<lparr>fourFingerSwipeDownGesture := SwipeDownGesture_of v\<rparr>
     else if r = 16 then st\<lparr>fourFingerSwipeLeftRightGesture := SwipeGesture_of v\<rparr>
     else st)"

text \<open>
  \<open>ProcessInfo\<close>: an info report whose first 60 value bytes are cleared and
  then overwritten by the requested string and its terminating NUL (the last
  four bytes are never written and are laid out as 0 here).
\<close>

definition driver_version :: string where
  "driver_version = ''3.0-synaptics beta 11.10.1 (8/17/2016)''"

definition info_value :: "string \<Rightarrow> u8 list" where
  "info_value str = (let b = map of_char str @ [0] in b @ replicate (64 - length b) 0)"

definition ProcessInfo :: "softc \<Rightarrow> int \<Rightarrow> softc" where
  "ProcessInfo sc infoValue =
     SynaProcessVendorReport
       (InfoRep (if infoValue = 0 then info_value driver_version
                 else if infoValue = 1 then info_value (product_id sc)
                 else if infoValue = 2 then info_value (firmware_version sc)
                 else replicate 64 0)) sc"

definition ProcessSetting :: "softc \<Rightarrow> int \<Rightarrow> int \<Rightarrow> softc" where
  "ProcessSetting sc settingRegister settingValue =
     (if settingRegister = 255 then ProcessInfo sc settingValue
      else sc\<lparr>settings := set_setting settingRegister settingValue (settings sc)\<rparr>)"

subsection \<open>Well-formedness and the initial state\<close>

text \<open>
  The shape the C arrays give the state: every per-slot array has
  \<open>MAX_FINGERS\<close> entries, every ring 10, the scroll pair 2 and the alt-tab
  triple 3.
\<close>

definition softc_wf :: "softc \<Rightarrow> bool" where
  "softc_wf sc \<longleftrightarrow>
     list_all (\<lambda>a. length a = MAX_FINGERS)
       [sc_x sc, sc_y sc, sc_p sc, lastx sc, lasty sc, lastp sc, tick sc, truetick sc,
        totalx sc, totaly sc, totalp sc, flextotalx sc, flextotaly sc, blacklistedids sc]
     \<and> length (xhistory sc) = MAX_FINGERS \<and> length (yhistory sc) = MAX_FINGERS
     \<and> list_all (\<lambda>n. n = 10) (map length (xhistory sc))
     \<and> list_all (\<lambda>n. n = 10) (map length (yhistory sc))
     \<and> length (idsForScrolling sc) = 2 \<and> length (idsforalttab sc) = 3"

text \<open>
  The device context is zero-filled by the framework and \<open>OnDeviceAdd\<close> then
  calls \<open>SetDefaultSettings\<close>; the output resolution is a parameter (it is set
  outside the sources).
\<close>

definition init_softc :: "int \<Rightarrow> int \<Rightarrow> softc" where
  "init_softc rx ry = SetDefaultSettings
     \<lparr>lastreport = MouseReport 0 0 0 0 0, emitted = [], pending = [], delivered = [], stranded = [],
      resx = rx, resy = ry,
      sc_x = [0, 0, 0, 0, 0], sc_y = [0, 0, 0, 0, 0], sc_p = [0, 0, 0, 0, 0],
      lastx = [0, 0, 0, 0, 0], lasty = [0, 0, 0, 0, 0], lastp = [0, 0, 0, 0, 0],
      tick = [0, 0, 0, 0, 0], truetick = [0, 0, 0, 0, 0],
      totalx = [0, 0, 0, 0, 0], totaly = [0, 0, 0, 0, 0], totalp = [0, 0, 0, 0, 0],
      flextotalx = [0, 0, 0, 0, 0], flextotaly = [0, 0, 0, 0, 0],
      xhistory = [replicate 10 0, replicate 10 0, replicate 10 0, replicate 10 0, replicate 10 0], yhistory = [replicate 10 0, replicate 10 0, replicate 10 0, replicate 10 0, replicate 10 0],
      blacklistedids = [0, 0, 0, 0, 0],
      sc_dx = 0, sc_dy = 0, scrollx = 0, scrolly = 0,
      panningActive = False, idForPanning = 0,
      scrollingActive = False, idsForScrolling = [0, 0], ticksSinceScrolling = 0,
      scrollInertiaActive = False,
      multitaskingx = 0, multitaskingy = 0, multitaskinggesturetick = 0,
      multitaskingdone = False, alttabswitchershowing = False, idsforalttab = [0, 0, 0],
      mouseDownDueToTap = False, idForMouseDown = 0, mousedown = False,
      mousebutton = 0, buttonmask = 0, buttondown = False,
      tickssinceclick = 0, ticksincelastrelease = 0,
      product_id = [], firmware_version = [],
      settings = default_settings\<rparr>"

lemma init_softc_wf: "softc_wf (init_softc rx ry)"
  by (simp add: softc_wf_def init_softc_def SetDefaultSettings_def list_all_iff)

text \<open>
  Frame rules: an update of a scalar field keeps the shape, an update of an
  array keeps it when the new array has the old length (a ring array: the
  old lengths of its rows).
\<close>

lemma softc_wf_scalar_upd [simp]:
  "softc_wf (sc\<lparr>resx := v0\<rparr>) = softc_wf sc"
  "softc_wf (sc\<lparr>resy := v1\<rparr>) = softc_wf sc"
  "softc_wf (sc\<lparr>sc_dx := v2\<rparr>) = softc_wf sc"
  "softc_wf (sc\<lparr>sc_dy := v3\<rparr>) = softc_wf sc"
  "softc_wf (sc\<lparr>scrollx := v4\<rparr>) = softc_wf sc"
  "softc_wf (sc\<lparr>scrolly := v5\<rparr>) = softc_wf sc"
  "softc_wf (sc\<lparr>panningActive := v6\<rparr>) = softc_wf sc"
  "softc_wf (sc\<lparr>idForPanning := v7\<rparr>) = softc_wf sc"
  "softc_wf (sc\<lparr>scrollingActive := v8\<rparr>) = softc_wf sc"
  "softc_wf (sc\<lparr>ticksSinceScrolling := v9\<rparr>) = softc_wf sc"
  "softc_wf (sc\<lparr>scrollInertiaActive := v10\<rparr>) = softc_wf sc"
  "softc_wf (sc\<lparr>multitaskingx := v11\<rparr>) = softc_wf sc"
  "softc_wf (sc\<lparr>multitaskingy := v12\<rparr>) = softc_wf sc"
  "softc_wf (sc\<lparr>multitaskinggesturetick := v13\<rparr>) = softc_wf sc"
  "softc_wf (sc\<lparr>multitaskingdone := v14\<rparr>) = softc_wf sc"
  "softc_wf (sc\<lparr>alttabswitchershowing := v15\<rparr>) = softc_wf sc"
  "softc_wf (sc\<lparr>mouseDownDueToTap := v16\<rparr>) = softc_wf sc"
  "softc_wf (sc\<lparr>idForMouseDown := v17\<rparr>) = softc_wf sc"
  "softc_wf (sc\<lparr>mousedown := v18\<rparr>) = softc_wf sc"
  "softc_wf (sc\<lparr>mousebutton := v19\<rparr>) = softc_wf sc"
  "softc_wf (sc\<lparr>buttonmask := v20\<rparr>) = softc_wf sc"
  "softc_wf (sc\<lparr>buttondown := v21\<rparr>) = softc_wf sc"
  "softc_wf (sc\<lparr>tickssinceclick := v22\<rparr>) = softc_wf sc"
  "softc_wf (sc\<lparr>ticksincelastrelease := v23\<rparr>) = softc_wf sc"
  "softc_wf (sc\<lparr>product_id := v24\<rparr>) = softc_wf sc"
  "softc_wf (sc\<lparr>firmware_version := v25\<rparr>) = softc_wf sc"
  "softc_wf (sc\<lparr>settings := v26\<rparr>) = softc_wf sc"
  "softc_wf (sc\<lparr>lastreport := v27\<rparr>) = softc_wf sc"
  "softc_wf (sc\<lparr>emitted := v28\<rparr>) = softc_wf sc"
  "softc_wf (sc\<lparr>pending := v29\<rparr>) = softc_wf sc"
  "softc_wf (sc\<lparr>delivered := v30\<rparr>) = softc_wf sc"
  "softc_wf (sc\<lparr>stranded := v31\<rparr>) = softc_wf sc"
  by (simp_all add: softc_wf_def)

lemma softc_wf_array_upd [simp]:
  "length v = length (sc_x sc) \<Longrightarrow> softc_wf (sc\<lparr>sc_x := v\<rparr>) = softc_wf sc"
  "length v = length (sc_y sc) \<Longrightarrow> softc_wf (sc\<lparr>sc_y := v\<rparr>) = softc_wf sc"
  "length v = length (sc_p sc) \<Longrightarrow> softc_wf (sc\<lparr>sc_p := v\<rparr>) = softc_wf sc"
  "length v = length (lastx sc) \<Longrightarrow> softc_wf (sc\<lparr>lastx := v\<rparr>) = softc_wf sc"
  "length v = length (lasty sc) \<Longrightarrow> softc_wf (sc\<lparr>lasty := v\<rparr>) = softc_wf sc"
  "length v = length (lastp sc) \<Longrightarrow> softc_wf (sc\<lparr>lastp := v\<rparr>) = softc_wf sc"
  "length v = length (tick sc) \<Longrightarrow> softc_wf (sc\<lparr>tick := v\<rparr>) = softc_wf sc"
  "length v = length (truetick sc) \<Longrightarrow> softc_wf (sc\<lparr>truetick := v\<rparr>) = softc_wf sc"
  "length v = length (totalx sc) \<Longrightarrow> softc_wf (sc\<lparr>totalx := v\<rparr>) = softc_wf sc"
  "length v = length (totaly sc) \<Longrightarrow> softc_wf (sc\<lparr>totaly := v\<rparr>) = softc_wf sc"
  "length v = length (totalp sc) \<Longrightarrow> softc_wf (sc\<lparr>totalp := v\<rparr>) = softc_wf sc"
  "length v = length (flextotalx sc) \<Longrightarrow> softc_wf (sc\<lparr>flextotalx := v\<rparr>) = softc_wf sc"
  "length v = length (flextotaly sc) \<Longrightarrow> softc_wf (sc\<lparr>flextotaly := v\<rparr>) = softc_wf sc"
  "length v = length (blacklistedids sc) \<Longrightarrow> softc_wf (sc\<lparr>blacklistedids := v\<rparr>) = softc_wf sc"
  "length v = length (idsForScrolling sc) \<Longrightarrow> softc_wf (sc\<lparr>idsForScrolling := v\<rparr>) = softc_wf sc"
  "length v = length (idsforalttab sc) \<Longrightarrow> softc_wf (sc\<lparr>idsforalttab := v\<rparr>) = softc_wf sc"
  by (simp_all add: softc_wf_def)

lemma softc_wf_xhistory_upd [simp]:
  assumes "map length v = map length (xhistory sc)"
  shows "softc_wf (sc\<lparr>xhistory := v\<rparr>) = softc_wf sc"
proof -
  have "length v = length (xhistory sc)" using assms by (metis length_map)
  then show ?thesis using assms by (simp add: softc_wf_def)
qed

lemma softc_wf_yhistory_upd [simp]:
  assumes "map length v = map length (yhistory sc)"
  shows "softc_wf (sc\<lparr>yhistory := v\<rparr>) = softc_wf sc"
proof -
  have "length v = length (yhistory sc)" using assms by (metis length_map)
  then show ?thesis using assms by (simp add: softc_wf_def)
qed

lemma map_length_update [simp]:
  "length h = length (xs ! i) \<Longrightarrow> map length (xs[i := h]) = map length xs"
  by (cases "i < length xs") (simp_all add: map_update list_update_beyond, metis list_update_id nth_map)

lemma softc_wf_if: "softc_wf (if c then a else b) = (if c then softc_wf a else softc_wf b)"
  by simp

end
