(* ===== verification/Gesture_Handlers.thy ===== *)
theory Gesture_Handlers
  imports Gesture_State
begin

text \<open>
  The three gesture stages of \<open>ProcessGesture\<close> (driver.cpp): pointer move
  (\<open>ProcessMove\<close>), two-finger scroll (\<open>ProcessScroll\<close>) and three/four
  finger swipe (\<open>ProcessThreeFingerSwipe\<close>).  Each takes the state, the number
  of slots above the motion threshold and the (up to three) ids of those slots
  (-1 where there is none), and returns whether it handled the tick with the
  new state.  The swipe stage may not return: its alt-tab release scan is the
  loop of driver.cpp lines 828-839, whose inner test is an assignment to the
  outer loop variable; it is a \<open>partial_function (option)\<close>, \<open>None\<close> being
  the loop that does not end.
\<close>

unbundle bit_operations_syntax

definition distancesq :: "int \<Rightarrow> int \<Rightarrow> int" where
  "distancesq delta_x delta_y = delta_x * delta_x + delta_y * delta_y"

subsection \<open>Pointer move\<close>

text \<open>
  The loop that blacklists every other contact lying below the panning finger
  and older than it by more than 15 ticks.
\<close>

definition blacklist_others :: "softc \<Rightarrow> int \<Rightarrow> int list" where
  "blacklist_others sc i =
     fold (\<lambda>j bl. if int j \<noteq> i \<and> bl ! j \<noteq> 1 \<and> sc_y sc ! j > sc_y sc ! nat i
                     \<and> truetick sc ! j > truetick sc ! nat i + 15
                  then bl[j := 1] else bl)
       [0..<MAX_FINGERS] (blacklistedids sc)"

definition ProcessMove :: "softc \<Rightarrow> int \<Rightarrow> int list \<Rightarrow> bool \<times> softc" where
  "ProcessMove sc abovethreshold iToUse =
    (if abovethreshold = 1 \<or> panningActive sc then
       (let i = iToUse ! 0 in
        if \<not> panningActive sc \<and> tick sc ! nat i < 5 then (False, sc)
        else
          (let sc = stop_scroll sc;
               i = (if panningActive sc \<and> i = -1 then idForPanning sc else i);
               delta_x = sc_x sc ! nat i - lastx sc ! nat i;
               delta_y = sc_y sc ! nat i - lasty sc ! nat i;
               jump = (\<bar>delta_x\<bar> > 75 \<or> \<bar>delta_y\<bar> > 75);
               delta_x = (if jump then 0 else delta_x);
               delta_y = (if jump then 0 else delta_y);
               sc = sc\<lparr>blacklistedids := blacklist_others sc i\<rparr>;
               m = pointerMultiplier (settings sc)
           in (True, sc\<lparr>sc_dx := cdiv (delta_x * m) 10, sc_dy := cdiv (delta_y * m) 10,
                        panningActive := True, idForPanning := i\<rparr>)))
     else (False, sc))"

subsection \<open>Two-finger scroll\<close>

definition ProcessScroll :: "softc \<Rightarrow> int \<Rightarrow> int list \<Rightarrow> bool \<times> softc" where
  "ProcessScroll sc abovethreshold iToUse =
    (if \<not> scrollEnabled (settings sc) then (False, sc)
     else
      (let sc = sc\<lparr>scrollx := 0, scrolly := 0\<rparr> in
       if abovethreshold = 2 \<or> scrollingActive sc then
         (let i1 = iToUse ! 0; i2 = iToUse ! 1 in
          if \<not> scrollingActive sc \<and> \<not> scrollInertiaActive sc
             \<and> truetick sc ! nat i1 < 4 \<and> truetick sc ! nat i2 < 4
          then (False, sc)
          else
           (let ids = idsForScrolling sc;
                i1 = (if scrollingActive sc \<and> i1 = -1
                      then (if i2 \<noteq> ids ! 0 then ids ! 0 else ids ! 1) else i1);
                i2 = (if scrollingActive sc \<and> i2 = -1
                      then (if i1 \<noteq> ids ! 0 then ids ! 0 else ids ! 1) else i2);
                sc = SynaProcessVendorReport
                       (ScrollRep 0 (filterNegative (sc_x sc ! nat i1)) (filterNegative (sc_y sc ! nat i1))
                                    (filterNegative (sc_x sc ! nat i2)) (filterNegative (sc_y sc ! nat i2))) sc;
                fngrcount = fold (\<lambda>i n. if sc_x sc ! i \<noteq> -1 \<and> (int i = i1 \<or> int i = i2) then n + 1 else n)
                              [0..<MAX_FINGERS] (0::int);
                tss = (if fngrcount = 2 then 0 else ticksSinceScrolling sc + 1);
                sc = sc\<lparr>ticksSinceScrolling := tss\<rparr>
            in if fngrcount = 2 \<or> tss \<le> 5
               then (True, sc\<lparr>scrollingActive := True,
                              idsForScrolling := (if abovethreshold = 2 then ids[0 := iToUse ! 0, 1 := iToUse ! 1]
                                                  else ids)\<rparr>)
               else (True, sc\<lparr>scrollingActive := False, idsForScrolling := ids[0 := -1, 1 := -1]\<rparr>)))
       else (False, sc)))"

subsection \<open>Three- and four-finger swipe\<close>

definition swipe_done :: "softc \<Rightarrow> softc" where
  "swipe_done sc = sc\<lparr>multitaskingx := 0, multitaskingy := 0, multitaskingdone := True\<rparr>"

definition set_alttab_ids :: "softc \<Rightarrow> int list \<Rightarrow> softc" where
  "set_alttab_ids sc iToUse =
     sc\<lparr>idsforalttab := fold (\<lambda>i a. a[i := iToUse ! i]) [0..<3] (idsforalttab sc)\<rparr>"

text \<open>
  The classification block (driver.cpp lines 643-822), run after the tick's
  average displacement has been added to the accumulators; \<open>sumdy\<close> and
  \<open>sumdx\<close> are the summed absolute per-tick displacements of the three tracked
  fingers.
\<close>

definition swipe_decide :: "softc \<Rightarrow> int \<Rightarrow> int list \<Rightarrow> int \<Rightarrow> int \<Rightarrow> softc" where
  "swipe_decide sc a iToUse sumdy sumdx =
    (let st = settings sc; alttab = alttabswitchershowing sc;
         mx = multitaskingx sc; my = multitaskingy sc in
     if multitaskinggesturetick sc > 5 \<and> \<not> multitaskingdone sc then
       (if sumdy > sumdx then
          (if \<bar>my\<bar> > 15 then
             (if my < 0 then
                (if alttab then swipe_done (kbd_pulse KBD_LALT_BIT 0x52 KBD_LALT_BIT (set_alttab_ids sc iToUse))
                 else if a = 3 \<and> threeFingerSwipeUpGesture st = SwipeUpGestureTaskView \<or>
                         a = 4 \<and> fourFingerSwipeUpGesture st = SwipeUpGestureTaskView then
                   (if \<bar>my\<bar> > 50 then swipe_done (kbd_pulse KBD_LGUI_BIT 0x2B 0 sc) else sc)
                 else sc)
              else
                (if alttab then swipe_done (kbd_pulse KBD_LALT_BIT 0x51 KBD_LALT_BIT (set_alttab_ids sc iToUse))
                 else if a = 3 \<and> threeFingerSwipeDownGesture st = SwipeDownGestureShowDesktop \<or>
                         a = 4 \<and> fourFingerSwipeDownGesture st = SwipeDownGestureShowDesktop then
                   (if \<bar>my\<bar> > 50 then swipe_done (kbd_pulse KBD_LGUI_BIT 0x07 0 sc) else sc)
                 else sc))
           else sc)
        else
          (if \<bar>mx\<bar> > 15 then
             (if mx > 0 then
                (if (a = 3 \<and> threeFingerSwipeLeftRightGesture st = SwipeGestureSwitchWorkspace \<or>
                     a = 4 \<and> fourFingerSwipeLeftRightGesture st = SwipeGestureSwitchWorkspace) \<and> \<not> alttab then
                   (if \<bar>mx\<bar> > 50 then swipe_done (kbd_pulse (KBD_LGUI_BIT OR KBD_LCONTROL_BIT) 0x50 0 sc)
                    else sc)
                 else if a = 3 \<and> threeFingerSwipeLeftRightGesture st = SwipeGestureAltTabSwitcher \<or>
                         a = 4 \<and> fourFingerSwipeLeftRightGesture st = SwipeGestureAltTabSwitcher \<or> alttab then
                   (let sc = set_alttab_ids sc iToUse in
                    if \<not> alttab
                    then (swipe_done (kbd_pulse KBD_LALT_BIT 0x2B KBD_LALT_BIT sc))\<lparr>alttabswitchershowing := True\<rparr>
                    else swipe_done (kbd_pulse KBD_LALT_BIT 0x4F KBD_LALT_BIT sc))
                 else sc)
              else
                (if (a = 3 \<and> threeFingerSwipeLeftRightGesture st = SwipeGestureSwitchWorkspace \<or>
                     a = 4 \<and> fourFingerSwipeLeftRightGesture st = SwipeGestureSwitchWorkspace) \<and> \<not> alttab then
                   (if \<bar>mx\<bar> > 50 then swipe_done (kbd_pulse (KBD_LGUI_BIT OR KBD_LCONTROL_BIT) 0x4F 0 sc)
                    else sc)
                 else if a = 3 \<and> threeFingerSwipeLeftRightGesture st = SwipeGestureAltTabSwitcher \<or>
                         a = 4 \<and> fourFingerSwipeLeftRightGesture st = SwipeGestureAltTabSwitcher \<or> alttab then
                   (let sc = set_alttab_ids sc iToUse in
                    if \<not> alttab
                    then (swipe_done (kbd_pulse (KBD_LALT_BIT OR KBD_LSHIFT_BIT) 0x2B KBD_LALT_BIT sc))
                           \<lparr>alttabswitchershowing := True\<rparr>
                    else swipe_done (kbd_pulse KBD_LALT_BIT 0x50 KBD_LALT_BIT sc))
                 else sc))
           else sc))
     else if multitaskinggesturetick sc > 25 then
       sc\<lparr>multitaskingx := 0, multitaskingy := 0, multitaskinggesturetick := 0, multitaskingdone := False\<rparr>
     else sc)"

text \<open>
  The inner loop of the alt-tab release scan: \<open>i = idsforalttab[j]\<close> is
  assigned, and the scan stops at the first non-zero id.
\<close>

fun alttab_match :: "int list \<Rightarrow> int \<Rightarrow> int \<times> bool" where
  "alttab_match [] i = (i, False)"
| "alttab_match (d # ds) i = (if d \<noteq> 0 then (d, True) else alttab_match ds d)"

partial_function (option) alttab_scan :: "int list \<Rightarrow> int list \<Rightarrow> int \<Rightarrow> bool \<Rightarrow> bool option" where
  "alttab_scan xs ids i found =
     (if \<not> i < int MAX_FINGERS then Some found
      else if found then Some found
      else if xs ! nat i = -1 then alttab_scan xs ids (i + 1) found
      else (case alttab_match (take 3 ids) i of (i', found') \<Rightarrow> alttab_scan xs ids (i' + 1) found'))"

declare alttab_scan.simps [code]

definition alttab_release :: "softc \<Rightarrow> softc option" where
  "alttab_release sc =
     (if alttabswitchershowing sc then
        do {
          foundTouch \<leftarrow> alttab_scan (sc_x sc) (idsforalttab sc) 0 False;
          Some (if \<not> foundTouch
                then (update_keyboard 0 no_keys sc)
                       \<lparr>alttabswitchershowing := False,
                        idsforalttab := fold (\<lambda>i a. a[i := -1]) [0..<3] (idsforalttab sc)\<rparr>
                else sc)
        }
      else Some sc)"

definition ProcessThreeFingerSwipe :: "softc \<Rightarrow> int \<Rightarrow> int list \<Rightarrow> (bool \<times> softc) option" where
  "ProcessThreeFingerSwipe sc abovethreshold iToUse =
    (let sc = (if alttabswitchershowing sc then update_keyboard KBD_LALT_BIT no_keys sc else sc) in
     if abovethreshold = 3 \<or> abovethreshold = 4 then
       (let sc = stop_scroll sc;
            i1 = iToUse ! 0; i2 = iToUse ! 1; i3 = iToUse ! 2;
            delta_x1 = sc_x sc ! nat i1 - lastx sc ! nat i1;
            delta_y1 = sc_y sc ! nat i1 - lasty sc ! nat i1;
            delta_x2 = sc_x sc ! nat i2 - lastx sc ! nat i2;
            delta_y2 = sc_y sc ! nat i2 - lasty sc ! nat i2;
            delta_x3 = sc_x sc ! nat i3 - lastx sc ! nat i3;
            delta_y3 = sc_y sc ! nat i3 - lasty sc ! nat i3;
            avgx = cdiv (delta_x1 + delta_x2 + delta_x3) 3;
            avgy = cdiv (delta_y1 + delta_y2 + delta_y3) 3;
            sc = sc\<lparr>multitaskingx := multitaskingx sc + avgx, multitaskingy := multitaskingy sc + avgy,
                    multitaskinggesturetick := multitaskinggesturetick sc + 1\<rparr>
        in Some (True, swipe_decide sc abovethreshold iToUse
                         (\<bar>delta_y1\<bar> + \<bar>delta_y2\<bar> + \<bar>delta_y3\<bar>) (\<bar>delta_x1\<bar> + \<bar>delta_x2\<bar> + \<bar>delta_x3\<bar>)))
     else
       do {
         sc \<leftarrow> alttab_release sc;
         Some (False, sc\<lparr>multitaskingx := 0, multitaskingy := 0, multitaskinggesturetick := 0,
                         multitaskingdone := False\<rparr>)
       })"

end
