(* ===== verification/Gesture.thy ===== *)
theory Gesture
  imports Gesture_Handlers
begin

text \<open>
  One tick of the recogniser, \<open>ProcessGesture\<close> (driver.cpp lines 960-1157),
  and the parts it is made of, in the order the code runs them: the motion
  threshold classification, the gesture stages of theory
  \<open>Gesture_Handlers\<close>, the click-button synthesis, the per-slot bookkeeping
  (with \<open>ClearTapDrag\<close>), tap-to-click (\<open>TapToClickOrDrag\<close>), and the
  relative-mouse report.  Each of the code's \<open>for\<close> loops over the five slots
  is a \<open>fold\<close> of a per-slot function over \<open>[0..<MAX_FINGERS]\<close>.
\<close>

subsection \<open>Tap-to-click and tap-drag\<close>

text \<open>
  The \<open>switch (button)\<close> of \<open>TapToClickOrDrag\<close> (lines 887-934): the button
  mask a tap with \<open>button\<close> fingers selects, and the keyboard shortcut a
  three- or four-finger tap may send instead.
\<close>

definition tap_action :: "softc \<Rightarrow> int \<Rightarrow> int \<times> softc" where
  "tap_action sc button =
    (let st = settings sc in
     if button = 1 then (if \<not> swapLeftRightFingers st then MOUSE_BUTTON_1 else MOUSE_BUTTON_2, sc)
     else if button = 2 then
       (if multiFingerTap st
        then (if \<not> swapLeftRightFingers st then MOUSE_BUTTON_2 else MOUSE_BUTTON_1) else 0, sc)
     else if button = 3 then
       (if multiFingerTap st then
          (if threeFingerTapAction st = ThreeFingerTapActionWheelClick then (MOUSE_BUTTON_3, sc)
           else if threeFingerTapAction st = ThreeFingerTapActionCortana
           then (0, kbd_pulse KBD_LGUI_BIT 0x06 0 sc)
           else (0, sc))
        else (0, sc))
     else if button = 4 then
       (if fourFingerTapEnabled st then (0, kbd_pulse KBD_LGUI_BIT 0x04 0 sc) else (0, sc))
     else (0, sc))"

definition TapToClickOrDrag :: "softc \<Rightarrow> int \<Rightarrow> softc" where
  "TapToClickOrDrag sc button =
    (if \<not> tapToClickEnabled (settings sc) then sc
     else if scrollInertiaActive sc then sc
     else
      (let sc = sc\<lparr>tickssinceclick := tickssinceclick sc + 1\<rparr> in
       if mouseDownDueToTap sc \<and> idForMouseDown sc = -1 then
         (if tickssinceclick sc > 10
          then sc\<lparr>mouseDownDueToTap := False, mousedown := False, buttonmask := 0\<rparr>
          else sc)
       else if mousedown sc then sc\<lparr>tickssinceclick := 0\<rparr>
       else if button = 0 then sc
       else
        (let button = fold (\<lambda>i b. if truetick sc ! i < 10 \<and> truetick sc ! i > 0 then b + 1 else b)
                        [0..<MAX_FINGERS] button;
             (bm, sc) = tap_action sc button
         in if bm \<noteq> 0 \<and> tickssinceclick sc > 10 \<and> ticksincelastrelease sc = 0
            then sc\<lparr>idForMouseDown := -1, mouseDownDueToTap := True, buttonmask := bm,
                    mousebutton := button, mousedown := True, tickssinceclick := 0\<rparr>
            else sc)))"

text \<open>
  \<open>ClearTapDrag\<close>: the slot carrying a tap-drag is released; if it was down
  for fewer than 10 ticks the button is pulsed up and down again.
\<close>

definition ClearTapDrag :: "softc \<Rightarrow> nat \<Rightarrow> softc" where
  "ClearTapDrag sc i =
    (if int i = idForMouseDown sc \<and> mouseDownDueToTap sc then
       (let sc = (if tick sc ! i < 10
                  then update_relative_mouse (to_u8 (buttonmask sc)) 0 0 0 0
                         (update_relative_mouse 0 0 0 0 0 sc)
                  else sc)
        in sc\<lparr>mouseDownDueToTap := False, mousedown := False, buttonmask := 0, idForMouseDown := -1\<rparr>)
     else sc)"

subsection \<open>Motion threshold classification\<close>

text \<open>
  One iteration of the loop of lines 981-997 on the accumulator
  (abovethreshold, recentlyadded, lastrecentlyadded, iToUse).  The store
  \<open>iToUse[a] = i\<close> uses the counter as index; \<open>iToUse\<close> has three entries,
  and a fourth or fifth slot above the threshold writes past its end in C.
  Here that store leaves the list unchanged (\<open>xs[n := v] = xs\<close> for
  \<open>n \<ge> length xs\<close>).
\<close>

definition touch_threshold :: "softc \<Rightarrow> nat \<Rightarrow> int \<times> int \<times> int \<times> int list \<Rightarrow> int \<times> int \<times> int \<times> int list" where
  "touch_threshold sc i acc =
    (case acc of (abovethreshold, recentlyadded, lastrecentlyadded, iToUse) \<Rightarrow>
      let (recentlyadded, lastrecentlyadded) =
            (if truetick sc ! i < 30 \<and> truetick sc ! i \<noteq> 0
             then (recentlyadded + 1, int i) else (recentlyadded, lastrecentlyadded))
      in if tick sc ! i = 0 \<or> blacklistedids sc ! i = 1
         then (abovethreshold, recentlyadded, lastrecentlyadded, iToUse)
         else
          (let avgx = cdiv (flextotalx sc ! i) (tick sc ! i);
               avgy = cdiv (flextotaly sc ! i) (tick sc ! i)
           in if distancesq avgx avgy > 2
              then (abovethreshold + 1, recentlyadded, lastrecentlyadded, iToUse[nat abovethreshold := int i])
              else (abovethreshold, recentlyadded, lastrecentlyadded, iToUse)))"

definition thresholds :: "softc \<Rightarrow> int \<times> int \<times> int \<times> int list" where
  "thresholds sc = fold (touch_threshold sc) [0..<MAX_FINGERS] (0, 0, -1, [-1, -1, -1])"

definition count_fingers :: "softc \<Rightarrow> int" where
  "count_fingers sc = fold (\<lambda>i n. if sc_x sc ! i \<noteq> -1 then n + 1 else n) [0..<MAX_FINGERS] 0"

subsection \<open>Click-button synthesis\<close>

definition click_buttons :: "softc \<Rightarrow> int \<Rightarrow> int \<Rightarrow> int \<Rightarrow> int \<Rightarrow> softc" where
  "click_buttons sc recentlyadded lastrecentlyadded abovethreshold nfingers =
    (let st = settings sc;
         mb = recentlyadded;
         mb = (if rightClickBottomRight st \<and> mb = 1 \<and> lastrecentlyadded \<noteq> -1
                  \<and> sc_x sc ! nat lastrecentlyadded > cdiv (resx sc) 2
                  \<and> sc_y sc ! nat lastrecentlyadded > resy sc - 60
               then 2 else mb);
         mb = (if mb = 0 then abovethreshold else mb);
         mb = (if mb = 0
               then (let m = (if panningActive sc then 1 else nfingers) in
                     if m = 0 \<and> clickWithNoFingers st then 1 else m)
               else mb);
         mb = (if mb > 3 then 3 else mb);
         sc = sc\<lparr>mousebutton := mb\<rparr>
     in if \<not> mouseDownDueToTap sc then
          (if buttondown sc \<and> \<not> mousedown sc then
             (let bm = (if mb = 1 then (if \<not> swapLeftRightFingers st then MOUSE_BUTTON_1 else MOUSE_BUTTON_2)
                        else if mb = 2 then
                          (if multiFingerClick st
                           then (if \<not> swapLeftRightFingers st then MOUSE_BUTTON_2 else MOUSE_BUTTON_1) else 0)
                        else if mb = 3 then (if multiFingerClick st then MOUSE_BUTTON_3 else 0)
                        else 0)
              in sc\<lparr>mousedown := True, tickssinceclick := 0, buttonmask := bm\<rparr>)
           else if mousedown sc \<and> \<not> buttondown sc
           then sc\<lparr>mousedown := False, mousebutton := 0, buttonmask := 0\<rparr>
           else sc)
        else sc)"

subsection \<open>Per-slot bookkeeping\<close>

text \<open>
  The flex window of one axis of one slot: the running total, the windowed
  total and the 10-sample ring.  While the slot is younger than 10 ticks each
  displacement \<open>a\<close> is added to the total, the windowed total is set to the
  total, and \<open>a\<close> is stored at the slot's age (\<open>flex_record\<close>); afterwards the
  ring slides: its oldest sample leaves the windowed total, the ring shifts
  left and \<open>a\<close> enters at its end (\<open>flex_slide\<close>).
\<close>

definition flex_record :: "int \<times> int \<times> int list \<Rightarrow> nat \<Rightarrow> int \<Rightarrow> int \<times> int \<times> int list" where
  "flex_record w j a = (case w of (tot, flx, hst) \<Rightarrow> (tot + a, tot + a, hst[j := a]))"

definition flex_slide :: "int \<times> int \<times> int list \<Rightarrow> int \<Rightarrow> int \<times> int \<times> int list" where
  "flex_slide w a =
     (case w of (tot, flx, hst) \<Rightarrow>
        (tot + a, flx - hst ! 0 + a, (fold (\<lambda>j h. h[j - 1 := h ! j]) [1..<10] hst)[9 := a]))"

definition get_axes :: "softc \<Rightarrow> nat \<Rightarrow> (int \<times> int \<times> int list) \<times> (int \<times> int \<times> int list)" where
  "get_axes sc i =
     ((totalx sc ! i, flextotalx sc ! i, xhistory sc ! i), (totaly sc ! i, flextotaly sc ! i, yhistory sc ! i))"

definition put_axes :: "softc \<Rightarrow> nat \<Rightarrow> (int \<times> int \<times> int list) \<times> (int \<times> int \<times> int list) \<Rightarrow> softc" where
  "put_axes sc i ws =
     (case ws of ((tx, fx, hx), (ty, fy, hy)) \<Rightarrow>
        sc\<lparr>totalx := (totalx sc)[i := tx], flextotalx := (flextotalx sc)[i := fx],
           xhistory := (xhistory sc)[i := hx],
           totaly := (totaly sc)[i := ty], flextotaly := (flextotaly sc)[i := fy],
           yhistory := (yhistory sc)[i := hy]\<rparr>)"

text \<open>A slot in contact this tick (lines 1073-1119).\<close>

definition slot_contact :: "softc \<Rightarrow> nat \<Rightarrow> softc" where
  "slot_contact sc i =
    (let sc = sc\<lparr>idForMouseDown :=
                 (if lastx sc ! i = -1 \<and> ticksincelastrelease sc < 10 \<and> mouseDownDueToTap sc
                     \<and> idForMouseDown sc = -1 \<and> tapDragEnabled (settings sc)
                  then int i else idForMouseDown sc)\<rparr>;
         sc = sc\<lparr>truetick := (truetick sc)[i := truetick sc ! i + 1]\<rparr>;
         absx = \<bar>sc_x sc ! i - lastx sc ! i\<bar>;
         absy = \<bar>sc_y sc ! i - lasty sc ! i\<bar>;
         (wx, wy) = get_axes sc i;
         ticks = (tick sc)[i := tick sc ! i + 1]
     in if tick sc ! i < 10 then
          (if lastx sc ! i \<noteq> -1
           then (put_axes sc i (flex_record wx (nat (tick sc ! i)) absx,
                                flex_record wy (nat (tick sc ! i)) absy))
                  \<lparr>totalp := (totalp sc)[i := totalp sc ! i + sc_p sc ! i], tick := ticks\<rparr>
           else sc\<lparr>tick := ticks\<rparr>)
        else if lastx sc ! i \<noteq> -1 then put_axes sc i (flex_slide wx absx, flex_slide wy absy)
        else sc)"

text \<open>A slot not in contact this tick (lines 1120-1145).\<close>

definition slot_release :: "softc \<Rightarrow> nat \<Rightarrow> int \<Rightarrow> softc \<times> int" where
  "slot_release sc i releasedfingers =
    (let sc = ClearTapDrag sc i;
         sc = sc\<lparr>ticksincelastrelease := (if lastx sc ! i \<noteq> -1 then -1 else ticksincelastrelease sc)\<rparr>;
         sc = sc\<lparr>xhistory := (xhistory sc)[i := fold (\<lambda>j h. h[j := 0]) [0..<10] (xhistory sc ! i)],
                 yhistory := (yhistory sc)[i := fold (\<lambda>j h. h[j := 0]) [0..<10] (yhistory sc ! i)]\<rparr>;
         releasedfingers =
           (if tick sc ! i < 10 \<and> tick sc ! i \<noteq> 0 \<and> cdiv (totalp sc ! i) (tick sc ! i) > 7
            then releasedfingers + 1 else releasedfingers);
         sc = sc\<lparr>totalx := (totalx sc)[i := 0], totaly := (totaly sc)[i := 0],
                 totalp := (totalp sc)[i := 0], tick := (tick sc)[i := 0],
                 truetick := (truetick sc)[i := 0], blacklistedids := (blacklistedids sc)[i := 0]\<rparr>;
         sc = sc\<lparr>panningActive := (if idForPanning sc = int i then False else panningActive sc),
                 idForPanning := (if idForPanning sc = int i then -1 else idForPanning sc)\<rparr>
     in (sc, releasedfingers))"

definition shift_slot :: "nat \<Rightarrow> softc \<times> int \<Rightarrow> softc \<times> int" where
  "shift_slot i acc =
    (case acc of (sc, releasedfingers) \<Rightarrow>
      let sc = (if sc_x sc ! i \<noteq> -1 then slot_contact sc i else sc);
          (sc, releasedfingers) =
            (if sc_x sc ! i = -1 then slot_release sc i releasedfingers else (sc, releasedfingers))
      in (sc\<lparr>lastx := (lastx sc)[i := sc_x sc ! i], lasty := (lasty sc)[i := sc_y sc ! i],
             lastp := (lastp sc)[i := sc_p sc ! i]\<rparr>, releasedfingers))"

subsection \<open>One tick\<close>

definition ProcessGesture :: "softc \<Rightarrow> softc option" where
  "ProcessGesture sc =
    do {
      let sc = sc\<lparr>sc_dx := 0, sc_dy := 0\<rparr>;
      let nfingers = count_fingers sc;
      let (abovethreshold, recentlyadded, lastrecentlyadded, iToUse) = thresholds sc;
      (handled, sc) \<leftarrow> ProcessThreeFingerSwipe sc abovethreshold iToUse;
      let (handled, sc) = (if handled then (handled, sc) else ProcessScroll sc abovethreshold iToUse);
      let (handled, sc) = (if handled then (handled, sc) else ProcessMove sc abovethreshold iToUse);
      let sc = click_buttons sc recentlyadded lastrecentlyadded abovethreshold nfingers;
      let (sc, releasedfingers) = fold shift_slot [0..<MAX_FINGERS] (sc, 0);
      let sc = sc\<lparr>ticksincelastrelease := ticksincelastrelease sc + 1\<rparr>;
      let sc = TapToClickOrDrag sc releasedfingers;
      Some (update_relative_mouse (to_u8 (buttonmask sc)) (to_u8 (sc_dx sc)) (to_u8 (sc_dy sc))
              (to_u8 (scrolly sc)) (to_u8 (scrollx sc)) sc)
    }"

end
