(* ===== verification/Gesture_Inv.thy ===== *)
theory Gesture_Inv
  imports Gesture
begin

text \<open>
  Well-formedness of the gesture state is kept by every stage of
  \<open>ProcessGesture\<close>: all per-slot arrays keep their five entries, the
  ten-entry histories keep their length, and the scroll and alt-tab id arrays
  keep theirs, so every index the code computes from a slot number is in
  range.  The threshold scan is characterised by list filters, and the
  alt-tab release scan is shown to end whenever one of the three bound ids is
  non-zero.
\<close>

subsection \<open>Reference definitions\<close>

text \<open>
  The per-slot tests of the threshold loop (driver.cpp lines 970-996): the slot
  moved on average more than \<open>sqrt 2\<close> units per tick over its window and is not
  blacklisted; the slot touched within the last 30 ticks.  \<open>pad3\<close> is the
  three-entry \<open>iToUse\<close> array: the first three ids, then -1.
\<close>
definition touch_above :: "softc \<Rightarrow> nat \<Rightarrow> bool" where
  "touch_above sc i \<longleftrightarrow> tick sc ! i \<noteq> 0 \<and> blacklistedids sc ! i \<noteq> 1 \<and>
     distancesq (cdiv (flextotalx sc ! i) (tick sc ! i)) (cdiv (flextotaly sc ! i) (tick sc ! i)) > 2"

definition touch_recent :: "softc \<Rightarrow> nat \<Rightarrow> bool" where
  "touch_recent sc i \<longleftrightarrow> truetick sc ! i < 30 \<and> truetick sc ! i \<noteq> 0"

definition pad3 :: "int list \<Rightarrow> int list" where
  "pad3 xs = take 3 (xs @ [-1, -1, -1])"

text \<open>
  The invariant of the gesture state: well-formedness, and while the alt-tab
  switcher is showing, one of the three ids bound to it is non-zero (the
  condition under which the release scan of driver.cpp lines 828-839 ends).
  \<open>alttab_part\<close> is the part of the state that only the swipe stage writes.
\<close>


definition alttab_ok :: "softc \<Rightarrow> bool" where
  "alttab_ok sc \<longleftrightarrow> (alttabswitchershowing sc \<longrightarrow> list_ex (\<lambda>d. d \<noteq> 0) (idsforalttab sc))"

definition gesture_inv :: "softc \<Rightarrow> bool" where
  "gesture_inv sc \<longleftrightarrow> softc_wf sc \<and> alttab_ok sc"

definition alttab_part :: "softc \<Rightarrow> bool \<times> int list" where
  "alttab_part sc = (alttabswitchershowing sc, idsforalttab sc)"

subsection \<open>Preservation of well-formedness\<close>


lemmas wf_simps = if_distrib [of snd] if_distrib [of fst] if_distrib [of length] softc_wf_if

lemma length_blacklist_others [simp]: "length (blacklist_others sc i) = length (blacklistedids sc)"
  unfolding blacklist_others_def by (rule length_fold_preserve) simp

lemma wf_ProcessMove: "softc_wf sc \<Longrightarrow> softc_wf (snd (ProcessMove sc a ids))"
  unfolding ProcessMove_def Let_def
  by (simp add: wf_simps cong: if_cong split del: if_split)

lemma wf_ProcessScroll: "softc_wf sc \<Longrightarrow> softc_wf (snd (ProcessScroll sc a ids))"
  unfolding ProcessScroll_def Let_def
  by (simp add: wf_simps cong: if_cong split del: if_split)

lemma wf_swipe_done [simp]: "softc_wf (swipe_done sc) = softc_wf sc"
  by (simp add: swipe_done_def)

lemma wf_set_alttab_ids [simp]: "softc_wf (set_alttab_ids sc ids) = softc_wf sc"
  unfolding set_alttab_ids_def by (simp add: length_fold_preserve)

lemma wf_swipe_decide: "softc_wf sc \<Longrightarrow> softc_wf (swipe_decide sc a ids sy sx)"
  unfolding swipe_decide_def Let_def
  by (simp add: wf_simps cong: if_cong split del: if_split)

lemma wf_tap_action: "softc_wf (snd (tap_action sc b)) = softc_wf sc"
  by (simp add: tap_action_def Let_def)

lemma wf_TapToClickOrDrag: "softc_wf sc \<Longrightarrow> softc_wf (TapToClickOrDrag sc b)"
  unfolding TapToClickOrDrag_def Let_def
  by (simp add: wf_simps wf_tap_action case_prod_beta cong: if_cong split del: if_split)

lemma wf_click_buttons: "softc_wf sc \<Longrightarrow> softc_wf (click_buttons sc r l a n)"
  unfolding click_buttons_def Let_def
  by (simp add: wf_simps cong: if_cong split del: if_split)

lemma wf_ClearTapDrag [simp]: "softc_wf (ClearTapDrag sc i) = softc_wf sc"
  unfolding ClearTapDrag_def Let_def
  by (simp add: wf_simps cong: if_cong split del: if_split)

lemma flex_record_eq [simp]: "flex_record (t, f, h) j a = (t + a, t + a, h[j := a])"
  by (simp add: flex_record_def)

lemma length_flex_slide [simp]: "length (snd (snd (flex_slide w a))) = length (snd (snd w))"
  by (cases w) (simp add: flex_slide_def length_fold_preserve)

lemma wf_put_axes [simp]:
  "length hx = length (xhistory sc ! i) \<Longrightarrow> length hy = length (yhistory sc ! i) \<Longrightarrow>
   softc_wf (put_axes sc i ((tx, fx, hx), (ty, fy, hy))) = softc_wf sc"
  by (simp add: put_axes_def)

lemma put_axes_sel [simp]:
  "tick (put_axes sc i ws) = tick sc" "totalp (put_axes sc i ws) = totalp sc"
  by (simp_all add: put_axes_def split: prod.splits)

lemma wf_put_axes_pair [simp]:
  "length (snd (snd wx)) = length (xhistory sc ! i) \<Longrightarrow> length (snd (snd wy)) = length (yhistory sc ! i) \<Longrightarrow>
   softc_wf (put_axes sc i (wx, wy)) = softc_wf sc"
  by (cases wx; cases wy) (simp add: put_axes_def)

lemma wf_slot_contact: "softc_wf sc \<Longrightarrow> softc_wf (slot_contact sc i)"
  unfolding slot_contact_def Let_def get_axes_def
  by (simp add: wf_simps cong: if_cong split del: if_split)

lemma wf_slot_release: "softc_wf sc \<Longrightarrow> softc_wf (fst (slot_release sc i r))"
  unfolding slot_release_def Let_def
  by (simp add: wf_simps cong: if_cong split del: if_split)

lemma wf_shift_slot: "softc_wf sc \<Longrightarrow> softc_wf (fst (shift_slot i (sc, r)))"
  unfolding shift_slot_def Let_def
  by (simp add: wf_simps wf_slot_contact wf_slot_release case_prod_beta cong: if_cong split del: if_split)

lemma wf_fold_shift_slot:
  "softc_wf sc \<Longrightarrow> softc_wf (fst (fold shift_slot is (sc, r)))"
proof (induction "is" arbitrary: sc r)
  case Nil
  then show ?case by simp
next
  case (Cons i "is")
  obtain sc' r' where eq: "shift_slot i (sc, r) = (sc', r')" by (cases "shift_slot i (sc, r)")
  from wf_shift_slot [OF Cons.prems, of i r] eq have "softc_wf sc'" by simp
  then show ?case using Cons.IH eq by simp
qed

subsection \<open>The threshold scan\<close>

lemma pad3_snoc: "(pad3 A)[length A := v] = pad3 (A @ [v])"
proof (cases "length A < 3")
  case True
  then show ?thesis
    by (simp add: pad3_def list_update_append nth_append take_update_swap[symmetric])
       (cases A rule: rev_cases; auto simp: list_update_append take_Cons' split: if_splits)
next
  case False
  then show ?thesis by (simp add: pad3_def list_update_beyond)
qed

lemma fold_touch_threshold:
  "fold (touch_threshold sc) is (int (length A), r, l, pad3 A) =
     (int (length (A @ map int (filter (touch_above sc) is))),
      r + int (length (filter (touch_recent sc) is)),
      (if filter (touch_recent sc) is = [] then l else int (last (filter (touch_recent sc) is))),
      pad3 (A @ map int (filter (touch_above sc) is)))"
proof (induction "is" arbitrary: A r l)
  case Nil
  then show ?case by simp
next
  case (Cons i "is")
  show ?case
  proof (cases "touch_above sc i")
    case True
    then have "touch_threshold sc i (int (length A), r, l, pad3 A) =
      (int (length (A @ [int i])), (if touch_recent sc i then r + 1 else r),
       (if touch_recent sc i then int i else l), pad3 (A @ [int i]))"
      by (simp add: touch_threshold_def touch_above_def touch_recent_def pad3_snoc)
    then show ?thesis using True Cons.IH [of "A @ [int i]"] by auto
  next
    case False
    then have "touch_threshold sc i (int (length A), r, l, pad3 A) =
      (int (length A), (if touch_recent sc i then r + 1 else r),
       (if touch_recent sc i then int i else l), pad3 A)"
      by (auto simp: touch_threshold_def touch_above_def touch_recent_def)
    then show ?thesis using False Cons.IH [of A] by auto
  qed
qed

text \<open>
  C15: the threshold loop computes the number of slots above the motion
  threshold, the number of recently added slots and the last of them, and
  \<open>iToUse\<close> holds the first three slots above the threshold, padded with -1.
\<close>

theorem thresholds_eq:
  "thresholds sc =
     (let A = filter (touch_above sc) [0..<MAX_FINGERS]; R = filter (touch_recent sc) [0..<MAX_FINGERS] in
      (int (length A), int (length R), (if R = [] then -1 else int (last R)), pad3 (map int A)))"
  using fold_touch_threshold [of sc "[0..<MAX_FINGERS]" "[]" 0 "-1"]
  by (simp add: thresholds_def pad3_def Let_def)

subsection \<open>The alt-tab release scan\<close>


lemma alttab_scan_found: "alttab_scan xs ids i True = Some True"
  by (subst alttab_scan.simps) simp

lemma alttab_match_nonzero:
  "list_ex (\<lambda>d. d \<noteq> 0) ds \<Longrightarrow> snd (alttab_match ds i)"
  by (induction ds i rule: alttab_match.induct) auto

lemma alttab_scan_Some:
  assumes ids: "list_ex (\<lambda>d. d \<noteq> 0) (take 3 ids)" and i: "0 \<le> i"
  shows "alttab_scan xs ids i False = Some (\<exists>k. nat i \<le> k \<and> k < MAX_FINGERS \<and> xs ! k \<noteq> -1)"
  using i
proof (induction "nat (5 - i)" arbitrary: i rule: less_induct)
  case less
  show ?case
  proof (cases "i < 5")
    case False
    then show ?thesis by (subst alttab_scan.simps) auto
  next
    case True
    show ?thesis
    proof (cases "xs ! nat i = -1")
      case touch: True
      have "alttab_scan xs ids (i + 1) False = Some (\<exists>k. nat (i + 1) \<le> k \<and> k < MAX_FINGERS \<and> xs ! k \<noteq> -1)"
        using less True by (intro less.hyps) auto
      moreover have "(\<exists>k. nat (i + 1) \<le> k \<and> k < MAX_FINGERS \<and> xs ! k \<noteq> -1) =
                     (\<exists>k. nat i \<le> k \<and> k < MAX_FINGERS \<and> xs ! k \<noteq> -1)"
      proof
        assume "\<exists>k. nat (i + 1) \<le> k \<and> k < MAX_FINGERS \<and> xs ! k \<noteq> -1"
        then obtain k where k: "nat (i + 1) \<le> k" "k < MAX_FINGERS" "xs ! k \<noteq> -1" by blast
        have "nat i \<le> nat (i + 1)" by simp
        with k show "\<exists>k. nat i \<le> k \<and> k < MAX_FINGERS \<and> xs ! k \<noteq> -1"
          using le_trans by blast
      next
        assume "\<exists>k. nat i \<le> k \<and> k < MAX_FINGERS \<and> xs ! k \<noteq> -1"
        then obtain k where k: "nat i \<le> k" "k < MAX_FINGERS" "xs ! k \<noteq> -1" by blast
        with touch have "nat (i + 1) \<le> k" using less.prems by (cases "k = nat i") auto
        with k show "\<exists>k. nat (i + 1) \<le> k \<and> k < MAX_FINGERS \<and> xs ! k \<noteq> -1" by blast
      qed
      ultimately show ?thesis
        using True touch by (subst alttab_scan.simps) simp
    next
      case False
      obtain d where m: "alttab_match (take 3 ids) i = (d, True)"
        using alttab_match_nonzero [OF ids, of i] by (cases "alttab_match (take 3 ids) i") auto
      have "\<exists>k. nat i \<le> k \<and> k < MAX_FINGERS \<and> xs ! k \<noteq> -1"
        using False True by (intro exI [of _ "nat i"]) auto
      then show ?thesis
        using True False m by (subst alttab_scan.simps) (simp add: alttab_scan_found)
    qed
  qed
qed

subsection \<open>The alt-tab state outside the swipe stage\<close>

lemmas alttab_simps = if_distrib [of snd] if_distrib [of fst] if_distrib [of alttabswitchershowing] if_distrib [of idsforalttab] alttab_part_def

lemma alttab_part_ProcessMove [simp]: "alttab_part (snd (ProcessMove sc a ids)) = alttab_part sc"
  unfolding ProcessMove_def Let_def
  by (simp add: alttab_simps cong: if_cong split del: if_split)

lemma alttab_part_ProcessScroll [simp]: "alttab_part (snd (ProcessScroll sc a ids)) = alttab_part sc"
  unfolding ProcessScroll_def Let_def
  by (simp add: alttab_simps cong: if_cong split del: if_split)

lemma alttab_part_click_buttons [simp]: "alttab_part (click_buttons sc r l a n) = alttab_part sc"
  unfolding click_buttons_def Let_def
  by (simp add: alttab_simps cong: if_cong split del: if_split)

lemma alttab_part_TapToClickOrDrag [simp]: "alttab_part (TapToClickOrDrag sc b) = alttab_part sc"
  unfolding TapToClickOrDrag_def tap_action_def Let_def
  by (simp add: alttab_simps case_prod_beta cong: if_cong split del: if_split)

lemma alttab_part_slot_contact [simp]: "alttab_part (slot_contact sc i) = alttab_part sc"
  unfolding slot_contact_def get_axes_def Let_def
  by (simp add: alttab_simps put_axes_def case_prod_beta cong: if_cong split del: if_split)

lemma alttab_part_slot_release [simp]: "alttab_part (fst (slot_release sc i r)) = alttab_part sc"
  unfolding slot_release_def ClearTapDrag_def Let_def
  by (simp add: alttab_simps cong: if_cong split del: if_split)

lemma sc_x_slot_contact [simp]: "sc_x (slot_contact sc i) = sc_x sc"
  unfolding slot_contact_def get_axes_def Let_def
  by (simp add: if_distrib [of sc_x] put_axes_def case_prod_beta cong: if_cong split del: if_split)

lemma alttab_part_last_upd [simp]:
  "alttab_part (sc\<lparr>lastx := a, lasty := b, lastp := c\<rparr>) = alttab_part sc"
  by (simp add: alttab_part_def)

lemma alttab_part_shift_slot [simp]: "alttab_part (fst (shift_slot i (sc, r))) = alttab_part sc"
  by (cases "sc_x sc ! i = -1") (simp_all add: shift_slot_def Let_def case_prod_beta)

lemma alttab_part_fold_shift_slot:
  "alttab_part (fst (fold shift_slot is (sc, r))) = alttab_part sc"
proof (induction "is" arbitrary: sc r)
  case Nil
  then show ?case by simp
next
  case (Cons i "is")
  obtain sc' r' where eq: "shift_slot i (sc, r) = (sc', r')" by (cases "shift_slot i (sc, r)")
  from alttab_part_shift_slot [of i sc r] eq have "alttab_part sc' = alttab_part sc" by simp
  then show ?case using Cons.IH eq by simp
qed

lemma alttab_ok_part: "alttab_part sc' = alttab_part sc \<Longrightarrow> alttab_ok sc' = alttab_ok sc"
  by (simp add: alttab_part_def alttab_ok_def)

lemma set_alttab_ids_eq [simp]:
  "length (idsforalttab sc) = 3 \<Longrightarrow> length ids = 3 \<Longrightarrow> idsforalttab (set_alttab_ids sc ids) = ids"
  by (auto simp: set_alttab_ids_def upt_slots intro!: nth_equalityI simp: nth_list_update less_Suc_eq numeral_3_eq_3)

lemma alttabswitchershowing_set_alttab_ids [simp]:
  "alttabswitchershowing (set_alttab_ids sc ids) = alttabswitchershowing sc"
  by (simp add: set_alttab_ids_def)

lemma if_in: "x \<in> S \<Longrightarrow> y \<in> S \<Longrightarrow> (if c then x else y) \<in> S"
  by simp

lemma alttab_part_swipe_decide:
  "length (idsforalttab sc) = 3 \<Longrightarrow> length ids = 3 \<Longrightarrow>
   alttab_part (swipe_decide sc a ids sy sx) \<in> {alttab_part sc, (alttabswitchershowing sc, ids), (True, ids)}"
  unfolding swipe_decide_def Let_def
  by (simp only: if_distrib [of alttab_part]) (intro if_in; simp add: alttab_part_def swipe_done_def set_alttab_ids_eq)

end
