(* ===== verification/Gesture_Run.thy ===== *)
theory Gesture_Run
  imports Gesture_Inv
begin

text \<open>
  Termination of a tick: \<open>ProcessGesture\<close> returns (is not \<open>None\<close>) on every
  state satisfying the gesture invariant, and the state it returns satisfies
  it again, so every run of ticks from the initial state returns.  Without the
  invariant the alt-tab release scan can loop forever.
\<close>

text \<open>
  \<open>scan_loops\<close>: the states of the alt-tab release scan from which it never
  returns: all three bound ids are 0 and a slot at index 1 or above, not before
  the scan position, is in contact.
\<close>

definition scan_loops :: "int list \<Rightarrow> int list \<Rightarrow> int \<Rightarrow> bool \<Rightarrow> bool" where
  "scan_loops xs ids i found \<longleftrightarrow> take 3 ids = [0, 0, 0] \<and> \<not> found \<and> 0 \<le> i \<and>
     (\<exists>k. nat i \<le> k \<and> 1 \<le> k \<and> k < MAX_FINGERS \<and> xs ! k \<noteq> -1)"

text \<open>A state with the switcher showing, bound to slots 1-3, and only slot 4 in contact.\<close>

definition alttab_witness_state :: softc where
  "alttab_witness_state = (init_softc 1000 1000)\<lparr>alttabswitchershowing := True, idsforalttab := [1, 2, 3],
     sc_x := [-1, -1, -1, -1, 500]\<rparr>"

lemma alttab_ok_swipe_decide:
  assumes "softc_wf sc" "alttab_ok sc" "length ids = 3" "list_ex (\<lambda>d. d \<noteq> 0) ids"
  shows "alttab_ok (swipe_decide sc a ids sy sx)"
proof -
  have "length (idsforalttab sc) = 3" using assms(1) by (simp add: softc_wf_def)
  then have "alttab_part (swipe_decide sc a ids sy sx) \<in> {alttab_part sc, (alttabswitchershowing sc, ids), (True, ids)}"
    using assms(3) by (rule alttab_part_swipe_decide)
  then show ?thesis using assms(2,4) by (auto simp: alttab_ok_def alttab_part_def)
qed

lemma alttab_release_Some:
  assumes "gesture_inv sc"
  shows "\<exists>sc'. alttab_release sc = Some sc' \<and> gesture_inv sc'"
proof (cases "alttabswitchershowing sc")
  case False
  then show ?thesis using assms by (simp add: alttab_release_def)
next
  case True
  have len: "length (idsforalttab sc) = 3" using assms by (simp add: gesture_inv_def softc_wf_def)
  then have "take 3 (idsforalttab sc) = idsforalttab sc" by simp
  with True assms have "list_ex (\<lambda>d. d \<noteq> 0) (take 3 (idsforalttab sc))"
    by (simp add: gesture_inv_def alttab_ok_def)
  from alttab_scan_Some [OF this, of 0 "sc_x sc"] obtain f where
    scan: "alttab_scan (sc_x sc) (idsforalttab sc) 0 False = Some f" by simp
  have "fold (\<lambda>i a. a[i := -1]) [0..<3] (idsforalttab sc) = [-1, -1, -1]"
    using len by (simp add: upt_slots) (auto simp: numeral_3_eq_3 length_Suc_conv)
  then show ?thesis
    using assms True scan len
    by (simp add: alttab_release_def gesture_inv_def alttab_ok_def)
qed

lemma distinct_nonzero: "distinct xs \<Longrightarrow> 2 \<le> length xs \<Longrightarrow> list_ex (\<lambda>d. d \<noteq> (0::int)) xs"
proof (rule ccontr)
  assume d: "distinct xs" and l: "2 \<le> length xs" and n: "\<not> list_ex (\<lambda>d. d \<noteq> (0::int)) xs"
  then have "set xs \<subseteq> {0}" by (auto simp: list_ex_iff)
  then have "card (set xs) \<le> 1" using card_mono [of "{0::int}" "set xs"] by simp
  with d l show False by (simp add: distinct_card)
qed

lemma thresholds_iToUse:
  assumes "thresholds sc = (a, r, l, ids)"
  shows "length ids = 3 \<and> ((a = 3 \<or> a = 4) \<longrightarrow> list_ex (\<lambda>d. d \<noteq> 0) ids)"
proof -
  define A where "A = filter (touch_above sc) [0..<MAX_FINGERS]"
  have a: "a = int (length A)" and ids: "ids = pad3 (map int A)"
    using assms fold_touch_threshold [of sc "[0..<MAX_FINGERS]" "[]" 0 "-1"]
    by (simp_all add: A_def thresholds_def pad3_def)
  have "length ids = 3" by (simp add: ids pad3_def)
  moreover have "list_ex (\<lambda>d. d \<noteq> 0) ids" if "a = 3 \<or> a = 4"
  proof -
    have "3 \<le> length A" using that a by auto
    then have "ids = take 3 (map int A)" by (simp add: ids pad3_def)
    moreover have "distinct (take 3 (map int A))"
      by (simp add: A_def distinct_map inj_on_def)
    moreover have "2 \<le> length (take 3 (map int A))" using \<open>3 \<le> length A\<close> by simp
    ultimately show ?thesis using distinct_nonzero by simp
  qed
  ultimately show ?thesis by blast
qed

lemma gesture_inv_sink [simp]:
  "gesture_inv (SynaProcessVendorReport rep sc) = gesture_inv sc"
  "gesture_inv (update_relative_mouse b x y w h sc) = gesture_inv sc"
  by (simp_all add: gesture_inv_def alttab_ok_def del: SynaProcessVendorReport_upd update_relative_mouse_upd,
      simp_all add: SynaProcessVendorReport_def update_relative_mouse_def Let_def)

lemma gesture_inv_scalars [simp]:
  "gesture_inv (sc\<lparr>multitaskingx := x, multitaskingy := y, multitaskinggesturetick := t\<rparr>) = gesture_inv sc"
  "gesture_inv (sc\<lparr>multitaskingx := x, multitaskingy := y, multitaskinggesturetick := t, multitaskingdone := d\<rparr>) = gesture_inv sc"
  "gesture_inv (sc\<lparr>sc_dx := x, sc_dy := y\<rparr>) = gesture_inv sc"
  "gesture_inv (sc\<lparr>ticksincelastrelease := n\<rparr>) = gesture_inv sc"
  by (simp_all add: gesture_inv_def alttab_ok_def)

lemma gesture_inv_stages:
  "gesture_inv sc \<Longrightarrow> gesture_inv (snd (ProcessScroll sc a ids))"
  "gesture_inv sc \<Longrightarrow> gesture_inv (snd (ProcessMove sc a ids))"
  "gesture_inv sc \<Longrightarrow> gesture_inv (click_buttons sc r l a n)"
  "gesture_inv sc \<Longrightarrow> gesture_inv (fst (fold shift_slot is (sc, k)))"
  "gesture_inv sc \<Longrightarrow> gesture_inv (TapToClickOrDrag sc b)"
  by (auto simp: gesture_inv_def wf_ProcessScroll wf_ProcessMove wf_click_buttons wf_fold_shift_slot
      wf_TapToClickOrDrag intro: alttab_ok_part [THEN iffD2] alttab_part_fold_shift_slot)

lemma ProcessThreeFingerSwipe_Some:
  assumes inv: "gesture_inv sc" and len: "length ids = 3"
    and ids: "(a = 3 \<or> a = 4) \<longrightarrow> list_ex (\<lambda>d. d \<noteq> 0) ids"
  shows "\<exists>h sc'. ProcessThreeFingerSwipe sc a ids = Some (h, sc') \<and> gesture_inv sc'"
proof -
  define sc0 where "sc0 = (if alttabswitchershowing sc then update_keyboard KBD_LALT_BIT no_keys sc else sc)"
  have inv0: "gesture_inv sc0" using inv by (simp add: sc0_def gesture_inv_def alttab_ok_def)
  show ?thesis
  proof (cases "a = 3 \<or> a = 4")
    case True
    define sc1 where "sc1 = stop_scroll sc0"
    have "gesture_inv sc1" using inv0 by (simp add: sc1_def gesture_inv_def alttab_ok_def)
    then have "gesture_inv (swipe_decide (sc1\<lparr>multitaskingx := x, multitaskingy := y, multitaskinggesturetick := t\<rparr>) a ids sy sx)"
      for x y t sy sx
      using ids True len unfolding gesture_inv_def
      by (intro conjI wf_swipe_decide alttab_ok_swipe_decide) (auto simp: alttab_ok_def)
    then show ?thesis using True
      by (simp add: ProcessThreeFingerSwipe_def sc0_def [symmetric] sc1_def [symmetric] Let_def
          del: stop_scroll_def) blast
  next
    case False
    obtain sc' where rel: "alttab_release sc0 = Some sc'" and inv': "gesture_inv sc'"
      using alttab_release_Some [OF inv0] by blast
    then show ?thesis using False
      by (simp add: ProcessThreeFingerSwipe_def sc0_def [symmetric] Let_def) blast
  qed
qed

lemma init_gesture_inv: "gesture_inv (init_softc rx ry)"
  using init_softc_wf by (simp add: gesture_inv_def alttab_ok_def init_softc_def SetDefaultSettings_def)

text \<open>
  One tick of \<open>ProcessGesture\<close> returns on every state satisfying the
  gesture invariant, and the state it returns satisfies the invariant again.
\<close>

lemma ProcessGesture_Some:
  assumes inv: "gesture_inv sc"
  shows "\<exists>sc'. ProcessGesture sc = Some sc' \<and> gesture_inv sc'"
proof -
  define sc0 where "sc0 = sc\<lparr>sc_dx := 0, sc_dy := 0\<rparr>"
  have inv0: "gesture_inv sc0" using inv by (simp add: sc0_def)
  obtain a r l ids where th: "thresholds sc0 = (a, r, l, ids)" by (cases "thresholds sc0") blast
  from thresholds_iToUse [OF th] have "length ids = 3" and "(a = 3 \<or> a = 4) \<longrightarrow> list_ex (\<lambda>d. d \<noteq> 0) ids"
    by simp_all
  then obtain h sc1 where sw: "ProcessThreeFingerSwipe sc0 a ids = Some (h, sc1)" and inv1: "gesture_inv sc1"
    using ProcessThreeFingerSwipe_Some [OF inv0] by blast
  obtain h2 sc2 where p2: "(if h then (h, sc1) else ProcessScroll sc1 a ids) = (h2, sc2)"
    and inv2: "gesture_inv sc2"
    using gesture_inv_stages(1) [OF inv1, of a ids] inv1
    by (cases h; cases "ProcessScroll sc1 a ids") auto
  obtain h3 sc3 where p3: "(if h2 then (h2, sc2) else ProcessMove sc2 a ids) = (h3, sc3)"
    and inv3: "gesture_inv sc3"
    using gesture_inv_stages(2) [OF inv2, of a ids] inv2
    by (cases h2; cases "ProcessMove sc2 a ids") auto
  obtain sc4 rf where p4: "fold shift_slot [0..<MAX_FINGERS] (click_buttons sc3 r l a (count_fingers sc0), 0) = (sc4, rf)"
    by (cases "fold shift_slot [0..<MAX_FINGERS] (click_buttons sc3 r l a (count_fingers sc0), 0)")
  have "gesture_inv sc4"
    using gesture_inv_stages(4) [OF gesture_inv_stages(3) [OF inv3]] p4 by (metis fst_conv)
  then have inv5: "gesture_inv (TapToClickOrDrag (sc4\<lparr>ticksincelastrelease := ticksincelastrelease sc4 + 1\<rparr>) rf)"
    by (simp add: gesture_inv_stages)
  show ?thesis
    using inv5
    by (simp add: ProcessGesture_def sc0_def [symmetric] th sw p2 p3 p4 Let_def
        del: update_relative_mouse_upd split del: if_split)
qed

subsection \<open>The alt-tab release scan with all ids zero\<close>

lemma alttab_scan_no_touch:
  assumes "\<forall>k. nat i \<le> k \<and> k < MAX_FINGERS \<longrightarrow> xs ! k = -1" "0 \<le> i"
  shows "alttab_scan xs ids i False = Some False"
  using assms
proof (induction "nat (5 - i)" arbitrary: i rule: less_induct)
  case less
  show ?case
  proof (cases "i < 5")
    case True
    then have "xs ! nat i = -1" using less.prems by auto
    moreover have "alttab_scan xs ids (i + 1) False = Some False"
      using less.prems True by (intro less.hyps) auto
    ultimately show ?thesis using True by (subst alttab_scan.simps) simp
  next
    case False
    then show ?thesis by (subst alttab_scan.simps) simp
  qed
qed

lemma alttab_scan_zero_partial:
  assumes "alttab_scan xs ids i found = Some y"
  shows "\<not> scan_loops xs ids i found"
proof (rule alttab_scan.raw_induct [where P = "\<lambda>xs ids i found y. \<not> scan_loops xs ids i found", OF _ assms])
  fix scan xs ids i found y
  assume IH: "\<And>xs ids i found y. scan xs ids i found = Some y \<Longrightarrow> \<not> scan_loops xs ids i found"
    and eq: "(if \<not> i < int MAX_FINGERS then Some found
      else if found then Some found
           else if xs ! nat i = - 1 then scan xs ids (i + 1) found
                else case alttab_match (take 3 ids) i of
                     (i', found') \<Rightarrow> scan xs ids (i' + 1) found') = Some y"
  show "\<not> scan_loops xs ids i found"
  proof
    assume "scan_loops xs ids i found"
    then obtain k where z: "take 3 ids = [0, 0, 0]" and nf: "\<not> found" and i0: "0 \<le> i"
      and k: "nat i \<le> k" "1 \<le> k" "k < MAX_FINGERS" "xs ! k \<noteq> -1"
      by (auto simp: scan_loops_def)
    have i5: "i < int MAX_FINGERS" using k by simp
    show False
    proof (cases "xs ! nat i = -1")
      case True
      then have "nat (i + 1) \<le> k" using k i0 by (cases "nat i = k") auto
      moreover have "scan xs ids (i + 1) found = Some y" using eq i5 nf True by simp
      ultimately show False using IH [of xs ids "i + 1" found y] nf i0 z k by (auto simp: scan_loops_def)
    next
      case False
      then have "scan xs ids 1 False = Some y" using eq i5 nf z by simp
      then show False using IH [of xs ids 1 False y] z k by (auto simp: scan_loops_def)
    qed
  qed
qed

lemma alttab_scan_zero_None:
  "take 3 ids = [0, 0, 0] \<Longrightarrow> 1 \<le> k \<Longrightarrow> k < MAX_FINGERS \<Longrightarrow> xs ! k \<noteq> -1 \<Longrightarrow>
   alttab_scan xs ids 0 False = None"
  using alttab_scan_zero_partial [of xs ids 0 False] by (cases "alttab_scan xs ids 0 False") (auto simp: scan_loops_def)

text \<open>
  C13: with all three bound ids zero, the alt-tab release scan starting at slot
  0 never returns when some slot other than 0 is in contact, and reports no
  touch otherwise.
\<close>

theorem alttab_scan_zero_ids:
  assumes "take 3 ids = [0, 0, 0]"
  shows "alttab_scan xs ids 0 False =
           (if \<exists>k. 1 \<le> k \<and> k < MAX_FINGERS \<and> xs ! k \<noteq> -1 then None else Some False)"
proof (cases "\<exists>k. 1 \<le> k \<and> k < MAX_FINGERS \<and> xs ! k \<noteq> -1")
  case True
  then show ?thesis using assms alttab_scan_zero_None by auto
next
  case False
  then have "alttab_scan xs ids 1 False = Some False"
    by (intro alttab_scan_no_touch) auto
  then show ?thesis using False assms by (subst alttab_scan.simps) simp
qed

subsection \<open>Consequences for a tick\<close>

lemma thresholds_dxdy [simp]: "thresholds (sc\<lparr>sc_dx := a, sc_dy := b\<rparr>) = thresholds sc"
  unfolding thresholds_def touch_threshold_def by (simp cong: if_cong)

text \<open>
  C14: when the alt-tab switcher is showing and the tick is not a swipe, it is
  closed exactly when no slot at all is in contact, whichever slots it is bound
  to.
\<close>

theorem alttab_release_closes:
  assumes "gesture_inv sc" "alttabswitchershowing sc" "alttab_release sc = Some sc'"
  shows "alttabswitchershowing sc' = (\<exists>k < MAX_FINGERS. sc_x sc ! k \<noteq> -1)"
proof -
  have "length (idsforalttab sc) = 3" using assms(1) by (simp add: gesture_inv_def softc_wf_def)
  then have "list_ex (\<lambda>d. d \<noteq> 0) (take 3 (idsforalttab sc))"
    using assms(1,2) by (simp add: gesture_inv_def alttab_ok_def)
  from alttab_scan_Some [OF this, of 0 "sc_x sc"] assms(2,3) show ?thesis
    by (auto simp: alttab_release_def split: if_splits)
qed

theorem alttab_release_closes_witness:
  "gesture_inv alttab_witness_state \<and> alttabswitchershowing alttab_witness_state \<and>
   alttab_release alttab_witness_state = Some alttab_witness_state \<and>
   alttabswitchershowing alttab_witness_state"
proof -
  have inv: "gesture_inv alttab_witness_state"
    by (simp add: gesture_inv_def alttab_ok_def alttab_witness_state_def init_softc_def softc_wf_def SetDefaultSettings_def)
  have rel: "alttab_release alttab_witness_state = Some alttab_witness_state"
    by code_simp
  show ?thesis
    using alttab_release_closes [OF inv _ rel] inv rel by (simp add: alttab_witness_state_def)
qed

theorem alttab_scan_zero_ids_witness:
  "alttab_scan [-1, 300, -1, -1, -1] [0, 0, 0] 0 False = None \<and>
   alttab_scan [200, -1, -1, -1, -1] [0, 0, 0] 0 False = Some False"
  using alttab_scan_zero_ids [of "[0, 0, 0]" "[-1, 300, -1, -1, -1]"]
        alttab_scan_zero_ids [of "[0, 0, 0]" "[200, -1, -1, -1, -1]"]
  by (auto simp: less_Suc_eq numeral_eq_Suc)

end
