(* ===== verification/Device.thy ===== *)
theory Device
  imports Gesture_Run
begin

text \<open>
  The device context of internal.h (\<open>_DEVICE_CONTEXT\<close>) restricted to the
  fields the RMI4 protocol, the decoder and the gesture engine use, and the
  RMI4 data of rmi.h.  rmi.h is not part of the sources: the report ids, the
  PDT scan bounds and the function record are modelled from the spec and, where
  the spec gives no value, from the Linux hid-rmi driver the code follows
  (rmi.cpp: "magic bytes from Linux").
\<close>

unbundle bit_operations_syntax

subsection \<open>RMI4 constants (rmi.h)\<close>

definition RMI_WRITE_REPORT_ID :: u8 where "RMI_WRITE_REPORT_ID = 0x09"
definition RMI_READ_ADDR_REPORT_ID :: u8 where "RMI_READ_ADDR_REPORT_ID = 0x0a"
definition RMI_READ_DATA_REPORT_ID :: u8 where "RMI_READ_DATA_REPORT_ID = 0x0b"
definition RMI_ATTN_REPORT_ID :: u8 where "RMI_ATTN_REPORT_ID = 0x01"
definition RMI_SET_RMI_MODE_REPORT_ID :: u8 where "RMI_SET_RMI_MODE_REPORT_ID = 0x0f"
definition PDT_START_SCAN_LOCATION :: nat where "PDT_START_SCAN_LOCATION = 0xe9"
definition PDT_END_SCAN_LOCATION :: nat where "PDT_END_SCAN_LOCATION = 0x05"
definition RMI4_PAGE_SIZE :: nat where "RMI4_PAGE_SIZE = 0x100"
definition RMI4_MAX_PAGE :: nat where "RMI4_MAX_PAGE = 0xff"
definition PDT_ENTRY_SIZE :: nat where "PDT_ENTRY_SIZE = 6"
definition RMI_DEVICE_F01_BASIC_QUERY_LEN :: nat where "RMI_DEVICE_F01_BASIC_QUERY_LEN = 11"
definition RMI_F11_CTRL_REG_COUNT :: nat where "RMI_F11_CTRL_REG_COUNT = 12"

text \<open>\<open>RMI_PAGE(addr)\<close>: the high byte of a 16-bit register address.\<close>

definition RMI_PAGE :: "u16 \<Rightarrow> u8" where
  "RMI_PAGE addr = ucast (drop_bit 8 addr)"

text \<open>\<open>RMI4_END_OF_PDT(id)\<close>: function number 0x00 or 0xff ends a page's table.\<close>

definition RMI4_END_OF_PDT :: "u8 \<Rightarrow> bool" where
  "RMI4_END_OF_PDT fn \<longleftrightarrow> fn = 0 \<or> fn = 0xff"

text \<open>
  \<open>struct pdt_entry\<close>: six bytes read from the page descriptor table, the
  interrupt source count in the low three bits of the fifth.
\<close>

record pdt_entry =
  pdt_query_base_addr :: u8
  pdt_command_base_addr :: u8
  pdt_control_base_addr :: u8
  pdt_data_base_addr :: u8
  interrupt_source_count :: nat
  function_number :: u8

definition pdt_entry_of :: "u8 list \<Rightarrow> pdt_entry" where
  "pdt_entry_of b =
     \<lparr>pdt_query_base_addr = b ! 0, pdt_command_base_addr = b ! 1, pdt_control_base_addr = b ! 2,
      pdt_data_base_addr = b ! 3, interrupt_source_count = unat (b ! 4 AND 0x07),
      function_number = b ! 5\<rparr>"

text \<open>\<open>struct rmi_function\<close>: where a function's registers are and which interrupt bits are its.\<close>

record rmi_function =
  func_page :: nat
  query_base_addr :: u16
  command_base_addr :: u16
  control_base_addr :: u16
  data_base_addr :: u16
  interrupt_base :: nat
  interrupt_count :: nat
  irq_mask :: u32
  report_size :: nat

definition no_function :: rmi_function where
  "no_function = \<lparr>func_page = 0, query_base_addr = 0, command_base_addr = 0, control_base_addr = 0,
     data_base_addr = 0, interrupt_base = 0, interrupt_count = 0, irq_mask = 0, report_size = 0\<rparr>"

subsection \<open>The device context (internal.h)\<close>

text \<open>
  \<open>gesture\<close> is the embedded \<open>csgesture_softc sc\<close>; \<open>lastreport\<close> the 40-byte
  frame latched by the interrupt routine.  The context is zero-filled by the
  framework; \<open>OnDeviceAdd\<close> sets \<open>DeviceMode\<close> to \<open>DEVICE_MODE_MOUSE\<close> (0).
\<close>

record device =
  ConnectInterrupt :: bool
  DeviceMode :: u8
  gesture :: softc
  page :: nat
  f01 :: rmi_function
  f11 :: rmi_function
  f30 :: rmi_function
  max_fingers :: nat
  max_x :: u32
  max_y :: u32
  x_size_mm :: nat
  y_size_mm :: nat
  read_f11_ctrl_regs :: bool
  f11_ctrl_regs :: "u8 list"
  gpio_led_count :: nat
  button_count :: nat
  button_mask :: u32
  button_state_mask :: u32
  firmware_id :: u32
  f01_ctrl0 :: u8
  interrupt_enable_mask :: u8
  restore_interrupt_mask :: bool
  lastreport :: "u8 list"

definition init_device :: "int \<Rightarrow> int \<Rightarrow> device" where
  "init_device rx ry =
     \<lparr>ConnectInterrupt = False, DeviceMode = 0, gesture = init_softc rx ry, page = 0,
      f01 = no_function, f11 = no_function, f30 = no_function,
      max_fingers = 0, max_x = 0, max_y = 0, x_size_mm = 0, y_size_mm = 0,
      read_f11_ctrl_regs = False, f11_ctrl_regs = replicate RMI_F11_CTRL_REG_COUNT 0,
      gpio_led_count = 0, button_count = 0, button_mask = 0, button_state_mask = 0,
      firmware_id = 0, f01_ctrl0 = 0, interrupt_enable_mask = 0, restore_interrupt_mask = False,
      lastreport = replicate 40 0\<rparr>"

lemmas rmi_constants [simp] =
  RMI_WRITE_REPORT_ID_def RMI_READ_ADDR_REPORT_ID_def RMI_READ_DATA_REPORT_ID_def RMI_ATTN_REPORT_ID_def
  RMI_SET_RMI_MODE_REPORT_ID_def PDT_START_SCAN_LOCATION_def PDT_END_SCAN_LOCATION_def RMI4_PAGE_SIZE_def
  RMI4_MAX_PAGE_def PDT_ENTRY_SIZE_def RMI_DEVICE_F01_BASIC_QUERY_LEN_def RMI_F11_CTRL_REG_COUNT_def

end
