(* ===== verification/Decoder.thy ===== *)
theory Decoder
  imports Device
begin

text \<open>
  The touch report decoder of driver.cpp: \<open>rmi_f11_process_touch\<close>,
  \<open>rmi_f11_input\<close>, \<open>rmi_f30_input\<close>, \<open>TrackpadRawInput\<close> (lines 1159-1265),
  and the two entry points, \<open>OnInterruptIsr\<close>, which latches a frame, and
  \<open>SynaTimerFunc\<close>, which decodes the latched frame and runs one gesture tick
  (lines 342-392).  A frame is a byte list; a read past its end, a division
  by a zero resolution, and a tick that does not return are \<open>None\<close>.
\<close>

unbundle bit_operations_syntax

subsection \<open>Frame access\<close>

text \<open>\<open>rmiInput[k]\<close>: a read inside the frame, \<open>None\<close> past its end.\<close>

definition frame_byte :: "u8 list \<Rightarrow> nat \<Rightarrow> u8 option" where
  "frame_byte fr k = (if k < length fr then Some (fr ! k) else None)"

subsection \<open>F11: finger records\<close>

text \<open>
  The 12-bit coordinates of a five-byte touch record: \<open>x\<close> is the first byte
  and the low nibble of the third, \<open>y\<close> the second byte and the high nibble of
  the third, computed on the bytes promoted to \<open>int\<close>.
\<close>

definition touch_x :: "u8 \<Rightarrow> u8 \<Rightarrow> int" where
  "touch_x b0 b2 = push_bit 4 (uint b0) OR (uint b2 AND 0x0F)"

definition touch_y :: "u8 \<Rightarrow> u8 \<Rightarrow> int" where
  "touch_y b1 b2 = push_bit 4 (uint b1) OR drop_bit 4 (uint b2)"

text \<open>
  \<open>v *= res; v /= max\<close> with \<open>v\<close> and \<open>res\<close> of type \<open>int\<close> and \<open>max\<close>
  \<open>unsigned int\<close>: the product is formed in 32-bit two's complement, the
  division is unsigned, and the quotient is read back as \<open>int\<close>.
\<close>

definition scale_axis :: "u32 \<Rightarrow> int \<Rightarrow> int \<Rightarrow> int" where
  "scale_axis mx res v = sint ((word_of_int (v * res) :: u32) div mx)"

text \<open>\<open>y = max_y - y\<close>: unsigned subtraction, read back as \<open>int\<close>.\<close>

definition invert_y :: "u32 \<Rightarrow> int \<Rightarrow> int" where
  "invert_y my y = sint (my - word_of_int y)"

definition rmi_f11_process_touch :: "device \<Rightarrow> softc \<Rightarrow> nat \<Rightarrow> u8 \<Rightarrow> u8 list \<Rightarrow> nat \<Rightarrow> softc option" where
  "rmi_f11_process_touch dev sc slot finger_state fr pos =
    (if finger_state = 0x01 then
       do {
         b0 \<leftarrow> frame_byte fr pos;
         b1 \<leftarrow> frame_byte fr (pos + 1);
         b2 \<leftarrow> frame_byte fr (pos + 2);
         b3 \<leftarrow> frame_byte fr (pos + 3);
         b4 \<leftarrow> frame_byte fr (pos + 4);
         if max_x dev = 0 \<or> max_y dev = 0 then None
         else
           (let x = scale_axis (max_x dev) (resx sc) (touch_x b0 b2);
                y = scale_axis (max_y dev) (resy sc) (invert_y (max_y dev) (touch_y b1 b2));
                z = uint b4
            in Some (sc\<lparr>sc_x := (sc_x sc)[slot := x], sc_y := (sc_y sc)[slot := y],
                        sc_p := (sc_p sc)[slot := z]\<rparr>))
       }
     else Some sc)"

text \<open>
  \<open>rmi_f11_input\<close>: the finger states are packed four to a byte, two bits
  each; the touch records follow at \<open>(max_fingers >> 2) + 1\<close>.  It returns the
  decoded state and the F11 report size.
\<close>

definition finger_state_of :: "u8 \<Rightarrow> nat \<Rightarrow> u8" where
  "finger_state_of b i = drop_bit ((i AND 3) * 2) b AND 0x03"

definition f11_offset :: "nat \<Rightarrow> nat" where
  "f11_offset mf = drop_bit 2 mf + 1"

definition rmi_f11_input :: "device \<Rightarrow> softc \<Rightarrow> u8 list \<Rightarrow> nat \<Rightarrow> (softc \<times> nat) option" where
  "rmi_f11_input dev sc fr idx =
    do {
      sc \<leftarrow> fold (\<lambda>i acc. do {
                   sc \<leftarrow> acc;
                   fsb \<leftarrow> frame_byte fr (idx + drop_bit 2 i);
                   rmi_f11_process_touch dev sc i (finger_state_of fsb i) fr
                     (idx + f11_offset (max_fingers dev) + 5 * i)
                 }) [0..<max_fingers dev] (Some sc);
      Some (sc, report_size (f11 dev))
    }"

subsection \<open>F30: buttons\<close>

text \<open>
  \<open>rmi_f30_input\<close>: nothing when the interrupt bitmap does not name F30 or the
  rest of the frame is shorter than the F30 report; otherwise every
  registered button bit except bit 0, inverted where its active state is
  high, is stored in the single \<open>buttondown\<close> flag, so the last one wins.
\<close>

definition f30_button :: "device \<Rightarrow> u8 list \<Rightarrow> nat \<Rightarrow> nat \<Rightarrow> softc option \<Rightarrow> softc option" where
  "f30_button dev fr idx i acc =
    do {
      sc \<leftarrow> acc;
      if i = 0 \<or> \<not> bit (button_mask dev) i then Some sc
      else do {
        b \<leftarrow> frame_byte fr (idx + i div 8);
        let value = bit b (i AND 7);
        let value = (if bit (button_state_mask dev) i then \<not> value else value);
        Some (sc\<lparr>buttondown := value\<rparr>)
      }
    }"

definition rmi_f30_input :: "device \<Rightarrow> softc \<Rightarrow> u8 \<Rightarrow> u8 list \<Rightarrow> nat \<Rightarrow> int \<Rightarrow> (softc \<times> nat) option" where
  "rmi_f30_input dev sc irq fr idx len =
    (if ucast irq AND irq_mask (f30 dev) = 0 then Some (sc, 0)
     else if len < int (report_size (f30 dev)) then Some (sc, 0)
     else do {
       sc \<leftarrow> fold (f30_button dev fr idx) [0..<gpio_led_count dev] (Some sc);
       Some (sc, report_size (f30 dev))
     })"

subsection \<open>One frame\<close>

text \<open>
  \<open>TrackpadRawInput\<close>: a frame whose first byte is not the attention id is
  ignored; otherwise every slot is cleared to -1, the F11 and F30 data are
  decoded in the order of their interrupt bases, and one gesture tick runs.
\<close>

definition clear_slots :: "softc \<Rightarrow> softc" where
  "clear_slots sc =
     fold (\<lambda>i sc. sc\<lparr>sc_x := (sc_x sc)[i := -1], sc_y := (sc_y sc)[i := -1], sc_p := (sc_p sc)[i := -1]\<rparr>)
       [0..<5] sc"

definition decode_frame :: "device \<Rightarrow> softc \<Rightarrow> u8 list \<Rightarrow> softc option" where
  "decode_frame dev sc fr =
    (let reportSize = 40 in
     if interrupt_base (f11 dev) < interrupt_base (f30 dev) then
       do {
         (sc, n) \<leftarrow> rmi_f11_input dev sc fr 2;
         (sc, _) \<leftarrow> rmi_f30_input dev sc (fr ! 1) fr (2 + n) (reportSize - int (2 + n));
         Some sc
       }
     else
       do {
         (sc, n) \<leftarrow> rmi_f30_input dev sc (fr ! 1) fr 2 (reportSize - 2);
         (sc, _) \<leftarrow> rmi_f11_input dev sc fr (2 + n);
         Some sc
       })"

definition TrackpadRawInput :: "device \<Rightarrow> softc \<Rightarrow> u8 list \<Rightarrow> softc option" where
  "TrackpadRawInput dev sc fr =
    (if fr ! 0 \<noteq> RMI_ATTN_REPORT_ID then Some sc
     else do {
       sc \<leftarrow> decode_frame dev (clear_slots sc) fr;
       ProcessGesture sc
     })"

subsection \<open>Interrupt and timer\<close>

text \<open>
  \<open>OnInterruptIsr\<close>: the 42-byte transfer carries the frame after a two-byte
  header; a frame starting with 0x00 (no new data) or with another report id
  is dropped, an attention frame is latched in \<open>lastreport\<close>.
\<close>

definition OnInterruptIsr :: "device \<Rightarrow> u8 list \<Rightarrow> device" where
  "OnInterruptIsr dev i2cInput =
    (if \<not> ConnectInterrupt dev then dev
     else
      (let rmiInput = take 40 (drop 2 i2cInput) in
       if rmiInput ! 0 = 0x00 then dev
       else if rmiInput ! 0 \<noteq> RMI_ATTN_REPORT_ID then dev
       else dev\<lparr>lastreport := rmiInput\<rparr>))"

text \<open>
  \<open>SynaTimerFunc\<close>: every timer period the latched frame is decoded again
  (unless it starts with 0xff) on a copy of the gesture state, which is then
  written back.
\<close>

definition SynaTimerFunc :: "device \<Rightarrow> device option" where
  "SynaTimerFunc dev =
    (if \<not> ConnectInterrupt dev then Some dev
     else if lastreport dev ! 0 = 0xff then Some dev
     else do {
       sc \<leftarrow> TrackpadRawInput dev (gesture dev) (lastreport dev);
       Some (dev\<lparr>gesture := sc\<rparr>)
     })"

datatype event = Interrupt "u8 list" | Timer

fun device_step :: "device \<Rightarrow> event \<Rightarrow> device option" where
  "device_step dev (Interrupt i2c) = Some (OnInterruptIsr dev i2c)"
| "device_step dev Timer = SynaTimerFunc dev"

fun device_run :: "device \<Rightarrow> event list \<Rightarrow> device option" where
  "device_run dev [] = Some dev"
| "device_run dev (e # es) = (case device_step dev e of None \<Rightarrow> None | Some dev' \<Rightarrow> device_run dev' es)"

end
