(* ===== verification/Rmi.thy ===== *)
theory Rmi
  imports Decoder
begin

text \<open>
  The RMI4 register protocol client of rmi.cpp (lines 7-225): mode and page
  selection, block reads and writes framed as 21-byte write reports, and the
  scan of the page descriptor tables that registers the F01, F11 and F30
  function blocks.  The I2C transport is an interface \<open>spb\<close>: a write of a
  byte string to an I2C register (\<open>SpbWriteDataSynchronously\<close>) and a read of
  one input transfer (\<open>SpbOnlyReadDataSynchronously\<close>), over any transport
  state \<open>'t\<close>.  Bytes written on the bus and C buffers are \<open>u8 option\<close> lists:
  \<open>None\<close> is a byte the code never initialised.  A result \<open>None\<close> is undefined
  behaviour: a read of such a byte, an access past a buffer, an out-of-range
  shift.  The status codes are returned as the code returns them.  The read
  returns the bytes the transfer filled: a failed transfer, whose status the
  code ignores, is a reply shorter than the 42-byte buffer, and a read of a
  byte it did not fill is \<open>None\<close> like any uninitialised byte.
\<close>

unbundle bit_operations_syntax

subsection \<open>Transport interface and C buffers\<close>

record 't spb =
  spb_write :: "u8 \<Rightarrow> u8 option list \<Rightarrow> 't \<Rightarrow> 't"
  spb_read :: "'t \<Rightarrow> u8 list \<times> 't"

type_synonym cbuf = "u8 option list"

text \<open>\<open>buf[k]\<close> of a C buffer: \<open>None\<close> past its end or where it is uninitialised.\<close>

definition cbyte :: "cbuf \<Rightarrow> nat \<Rightarrow> u8 option" where
  "cbyte buf k = (if k < length buf then buf ! k else None)"

definition ENODEV :: int where "ENODEV = 19"

subsection \<open>Framing (rmi.cpp 7-46)\<close>

definition rmi_set_mode :: "'t spb \<Rightarrow> u8 \<Rightarrow> 't \<Rightarrow> int \<times> 't" where
  "rmi_set_mode B mode t =
    (0, spb_write B 0x22 (map Some [0x00, 0x3f, 0x03, 0x0f, 0x23, 0x00, 0x04, 0x00,
                                    RMI_SET_RMI_MODE_REPORT_ID, mode]) t)"

text \<open>
  \<open>rmi_write_report\<close>: a 24-byte command to I2C register 0x25, the three-byte
  header followed by the report; every caller passes a 21-byte report.
\<close>

definition rmi_write_report :: "'t spb \<Rightarrow> cbuf \<Rightarrow> 't \<Rightarrow> int \<times> 't" where
  "rmi_write_report B report t = (0, spb_write B 0x25 ([Some 0x00, Some 0x17, Some 0x00] @ report) t)"

text \<open>
  \<open>rmi_set_page\<close>: a write of the page to register 0xFF of the current page;
  bytes 3 and 5-20 of the report are never initialised.
\<close>

definition rmi_set_page :: "'t spb \<Rightarrow> u8 \<Rightarrow> device \<Rightarrow> 't \<Rightarrow> int \<times> device \<times> 't" where
  "rmi_set_page B pg dev t =
    (let writeReport = [Some RMI_WRITE_REPORT_ID, Some 1, Some 0xFF, None, Some pg] @ replicate 16 None;
         (retval, t) = rmi_write_report B writeReport t
     in (retval, dev\<lparr>page := unat pg\<rparr>, t))"

text \<open>The page select that precedes every block access (lines 58-62 and 109-113).\<close>

definition select_page :: "'t spb \<Rightarrow> u16 \<Rightarrow> device \<Rightarrow> 't \<Rightarrow> int \<times> device \<times> 't" where
  "select_page B addr dev t =
    (if unat (RMI_PAGE addr) \<noteq> page dev then rmi_set_page B (RMI_PAGE addr) dev t else (0, dev, t))"

subsection \<open>Block reads and writes (rmi.cpp 48-138)\<close>

text \<open>
  \<open>rmi_read_block\<close>: a read-address report (id 0x0a, little-endian address
  and length), then one 42-byte input transfer; only when the frame after the
  two-byte header carries the read-data id are bytes \<open>[2, len + 2)\<close> copied
  into the buffer, which otherwise keeps its contents.  The status is that of
  the page select.
\<close>

definition read_addr_report :: "u16 \<Rightarrow> nat \<Rightarrow> cbuf" where
  "read_addr_report addr len =
     map Some ([RMI_READ_ADDR_REPORT_ID, 0, ucast addr, ucast (drop_bit 8 addr), of_nat len,
                of_nat (drop_bit 8 len)] @ replicate 15 0)"

definition copy_in :: "u8 list \<Rightarrow> nat \<Rightarrow> cbuf \<Rightarrow> cbuf option" where
  "copy_in rmiInput len buf =
     fold (\<lambda>i acc. do {
             buf \<leftarrow> acc;
             b \<leftarrow> frame_byte rmiInput (i + 2);
             if i < length buf then Some (buf[i := Some b]) else None
           }) [0..<len] (Some buf)"

definition rmi_read_block :: "'t spb \<Rightarrow> u16 \<Rightarrow> cbuf \<Rightarrow> nat \<Rightarrow> device \<Rightarrow> 't \<Rightarrow> (int \<times> cbuf \<times> device \<times> 't) option" where
  "rmi_read_block B addr buf len dev t =
    (let (ret, dev, t) = select_page B addr dev t in
     if ret < 0 then Some (ret, buf, dev, t)
     else
      (let (_, t) = rmi_write_report B (read_addr_report addr len) t;
           (i2cInput, t) = spb_read B t;
           rmiInput = take 40 (drop 2 i2cInput)
       in do {
         rid \<leftarrow> frame_byte rmiInput 0;
         if rid = RMI_READ_DATA_REPORT_ID then do {
           buf \<leftarrow> copy_in rmiInput len buf;
           Some (ret, buf, dev, t)
         } else Some (ret, buf, dev, t)
       }))"

definition rmi_read :: "'t spb \<Rightarrow> u16 \<Rightarrow> cbuf \<Rightarrow> device \<Rightarrow> 't \<Rightarrow> (int \<times> cbuf \<times> device \<times> 't) option" where
  "rmi_read B addr buf dev t = rmi_read_block B addr buf 1 dev t"

text \<open>
  \<open>rmi_write_block\<close>: a write report (id 0x09, length, little-endian address,
  then the data from byte 4), after the page select; the unused bytes are zero.
\<close>

definition write_report_of :: "u16 \<Rightarrow> cbuf \<Rightarrow> nat \<Rightarrow> cbuf option" where
  "write_report_of addr buf len =
     fold (\<lambda>i acc. do {
             wr \<leftarrow> acc;
             if i < length buf \<and> i + 4 < 21 then Some (wr[i + 4 := buf ! i]) else None
           }) [0..<len]
       (Some (map Some ([RMI_WRITE_REPORT_ID, of_nat len, ucast addr, ucast (drop_bit 8 addr)] @ replicate 17 0)))"

definition rmi_write_block :: "'t spb \<Rightarrow> u16 \<Rightarrow> cbuf \<Rightarrow> nat \<Rightarrow> device \<Rightarrow> 't \<Rightarrow> (int \<times> device \<times> 't) option" where
  "rmi_write_block B addr buf len dev t =
    (let (ret, dev, t) = select_page B addr dev t in
     if ret < 0 then Some (ret, dev, t)
     else do {
       writeReport \<leftarrow> write_report_of addr buf len;
       let (ret, t) = rmi_write_report B writeReport t;
       Some (if ret < 0 then ret else 0, dev, t)
     })"

definition rmi_write :: "'t spb \<Rightarrow> u16 \<Rightarrow> cbuf \<Rightarrow> device \<Rightarrow> 't \<Rightarrow> (int \<times> device \<times> 't) option" where
  "rmi_write B addr buf dev t = rmi_write_block B addr buf 1 dev t"

subsection \<open>Function registration (rmi.cpp 140-174)\<close>

text \<open>
  \<open>GENMASK(h, l)\<close> of the Linux headers on a 32-bit \<open>unsigned long\<close>: bits
  \<open>l\<close> to \<open>h\<close>.  Its shifts are undefined for \<open>l \<ge> 32\<close> or \<open>h \<ge> 32\<close>, which
  includes \<open>h = -1\<close> wrapped to \<open>UINT_MAX\<close> when \<open>rmi_gen_mask\<close> is called with
  base and count both zero.
\<close>

definition GENMASK :: "nat \<Rightarrow> nat \<Rightarrow> u32 option" where
  "GENMASK h l =
    (if h < 32 \<and> l < 32 then Some ((- 1 - push_bit l 1 + 1) AND drop_bit (31 - h) (- 1)) else None)"

definition rmi_gen_mask :: "nat \<Rightarrow> nat \<Rightarrow> u32 option" where
  "rmi_gen_mask irq_base irq_count =
    (if irq_count + irq_base = 0 then None else GENMASK (irq_count + irq_base - 1) irq_base)"

text \<open>
  \<open>rmi_register_function\<close>: an entry for F01, F11 or F30 fills that function's
  record with the page-based register addresses and its interrupt bit range,
  and ORs its mask into the 8-bit interrupt enable mask; other function
  numbers are ignored.
\<close>

definition fill_function :: "rmi_function \<Rightarrow> pdt_entry \<Rightarrow> nat \<Rightarrow> nat \<Rightarrow> rmi_function option" where
  "fill_function f e pg irq_base =
    (let page_base = push_bit 8 (of_nat pg) :: u16 in
     do {
       m \<leftarrow> rmi_gen_mask irq_base (interrupt_source_count e);
       Some (f\<lparr>func_page := pg,
               query_base_addr := page_base OR ucast (pdt_query_base_addr e),
               command_base_addr := page_base OR ucast (pdt_command_base_addr e),
               control_base_addr := page_base OR ucast (pdt_control_base_addr e),
               data_base_addr := page_base OR ucast (pdt_data_base_addr e),
               interrupt_base := irq_base, interrupt_count := interrupt_source_count e,
               irq_mask := m\<rparr>)
     })"

definition rmi_register_function :: "device \<Rightarrow> pdt_entry \<Rightarrow> nat \<Rightarrow> nat \<Rightarrow> device option" where
  "rmi_register_function dev e pg irq_base =
    (if function_number e = 0x01 then do {
       f \<leftarrow> fill_function (f01 dev) e pg irq_base;
       Some (dev\<lparr>f01 := f, interrupt_enable_mask := interrupt_enable_mask dev OR ucast (irq_mask f)\<rparr>)
     }
     else if function_number e = 0x11 then do {
       f \<leftarrow> fill_function (f11 dev) e pg irq_base;
       Some (dev\<lparr>f11 := f, interrupt_enable_mask := interrupt_enable_mask dev OR ucast (irq_mask f)\<rparr>)
     }
     else if function_number e = 0x30 then do {
       f \<leftarrow> fill_function (f30 dev) e pg irq_base;
       Some (dev\<lparr>f30 := f, interrupt_enable_mask := interrupt_enable_mask dev OR ucast (irq_mask f)\<rparr>)
     }
     else Some dev)"

subsection \<open>PDT scan (rmi.cpp 176-225)\<close>

text \<open>
  The entries of a page's table are read downward from offset 0xe9 in steps
  of six bytes while the address is at least offset 0x05: 39 entries.  The
  entry buffer lives across iterations and pages and is uninitialised at the
  start.
\<close>

definition pdt_addrs :: "nat \<Rightarrow> nat list" where
  "pdt_addrs pg =
     map (\<lambda>k. RMI4_PAGE_SIZE * pg + PDT_START_SCAN_LOCATION - PDT_ENTRY_SIZE * k)
       [0..<(PDT_START_SCAN_LOCATION - PDT_END_SCAN_LOCATION) div PDT_ENTRY_SIZE + 1]"

text \<open>
  The inner loop: it returns the status (non-zero for a failed read), the
  entry buffer, the interrupt counter, whether the page had a function, and
  the state.  An end-of-table function number breaks the loop.
\<close>

fun scan_page :: "'t spb \<Rightarrow> nat \<Rightarrow> nat list \<Rightarrow> cbuf \<Rightarrow> nat \<Rightarrow> bool \<Rightarrow> device \<Rightarrow> 't
                    \<Rightarrow> (int \<times> cbuf \<times> nat \<times> bool \<times> device \<times> 't) option" where
  "scan_page B pg [] entry intr has dev t = Some (0, entry, intr, has, dev, t)"
| "scan_page B pg (a # as) entry intr has dev t =
    do {
      (retval, entry, dev, t) \<leftarrow> rmi_read_block B (of_nat a) entry PDT_ENTRY_SIZE dev t;
      if retval \<noteq> 0 then Some (retval, entry, intr, has, dev, t)
      else do {
        fn \<leftarrow> cbyte entry 5;
        if RMI4_END_OF_PDT fn then Some (0, entry, intr, has, dev, t)
        else do {
          bytes \<leftarrow> those entry;
          let e = pdt_entry_of bytes;
          dev \<leftarrow> rmi_register_function dev e pg intr;
          scan_page B pg as entry (intr + interrupt_source_count e) True dev t
        }
      }
    }"

fun scan_pages :: "'t spb \<Rightarrow> nat list \<Rightarrow> cbuf \<Rightarrow> nat \<Rightarrow> device \<Rightarrow> 't \<Rightarrow> (int \<times> device \<times> 't) option" where
  "scan_pages B [] entry intr dev t = Some (0, dev, t)"
| "scan_pages B (pg # pgs) entry intr dev t =
    do {
      (retval, entry, intr, has, dev, t) \<leftarrow> scan_page B pg (pdt_addrs pg) entry intr False dev t;
      if retval \<noteq> 0 then Some (retval, dev, t)
      else if \<not> has then Some (0, dev, t)
      else scan_pages B pgs entry intr dev t
    }"

definition rmi_scan_pdt :: "'t spb \<Rightarrow> device \<Rightarrow> 't \<Rightarrow> (int \<times> device \<times> 't) option" where
  "rmi_scan_pdt B dev t = scan_pages B [0..<RMI4_MAX_PAGE + 1] (replicate PDT_ENTRY_SIZE None) 0 dev t"

end
