(* ===== verification/Rmi_Populate.thy ===== *)
theory Rmi_Populate
  imports Rmi
begin

text \<open>
  The population of the discovered function blocks, rmi.cpp 227-648:
  \<open>rmi_populate_f01\<close> (product and interrupt control), \<open>rmi_populate_f11\<close>
  (finger count, report size, sensor size and resolution),
  \<open>rmi_populate_f30\<close> (GPIO buttons) and \<open>rmi_populate\<close>, which runs mode
  select, the PDT scan and the three in order and stops at the first
  non-zero status.  Every \<open>if (ret) return ret;\<close> of the code is a branch;
  a buffer byte the code reads before any read filled it is \<open>None\<close>.
\<close>

unbundle bit_operations_syntax

subsection \<open>F01 (rmi.cpp 227-337)\<close>

text \<open>
  The optional query chain of F01 (lines 263-291): query 42, then the DS4
  query length and the DS4 flags, which say whether the package id and
  build id queries exist.  It returns the status, the \<open>info\<close> buffer, the
  two flags and the state.
\<close>

definition f01_ds4 :: "'t spb \<Rightarrow> u16 \<Rightarrow> bool \<Rightarrow> cbuf \<Rightarrow> device \<Rightarrow> 't
                        \<Rightarrow> (int \<times> cbuf \<times> bool \<times> bool \<times> device \<times> 't) option" where
  "f01_ds4 B query_offset has_query42 info dev t =
    do {
      (ret, info, has_ds4_queries, query_offset, dev, t) \<leftarrow>
        (if has_query42 then do {
           (ret, info, dev, t) \<leftarrow> rmi_read B query_offset info dev t;
           if ret \<noteq> 0 then Some (ret, info, False, query_offset, dev, t)
           else do { i0 \<leftarrow> cbyte info 0; Some (0, info, bit i0 0, query_offset + 1, dev, t) }
         } else Some (0, info, False, query_offset, dev, t));
      if ret \<noteq> 0 then Some (ret, info, False, False, dev, t)
      else if has_ds4_queries then do {
        (ret, ds4, dev, t) \<leftarrow> rmi_read B query_offset [None] dev t;
        if ret \<noteq> 0 then Some (ret, info, False, False, dev, t)
        else do {
          ds4_query_len \<leftarrow> cbyte ds4 0;
          let query_offset = query_offset + 1;
          if 0 < ds4_query_len then do {
            (ret, info, dev, t) \<leftarrow> rmi_read B query_offset info dev t;
            if ret \<noteq> 0 then Some (ret, info, False, False, dev, t)
            else do { i0 \<leftarrow> cbyte info 0; Some (0, info, bit i0 0, bit i0 1, dev, t) }
          } else Some (0, info, False, False, dev, t)
        }
      } else Some (0, info, False, False, dev, t)
    }"

definition rmi_populate_f01 :: "'t spb \<Rightarrow> device \<Rightarrow> 't \<Rightarrow> (int \<times> device \<times> 't) option" where
  "rmi_populate_f01 B dev t =
    (let query_offset = query_base_addr (f01 dev) in
     do {
       (ret, basic_queries, dev, t) \<leftarrow>
         rmi_read_block B query_offset (replicate RMI_DEVICE_F01_BASIC_QUERY_LEN None)
           RMI_DEVICE_F01_BASIC_QUERY_LEN dev t;
       if ret \<noteq> 0 then Some (ret, dev, t)
       else do {
         q0 \<leftarrow> cbyte basic_queries 0;
         q1 \<leftarrow> cbyte basic_queries 1;
         let has_lts = bit q0 2;
         let has_sensor_id = bit q1 3;
         let has_query42 = bit q1 7;
         let query_offset = query_offset + 11;
         let prod_info_addr = query_offset + 6;
         let query_offset = query_offset + 10;
         let query_offset = (if has_lts then query_offset + 20 else query_offset);
         let query_offset = (if has_sensor_id then query_offset + 1 else query_offset);
         (ret, info, has_package_id_query, has_build_id_query, dev, t) \<leftarrow>
           f01_ds4 B query_offset has_query42 (replicate 3 None) dev t;
         if ret \<noteq> 0 then Some (ret, dev, t)
         else do {
           let prod_info_addr = (if has_package_id_query then prod_info_addr + 1 else prod_info_addr);
           (ret, info, dev, t) \<leftarrow>
             (if has_build_id_query then do {
                (ret, info, dev, t) \<leftarrow> rmi_read_block B prod_info_addr info 3 dev t;
                if ret \<noteq> 0 then Some (ret, info, dev, t)
                else do {
                  i0 \<leftarrow> cbyte info 0; i1 \<leftarrow> cbyte info 1; i2 \<leftarrow> cbyte info 2;
                  let fw = push_bit 8 (ucast i1) OR ucast i0;
                  Some (0, info, dev\<lparr>firmware_id := fw + ucast i2 * 65536\<rparr>, t)
                }
              } else Some (0, info, dev, t));
           if ret \<noteq> 0 then Some (ret, dev, t)
           else do {
             (ret, info, dev, t) \<leftarrow> rmi_read_block B (control_base_addr (f01 dev)) info 2 dev t;
             if ret \<noteq> 0 then Some (ret, dev, t)
             else do {
               i0 \<leftarrow> cbyte info 0;
               i1 \<leftarrow> cbyte info 1;
               let dev = dev\<lparr>f01_ctrl0 := i0\<rparr>;
               if i1 = 0 then do {
                 let dev = dev\<lparr>restore_interrupt_mask := True\<rparr>;
                 (ret, dev, t) \<leftarrow> rmi_write B (control_base_addr (f01 dev) + 1) [Some (interrupt_enable_mask dev)] dev t;
                 if ret \<noteq> 0 then Some (ret, dev, t) else Some (0, dev, t)
               } else Some (0, dev, t)
             }
           }
         }
       }
     })"

subsection \<open>F11 (rmi.cpp 339-545)\<close>

text \<open>
  The finger count: \<open>(query1 & 0x07) + 1\<close>, more than five clamped to ten;
  each finger takes five bytes of the report and its state two bits.
\<close>

definition f11_fingers :: "u8 \<Rightarrow> nat" where
  "f11_fingers q1 = (let mf = unat (q1 AND 0x07) + 1 in if mf > 5 then 10 else mf)"

definition f11_report_size :: "nat \<Rightarrow> nat" where
  "f11_report_size mf = mf * 5 + (mf + 3) div 4"

text \<open>
  The optional queries of F11 (lines 405-499), one block each: query 7/8
  when gestures are reported (palm detect and query 10 presence), query 12
  with the physical sensor size, query 28 (query 36 presence) and query 36
  (data 40 presence).  Each returns the status, the buffer, what it found,
  and the state; the query offset advances as in the code.
\<close>

definition f11_gestures :: "'t spb \<Rightarrow> u16 \<Rightarrow> bool \<Rightarrow> u16 \<Rightarrow> cbuf \<Rightarrow> device \<Rightarrow> 't
                             \<Rightarrow> (int \<times> cbuf \<times> bool \<times> bool \<times> u16 \<times> device \<times> 't) option" where
  "f11_gestures B qb has_gestures query_offset buf dev t =
    (if has_gestures then do {
       (ret, buf, dev, t) \<leftarrow> rmi_read B (qb + query_offset + 1) buf dev t;
       if ret \<noteq> 0 then Some (ret, buf, False, False, query_offset, dev, t)
       else do { b \<leftarrow> cbyte buf 0; Some (0, buf, bit b 0, bit b 2, query_offset + 2, dev, t) }
     } else Some (0, buf, False, False, query_offset, dev, t))"

definition f11_query12 :: "'t spb \<Rightarrow> u16 \<Rightarrow> bool \<Rightarrow> u16 \<Rightarrow> cbuf \<Rightarrow> device \<Rightarrow> 't
                            \<Rightarrow> (int \<times> cbuf \<times> u16 \<times> device \<times> 't) option" where
  "f11_query12 B qb has_query12 query_offset buf dev t =
    (if has_query12 then do {
       (ret, buf, dev, t) \<leftarrow> rmi_read B (qb + query_offset) buf dev t;
       if ret \<noteq> 0 then Some (ret, buf, query_offset, dev, t)
       else do {
         b \<leftarrow> cbyte buf 0;
         if bit b 5 then do {
           let query_offset = query_offset + 1;
           (ret, buf, dev, t) \<leftarrow> rmi_read_block B (qb + query_offset) buf 4 dev t;
           if ret \<noteq> 0 then Some (ret, buf, query_offset, dev, t)
           else do {
             s0 \<leftarrow> cbyte buf 0; s1 \<leftarrow> cbyte buf 1; s2 \<leftarrow> cbyte buf 2; s3 \<leftarrow> cbyte buf 3;
             let x_size = unat s0 OR push_bit 8 (unat s1);
             let y_size = unat s2 OR push_bit 8 (unat s3);
             Some (0, buf, query_offset + 12, dev\<lparr>x_size_mm := x_size div 10, y_size_mm := y_size div 10\<rparr>, t)
           }
         } else Some (0, buf, query_offset, dev, t)
       }
     } else Some (0, buf, query_offset, dev, t))"

definition f11_query28 :: "'t spb \<Rightarrow> u16 \<Rightarrow> bool \<Rightarrow> u16 \<Rightarrow> cbuf \<Rightarrow> device \<Rightarrow> 't
                            \<Rightarrow> (int \<times> cbuf \<times> bool \<times> device \<times> 't) option" where
  "f11_query28 B qb has_query28 query_offset buf dev t =
    (if has_query28 then do {
       (ret, buf, dev, t) \<leftarrow> rmi_read B (qb + query_offset) buf dev t;
       if ret \<noteq> 0 then Some (ret, buf, False, dev, t)
       else do { b \<leftarrow> cbyte buf 0; Some (0, buf, bit b 6, dev, t) }
     } else Some (0, buf, False, dev, t))"

definition f11_query36 :: "'t spb \<Rightarrow> u16 \<Rightarrow> bool \<Rightarrow> u16 \<Rightarrow> cbuf \<Rightarrow> device \<Rightarrow> 't
                            \<Rightarrow> (int \<times> cbuf \<times> bool \<times> device \<times> 't) option" where
  "f11_query36 B qb has_query36 query_offset buf dev t =
    (if has_query36 then do {
       let query_offset = query_offset + 2;
       (ret, buf, dev, t) \<leftarrow> rmi_read B (qb + query_offset) buf dev t;
       if ret \<noteq> 0 then Some (ret, buf, False, dev, t)
       else do { b \<leftarrow> cbyte buf 0; Some (0, buf, bit b 5, dev, t) }
     } else Some (0, buf, False, dev, t))"

definition f11_query_chain :: "'t spb \<Rightarrow> u16 \<Rightarrow> u8 \<Rightarrow> u8 \<Rightarrow> cbuf \<Rightarrow> device \<Rightarrow> 't
                                \<Rightarrow> (int \<times> cbuf \<times> bool \<times> bool \<times> device \<times> 't) option" where
  "f11_query_chain B qb q0 q1 buf dev t =
    (let has_query9 = bit q0 3; has_query11 = bit q0 4; has_query12 = bit q0 5;
         has_query27 = bit q0 6; has_query28 = bit q0 7;
         has_rel = bit q1 3; has_gestures = bit q1 5;
         query_offset = (6 :: u16);
         query_offset = (if has_rel then query_offset + 1 else query_offset)
     in do {
       (ret, buf, has_palm_detect, has_query10, query_offset, dev, t) \<leftarrow>
         f11_gestures B qb has_gestures query_offset buf dev t;
       if ret \<noteq> 0 then Some (ret, buf, False, False, dev, t)
       else do {
         let query_offset = (if has_query9 then query_offset + 1 else query_offset);
         let query_offset = (if has_query10 then query_offset + 1 else query_offset);
         let query_offset = (if has_query11 then query_offset + 1 else query_offset);
         (ret, buf, query_offset, dev, t) \<leftarrow> f11_query12 B qb has_query12 query_offset buf dev t;
         if ret \<noteq> 0 then Some (ret, buf, False, False, dev, t)
         else do {
           let query_offset = (if has_query27 then query_offset + 1 else query_offset);
           (ret, buf, has_query36, dev, t) \<leftarrow> f11_query28 B qb has_query28 query_offset buf dev t;
           if ret \<noteq> 0 then Some (ret, buf, False, False, dev, t)
           else do {
             (ret, buf, has_data40, dev, t) \<leftarrow> f11_query36 B qb has_query36 query_offset buf dev t;
             if ret \<noteq> 0 then Some (ret, buf, False, False, dev, t)
             else Some (0, buf, has_palm_detect, has_data40, dev, t)
           }
         }
       }
     })"

text \<open>
  The control block (lines 505-544): twelve control registers, the
  resolution in registers 6-9, and the write-backs that clear the dribble
  bit of register 0 and the palm-detect bit of register 11.
\<close>

definition f11_dribble :: "'t spb \<Rightarrow> bool \<Rightarrow> device \<Rightarrow> 't \<Rightarrow> (int \<times> device \<times> 't) option" where
  "f11_dribble B has_dribble dev t =
    (if has_dribble then do {
       let dev = dev\<lparr>f11_ctrl_regs := (f11_ctrl_regs dev)[0 := f11_ctrl_regs dev ! 0 AND NOT 0x40]\<rparr>;
       (ret, dev, t) \<leftarrow> rmi_write B (control_base_addr (f11 dev)) (map Some (f11_ctrl_regs dev)) dev t;
       if ret \<noteq> 0 then Some (ret, dev, t) else Some (0, dev, t)
     } else Some (0, dev, t))"

definition f11_palm :: "'t spb \<Rightarrow> bool \<Rightarrow> device \<Rightarrow> 't \<Rightarrow> (int \<times> device \<times> 't) option" where
  "f11_palm B has_palm_detect dev t =
    (if has_palm_detect then do {
       let dev = dev\<lparr>f11_ctrl_regs := (f11_ctrl_regs dev)[11 := f11_ctrl_regs dev ! 11 AND NOT 0x01]\<rparr>;
       (ret, dev, t) \<leftarrow> rmi_write B (control_base_addr (f11 dev) + 11) (map Some (drop 11 (f11_ctrl_regs dev))) dev t;
       if ret \<noteq> 0 then Some (ret, dev, t) else Some (0, dev, t)
     } else Some (0, dev, t))"

definition f11_ctrl :: "'t spb \<Rightarrow> bool \<Rightarrow> bool \<Rightarrow> device \<Rightarrow> 't \<Rightarrow> (int \<times> device \<times> 't) option" where
  "f11_ctrl B has_dribble has_palm_detect dev t =
    do {
      (ret, regs, dev, t) \<leftarrow>
        rmi_read_block B (control_base_addr (f11 dev)) (map Some (f11_ctrl_regs dev)) RMI_F11_CTRL_REG_COUNT dev t;
      if ret \<noteq> 0 then Some (ret, dev, t)
      else do {
        regs \<leftarrow> those regs;
        let dev = dev\<lparr>f11_ctrl_regs := regs, read_f11_ctrl_regs := True\<rparr>;
        r6 \<leftarrow> cbyte (map Some regs) 6; r7 \<leftarrow> cbyte (map Some regs) 7;
        r8 \<leftarrow> cbyte (map Some regs) 8; r9 \<leftarrow> cbyte (map Some regs) 9;
        let dev = dev\<lparr>max_x := ucast r6 OR push_bit 8 (ucast r7), max_y := ucast r8 OR push_bit 8 (ucast r9)\<rparr>;
        (ret, dev, t) \<leftarrow> f11_dribble B has_dribble dev t;
        if ret \<noteq> 0 then Some (ret, dev, t)
        else f11_palm B has_palm_detect dev t
      }
    }"

definition rmi_populate_f11 :: "'t spb \<Rightarrow> device \<Rightarrow> 't \<Rightarrow> (int \<times> device \<times> 't) option" where
  "rmi_populate_f11 B dev t =
    (let qb = query_base_addr (f11 dev) in
     if qb = 0 then Some (- ENODEV, dev, t)
     else do {
       (ret, buf, dev, t) \<leftarrow> rmi_read B qb (replicate 20 None) dev t;
       if ret \<noteq> 0 then Some (ret, dev, t)
       else do {
         q0 \<leftarrow> cbyte buf 0;
         (ret, buf, dev, t) \<leftarrow> rmi_read B (qb + 1) buf dev t;
         if ret \<noteq> 0 then Some (ret, dev, t)
         else do {
           q1 \<leftarrow> cbyte buf 0;
           let mf = f11_fingers q1;
           let dev = dev\<lparr>max_fingers := mf, f11 := (f11 dev)\<lparr>report_size := f11_report_size mf\<rparr>\<rparr>;
           if \<not> bit q1 4 then Some (- ENODEV, dev, t)
           else do {
             (ret, buf, dev, t) \<leftarrow> rmi_read B (qb + 5) buf dev t;
             if ret \<noteq> 0 then Some (ret, dev, t)
             else do {
               q5 \<leftarrow> cbyte buf 0;
               let has_dribble = bit q5 4;
               (ret, buf, has_palm_detect, has_data40, dev, t) \<leftarrow> f11_query_chain B qb q0 q1 buf dev t;
               if ret \<noteq> 0 then Some (ret, dev, t)
               else do {
                 let rs = report_size (f11 dev);
                 let rs = (if has_data40 then rs + max_fingers dev * 2 else rs);
                 let dev = dev\<lparr>f11 := (f11 dev)\<lparr>report_size := rs\<rparr>\<rparr>;
                 f11_ctrl B has_dribble has_palm_detect dev t
               }
             }
           }
         }
       }
     })"

subsection \<open>F30 (rmi.cpp 547-613)\<close>

text \<open>
  The button loop (lines 591-610): a GPIO whose direction bit is clear
  (input) and whose data bit is set (pulled up) is a button; its bit is set
  in the button mask and in the active-state mask.
\<close>

definition f30_buttons :: "nat \<Rightarrow> nat \<Rightarrow> cbuf \<Rightarrow> device \<Rightarrow> device option" where
  "f30_buttons cnt bytes_per_ctrl buf dev =
     fold (\<lambda>i acc. do {
             dev \<leftarrow> acc;
             dir_byte \<leftarrow> cbyte buf (drop_bit 3 i);
             data_byte \<leftarrow> cbyte buf (drop_bit 3 i + bytes_per_ctrl);
             let dir = bit dir_byte (i AND 7);
             let dat = bit data_byte (i AND 7);
             if \<not> dir \<and> dat
             then Some (dev\<lparr>button_count := button_count dev + 1,
                             button_mask := button_mask dev OR push_bit i 1,
                             button_state_mask := button_state_mask dev OR push_bit i 1\<rparr>)
             else Some dev
           }) [0..<cnt] (Some dev)"

definition rmi_populate_f30 :: "'t spb \<Rightarrow> device \<Rightarrow> 't \<Rightarrow> (int \<times> device \<times> 't) option" where
  "rmi_populate_f30 B dev t =
    (if query_base_addr (f30 dev) = 0 then Some (- ENODEV, dev, t)
     else do {
       (ret, buf, dev, t) \<leftarrow> rmi_read_block B (query_base_addr (f30 dev)) (replicate 20 None) 2 dev t;
       if ret \<noteq> 0 then Some (ret, dev, t)
       else do {
         b0 \<leftarrow> cbyte buf 0;
         b1 \<leftarrow> cbyte buf 1;
         let has_gpio = bit b0 3;
         let has_led = bit b0 2;
         let dev = dev\<lparr>gpio_led_count := unat (b1 AND 0x1f)\<rparr>;
         let bytes_per_ctrl = (gpio_led_count dev + 7) div 8;
         let ctrl2_addr = ((if has_gpio \<and> has_led then of_nat bytes_per_ctrl else 0) + of_nat bytes_per_ctrl :: u8);
         let ctrl2_3_length = 2 * bytes_per_ctrl;
         let dev = dev\<lparr>f30 := (f30 dev)\<lparr>report_size := bytes_per_ctrl\<rparr>\<rparr>;
         (ret, buf, dev, t) \<leftarrow> rmi_read_block B (control_base_addr (f30 dev) + ucast ctrl2_addr) buf ctrl2_3_length dev t;
         if ret \<noteq> 0 then Some (ret, dev, t)
         else do {
           dev \<leftarrow> f30_buttons (gpio_led_count dev) bytes_per_ctrl buf dev;
           Some (0, dev, t)
         }
       }
     })"

subsection \<open>Initialisation (rmi.cpp 615-648)\<close>

definition rmi_populate :: "'t spb \<Rightarrow> device \<Rightarrow> 't \<Rightarrow> (int \<times> device \<times> 't) option" where
  "rmi_populate B dev t =
    (case rmi_set_mode B 0 t of
      (ret, t) \<Rightarrow>
        if ret \<noteq> 0 then Some (ret, dev, t)
        else do {
          (ret, dev, t) \<leftarrow> rmi_scan_pdt B dev t;
          if ret \<noteq> 0 then Some (ret, dev, t)
          else do {
            (ret, dev, t) \<leftarrow> rmi_populate_f01 B dev t;
            if ret \<noteq> 0 then Some (ret, dev, t)
            else do {
              (ret, dev, t) \<leftarrow> rmi_populate_f11 B dev t;
              if ret \<noteq> 0 then Some (ret, dev, t)
              else do {
                (ret, dev, t) \<leftarrow> rmi_populate_f30 B dev t;
                if ret \<noteq> 0 then Some (ret, dev, t) else Some (0, dev, t)
              }
            }
          }
        })"

end
