(* ===== verification/Rmi_Run.thy ===== *)
theory Rmi_Run
  imports Rmi_Populate
begin

text \<open>
  A register-file touchpad on the other end of the transport, and what the
  protocol client of \<open>Rmi\<close> does against it.  The touchpad is the abstract
  specification of the register protocol: a 16-bit register space
  \<open>tp_regs\<close> addressed by its page register and the low address byte of a
  report, register 0xFF of every page being the page select (RMI4), and one
  pending reply.  It is not code of the repository; it states what the spec
  (section 4.1) promises of the device.
\<close>

unbundle bit_operations_syntax

subsection \<open>The touchpad\<close>

record touchpad =
  tp_regs :: "u16 \<Rightarrow> u8"
  tp_page :: u8
  tp_reply :: "u8 list"

datatype tp_cmd = SetPage u8 | WriteRegs u8 "u8 list" | ReadAddr u8 nat

text \<open>
  A command to I2C register 0x25: the report starts at byte 3, its id, its
  length, and the low address byte; data or the read length follow byte 6.
\<close>

definition tp_decode :: "u8 \<Rightarrow> u8 option list \<Rightarrow> tp_cmd option" where
  "tp_decode reg cmd =
    (if reg \<noteq> 0x25 \<or> length cmd \<noteq> 24 then None
     else do {
       rid \<leftarrow> cmd ! 3;
       n \<leftarrow> cmd ! 4;
       lo \<leftarrow> cmd ! 5;
       if rid = RMI_WRITE_REPORT_ID then
         (if lo = 0xFF then do { p \<leftarrow> cmd ! 7; Some (SetPage p) }
          else do { ds \<leftarrow> those (take (unat n) (drop 7 cmd)); Some (WriteRegs lo ds) })
       else if rid = RMI_READ_ADDR_REPORT_ID then do {
         l0 \<leftarrow> cmd ! 7;
         l1 \<leftarrow> cmd ! 8;
         Some (ReadAddr lo (unat l0 + 256 * unat l1))
       }
       else None
     })"

definition tp_addr :: "touchpad \<Rightarrow> u8 \<Rightarrow> u16" where
  "tp_addr t lo = push_bit 8 (ucast (tp_page t)) OR ucast lo"

definition reg_fetch :: "(u16 \<Rightarrow> u8) \<Rightarrow> u16 \<Rightarrow> nat \<Rightarrow> u8 list" where
  "reg_fetch r a n = map (\<lambda>i. r (a + of_nat i)) [0..<n]"

primrec reg_store :: "(u16 \<Rightarrow> u8) \<Rightarrow> u16 \<Rightarrow> u8 list \<Rightarrow> u16 \<Rightarrow> u8" where
  "reg_store r a [] = r"
| "reg_store r a (d # ds) = reg_store (r(a := d)) (a + 1) ds"

definition tp_write :: "u8 \<Rightarrow> u8 option list \<Rightarrow> touchpad \<Rightarrow> touchpad" where
  "tp_write reg cmd t =
    (case tp_decode reg cmd of
       None \<Rightarrow> t
     | Some (SetPage p) \<Rightarrow> t\<lparr>tp_page := p\<rparr>
     | Some (WriteRegs lo ds) \<Rightarrow> t\<lparr>tp_regs := reg_store (tp_regs t) (tp_addr t lo) ds\<rparr>
     | Some (ReadAddr lo n) \<Rightarrow>
         t\<lparr>tp_reply := [42, 0, RMI_READ_DATA_REPORT_ID, of_nat n] @ reg_fetch (tp_regs t) (tp_addr t lo) 38\<rparr>)"

definition tp_bus :: "touchpad spb" where
  "tp_bus = \<lparr>spb_write = tp_write, spb_read = (\<lambda>t. (tp_reply t, t))\<rparr>"

text \<open>The driver's cached page agrees with the touchpad's page register.\<close>

definition coupled :: "device \<Rightarrow> touchpad \<Rightarrow> bool" where
  "coupled dev t \<longleftrightarrow> page dev = unat (tp_page t)"

text \<open>
  A transport on which the touchpad never answers: every input transfer is
  42 zero bytes.
\<close>

definition silent_bus :: "unit spb" where
  "silent_bus = \<lparr>spb_write = (\<lambda>_ _ t. t), spb_read = (\<lambda>t. (replicate 42 0, t))\<rparr>"

text \<open>
  An example touchpad: page 0 holds a table with F01, F11 and F30 and page 1
  an empty one; F11 reports five fingers and a 4000 x 2000 sensor, F30 one
  button on GPIO 1.
\<close>

definition tp_map :: "(u16 \<times> u8) list" where
  "tp_map =
     [(0xe9, 0x20), (0xea, 0x10), (0xeb, 0x30), (0xec, 0x02), (0xed, 1), (0xee, 0x01),
      (0xe3, 0x40), (0xe4, 0x00), (0xe5, 0x50), (0xe6, 0x06), (0xe7, 1), (0xe8, 0x11),
      (0xdd, 0x60), (0xde, 0x00), (0xdf, 0x70), (0xe0, 0x1a), (0xe1, 1), (0xe2, 0x30),
      (0x31, 0x07), (0x41, 0x14), (0x56, 0xA0), (0x57, 0x0F), (0x58, 0xD0), (0x59, 0x07),
      (0x60, 0x08), (0x61, 0x02), (0x72, 0x02)]"

definition tp_example :: touchpad where
  "tp_example = \<lparr>tp_regs = (\<lambda>a. case map_of tp_map a of Some v \<Rightarrow> v | None \<Rightarrow> 0), tp_page = 0, tp_reply = []\<rparr>"


subsection \<open>The protocol against the touchpad\<close>

lemma tp_addr_page: "tp_page t = RMI_PAGE addr \<Longrightarrow> tp_addr t (ucast addr) = addr"
  unfolding tp_addr_def RMI_PAGE_def
  by (rule bit_word_eqI) (auto simp: bit_simps)

lemma copy_in_Suc:
  "copy_in rmi (Suc n) buf =
     do { buf \<leftarrow> copy_in rmi n buf; b \<leftarrow> frame_byte rmi (n + 2);
          if n < length buf then Some (buf[n := Some b]) else None }"
  by (simp add: copy_in_def)

lemma copy_in_Some:
  "len + 2 \<le> length rmi \<Longrightarrow> len \<le> length buf \<Longrightarrow>
   copy_in rmi len buf = Some (map Some (take len (drop 2 rmi)) @ drop len buf)"
proof (induction len)
  case 0 then show ?case by (simp add: copy_in_def)
next
  case (Suc n)
  then have "copy_in rmi n buf = Some (map Some (take n (drop 2 rmi)) @ drop n buf)" by simp
  moreover have "take (Suc n) (drop 2 rmi) = take n (drop 2 rmi) @ [rmi ! (n + 2)]"
    using Suc.prems by (simp add: take_Suc_conv_app_nth add.commute)
  moreover have "drop n buf = buf ! n # drop (Suc n) buf"
    using Suc.prems by (simp add: Cons_nth_drop_Suc)
  ultimately show ?case
    using Suc.prems by (simp add: copy_in_Suc frame_byte_def list_update_append)
qed

lemma replicate_update_head:
  "n < m \<Longrightarrow> (replicate (m - n) x)[0 := y] = y # replicate (m - Suc n) x"
  by (cases "m - n") auto

lemma write_report_fold:
  "length hdr = 4 \<Longrightarrow> n \<le> 17 \<Longrightarrow> n \<le> length (buf :: cbuf) \<Longrightarrow>
   fold (\<lambda>i acc. do { wr \<leftarrow> acc; if i < length buf \<and> i + 4 < 21 then Some (wr[i + 4 := buf ! i]) else None })
     [0..<n] (Some (map Some hdr @ replicate 17 (Some 0))) =
   Some (map Some hdr @ take n buf @ replicate (17 - n) (Some 0))"
proof (induction n)
  case 0 then show ?case by simp
next
  case (Suc n)
  have "take (Suc n) buf = take n buf @ [buf ! n]"
    using Suc.prems by (simp add: take_Suc_conv_app_nth)
  moreover have "(replicate (17 - n) (Some (0::u8)))[0 := buf ! n] = buf ! n # replicate (17 - Suc n) (Some 0)"
    using Suc.prems by (simp add: replicate_update_head)
  ultimately show ?case
    using Suc by (simp add: list_update_append nth_append)
qed

lemma write_report_of_Some:
  "len \<le> 17 \<Longrightarrow> len \<le> length buf \<Longrightarrow>
   write_report_of addr buf len =
     Some (map Some [RMI_WRITE_REPORT_ID, of_nat len, ucast addr, ucast (drop_bit 8 addr)] @ take len buf @ replicate (17 - len) (Some 0))"
  unfolding write_report_of_def
  using write_report_fold [where n = len and buf = buf and hdr = "[RMI_WRITE_REPORT_ID, of_nat len, ucast addr, ucast (drop_bit 8 addr)]"]
  by simp


lemma tp_bus_sel [simp]: "spb_write tp_bus = tp_write" "spb_read tp_bus t = (tp_reply t, t)"
  by (simp_all add: tp_bus_def)

lemma select_page_tp:
  assumes "coupled dev t"
  shows "select_page tp_bus addr dev t = (0, dev\<lparr>page := unat (RMI_PAGE addr)\<rparr>, t\<lparr>tp_page := RMI_PAGE addr\<rparr>)"
proof (cases "unat (RMI_PAGE addr) = page dev")
  case True
  then have "tp_page t = RMI_PAGE addr" using assms by (simp add: coupled_def word_unat_eq_iff)
  then show ?thesis using True by (simp add: select_page_def)
next
  case False
  then show ?thesis
    by (simp add: select_page_def rmi_set_page_def rmi_write_report_def tp_write_def tp_decode_def)
qed

lemma small_len_bytes:
  "len < 256 \<Longrightarrow> unat (of_nat len :: u8) = len \<and> (of_nat (drop_bit 8 len) :: u8) = 0"
  by (simp add: unat_of_nat drop_bit_eq_div)

lemma take_reg_fetch [simp]: "take k (reg_fetch r a n) = reg_fetch r a (min k n)"
  by (cases "k \<le> n") (simp_all add: reg_fetch_def take_map min_def)

lemma length_reg_fetch [simp]: "length (reg_fetch r a n) = n"
  by (simp add: reg_fetch_def)

lemma rmi_read_block_tp:
  assumes "coupled dev t" "len \<le> 38" "len \<le> length buf"
  shows "rmi_read_block tp_bus addr buf len dev t =
    Some (0, map Some (reg_fetch (tp_regs t) addr len) @ drop len buf, dev\<lparr>page := unat (RMI_PAGE addr)\<rparr>,
          t\<lparr>tp_page := RMI_PAGE addr,
            tp_reply := [42, 0, RMI_READ_DATA_REPORT_ID, of_nat len] @ reg_fetch (tp_regs t) addr 38\<rparr>)"
proof -
  let ?t1 = "t\<lparr>tp_page := RMI_PAGE addr\<rparr>"
  have addr: "tp_addr ?t1 (ucast addr) = addr" by (rule tp_addr_page) simp
  have cin: "copy_in ([RMI_READ_DATA_REPORT_ID, of_nat len] @ reg_fetch (tp_regs t) addr 38) len buf =
             Some (map Some (reg_fetch (tp_regs t) addr len) @ drop len buf)"
    using assms by (simp add: copy_in_Some min_def)
  show ?thesis
    using assms cin
    by (simp add: rmi_read_block_def select_page_tp rmi_write_report_def tp_write_def
                  tp_decode_def read_addr_report_def small_len_bytes addr frame_byte_def)
qed

lemma rmi_write_block_tp:
  assumes "coupled dev t" "len \<le> 17" "len \<le> length buf" "those (take len buf) = Some ds"
          "ucast addr \<noteq> (0xFF :: u8)"
  shows "rmi_write_block tp_bus addr buf len dev t =
    Some (0, dev\<lparr>page := unat (RMI_PAGE addr)\<rparr>,
          t\<lparr>tp_page := RMI_PAGE addr, tp_regs := reg_store (tp_regs t) addr ds\<rparr>)"
proof -
  have addr: "tp_addr (t\<lparr>tp_page := RMI_PAGE addr\<rparr>) (ucast addr) = addr" by (rule tp_addr_page) simp
  show ?thesis
    using assms
    by (simp add: rmi_write_block_def select_page_tp write_report_of_Some rmi_write_report_def
                  tp_write_def tp_decode_def small_len_bytes addr)
qed


lemma reg_store_other:
  "(\<forall>i<length ds. b \<noteq> a + of_nat i) \<Longrightarrow> reg_store r a ds b = r b"
proof (induction ds arbitrary: r a)
  case Nil then show ?case by simp
next
  case (Cons d ds)
  have "\<forall>i<length ds. b \<noteq> (a + 1) + of_nat i"
  proof (intro allI impI)
    fix i assume "i < length ds"
    then have "b \<noteq> a + of_nat (Suc i)" using Cons.prems [rule_format, of "Suc i"] by simp
    then show "b \<noteq> (a + 1) + of_nat i" by (simp add: ac_simps)
  qed
  moreover have "b \<noteq> a" using Cons.prems [rule_format, of 0] by simp
  ultimately show ?case using Cons.IH by simp
qed

lemma reg_fetch_Suc: "reg_fetch r a (Suc n) = r a # reg_fetch r (a + 1) n"
  by (simp add: reg_fetch_def upt_conv_Cons map_Suc_upt [symmetric] comp_def add.assoc del: upt_Suc)

lemma reg_fetch_store:
  "length ds < 65536 \<Longrightarrow> reg_fetch (reg_store r a ds) a (length ds) = ds"
proof (induction ds arbitrary: r a)
  case Nil then show ?case by (simp add: reg_fetch_def)
next
  case (Cons d ds)
  have "\<forall>i<length ds. a \<noteq> (a + 1) + of_nat i"
  proof (intro allI impI)
    fix i assume i: "i < length ds"
    have "unat (of_nat (Suc i) :: u16) = Suc i"
      using i Cons.prems by (simp add: unat_of_nat del: of_nat_Suc)
    then have "(of_nat (Suc i) :: u16) \<noteq> 0" by auto
    then show "a \<noteq> (a + 1) + of_nat i" by (simp add: add.assoc)
  qed
  then show ?case using Cons by (simp add: reg_fetch_Suc reg_store_other)
qed


lemma those_map_Some [simp]: "those (map Some xs) = Some xs"
  by (induction xs) auto

lemma coupled_init [simp]: "coupled (init_device rx ry) tp_example"
  by (simp add: coupled_def init_device_def tp_example_def)

subsection \<open>Properties of the register protocol\<close>

text \<open>
  C5: Refinement of a register read: against the touchpad, with the driver's
  cached page equal to the touchpad's page register, \<open>rmi_read_block\<close> of
  \<open>len \<le> 38\<close> bytes selects the address's page (sending the page select only
  when it differs), returns status 0 and fills the first \<open>len\<close> bytes of the
  buffer with the registers \<open>addr, addr + 1, ...\<close> of the register file.
\<close>

theorem rmi_read_block_refines:
  assumes "coupled dev t" "len \<le> 38" "len \<le> length buf"
  shows "\<exists>t'. rmi_read_block tp_bus addr buf len dev t =
                Some (0, map Some (reg_fetch (tp_regs t) addr len) @ drop len buf,
                      dev\<lparr>page := unat (RMI_PAGE addr)\<rparr>, t') \<and>
              tp_regs t' = tp_regs t \<and> coupled (dev\<lparr>page := unat (RMI_PAGE addr)\<rparr>) t'"
  using rmi_read_block_tp [OF assms] by (simp add: coupled_def)

text \<open>
  C18: Refinement of a register write: \<open>rmi_write_block\<close> of \<open>len \<le> 17\<close>
  initialised bytes to an address whose low byte is not the page-select
  register stores them at \<open>addr, addr + 1, ...\<close> and returns status 0.
\<close>

theorem rmi_write_block_refines:
  assumes "coupled dev t" "len \<le> 17" "len \<le> length buf" "those (take len buf) = Some ds"
          "ucast addr \<noteq> (0xFF :: u8)"
  shows "\<exists>t'. rmi_write_block tp_bus addr buf len dev t = Some (0, dev\<lparr>page := unat (RMI_PAGE addr)\<rparr>, t') \<and>
              tp_regs t' = reg_store (tp_regs t) addr ds \<and> coupled (dev\<lparr>page := unat (RMI_PAGE addr)\<rparr>) t'"
  using rmi_write_block_tp [OF assms] by (simp add: coupled_def)

text \<open>
  C6: Round trip: a block written with \<open>rmi_write_block\<close> and read back with
  \<open>rmi_read_block\<close> at the same address is returned unchanged, with status 0.
\<close>

theorem rmi_write_read_roundtrip:
  assumes "coupled dev t" "length ds \<le> 17" "ucast addr \<noteq> (0xFF :: u8)"
  shows "do {
           (_, dev1, t1) \<leftarrow> rmi_write_block tp_bus addr (map Some ds) (length ds) dev t;
           (r, buf, _, _) \<leftarrow> rmi_read_block tp_bus addr (replicate (length ds) None) (length ds) dev1 t1;
           Some (r, buf)
         } = Some (0, map Some ds)"
proof -
  have w: "rmi_write_block tp_bus addr (map Some ds) (length ds) dev t =
           Some (0, dev\<lparr>page := unat (RMI_PAGE addr)\<rparr>,
                 t\<lparr>tp_page := RMI_PAGE addr, tp_regs := reg_store (tp_regs t) addr ds\<rparr>)"
    using assms by (intro rmi_write_block_tp) (simp_all add: those_map_Some)
  have c: "coupled (dev\<lparr>page := unat (RMI_PAGE addr)\<rparr>) (t\<lparr>tp_page := RMI_PAGE addr, tp_regs := reg_store (tp_regs t) addr ds\<rparr>)"
    by (simp add: coupled_def)
  have "length ds < 65536" using assms(2) by simp
  then show ?thesis
    using w rmi_read_block_tp [OF c, of "length ds" "replicate (length ds) None" addr] assms(2)
    by (simp add: reg_fetch_store)
qed

text \<open>
  C19: Errors never propagate: on any transport, a block read that is defined
  returns status 0, whatever the touchpad answered; so do block writes.
\<close>

theorem rmi_block_status:
  "pred_option (\<lambda>(r, _). r = 0) (rmi_read_block B addr buf len dev t) \<and>
   pred_option (\<lambda>(r, _). r = 0) (rmi_write_block B addr buf len dev t)"
  by (auto simp: rmi_read_block_def rmi_write_block_def select_page_def rmi_set_page_def
                 rmi_write_report_def Let_def split: prod.splits bind_split)

text \<open>
  C20: A reply that does not carry the read-data id is not an error: the
  block read returns status 0 and leaves the caller's buffer as it was (not
  zero-filled).
\<close>

theorem rmi_read_block_stale:
  assumes "\<forall>t. frame_byte (take 40 (drop 2 (fst (spb_read B t)))) 0 \<notin> {None, Some RMI_READ_DATA_REPORT_ID}"
  shows "\<exists>dev' t'. rmi_read_block B addr buf len dev t = Some (0, buf, dev', t')"
proof -
  obtain r1 dev1 t1 where sp: "select_page B addr dev t = (r1, dev1, t1)"
    by (cases "select_page B addr dev t") auto
  have r1: "r1 = 0"
    using sp by (auto simp: select_page_def rmi_set_page_def rmi_write_report_def Let_def split: if_splits)
  define t2 where "t2 = spb_write B 0x25 ([Some 0, Some 0x17, Some 0] @ read_addr_report addr len) t1"
  obtain rid where rid: "frame_byte (take 40 (drop 2 (fst (spb_read B t2)))) 0 = Some rid"
    "rid \<noteq> RMI_READ_DATA_REPORT_ID"
    using assms [rule_format, of t2] by (cases "frame_byte (take 40 (drop 2 (fst (spb_read B t2)))) 0") auto
  show ?thesis
    using sp r1 rid
    by (simp add: rmi_read_block_def rmi_write_report_def t2_def Let_def prod.case_eq_if del: rmi_constants)
qed

text \<open>
  C21: \<open>rmi_gen_mask base count\<close> is the mask of the \<open>count\<close> interrupt bits
  from bit \<open>base\<close>, for every range inside 32 bits.
\<close>

theorem rmi_gen_mask_range:
  "0 < cnt \<Longrightarrow> base + cnt \<le> 32 \<Longrightarrow> rmi_gen_mask base cnt = Some (push_bit base (mask cnt))"
  unfolding rmi_gen_mask_def GENMASK_def
  apply (simp)
  apply (intro conjI impI)
   apply (rule bit_word_eqI)
   apply (auto simp add: bit_simps simp flip: mask_eq_exp_minus_1)
  done

subsection \<open>Witnesses\<close>

theorem rmi_read_block_refines_witness:
  "\<exists>t'. rmi_read_block tp_bus 0x0041 (replicate 20 None) 1 (init_device 1000 1000) tp_example =
          Some (0, [Some 0x14] @ replicate 19 None, (init_device 1000 1000)\<lparr>page := 0\<rparr>, t') \<and>
        tp_regs t' = tp_regs tp_example"
proof -
  have "reg_fetch (tp_regs tp_example) 0x0041 1 = [0x14]"
    by (simp add: reg_fetch_def tp_example_def tp_map_def)
  then show ?thesis
    using rmi_read_block_refines [of "init_device 1000 1000" tp_example 1 "replicate 20 None" "0x0041"]
    by (auto simp: RMI_PAGE_def)
qed

theorem rmi_write_block_refines_witness:
  "\<exists>t'. rmi_write_block tp_bus 0x0150 [Some 7] 1 (init_device 1000 1000) tp_example =
          Some (0, (init_device 1000 1000)\<lparr>page := 1\<rparr>, t') \<and> tp_regs t' 0x0150 = 7"
  using rmi_write_block_refines [of "init_device 1000 1000" tp_example 1 "[Some 7]" "[7]" "0x0150"]
  by (auto simp: RMI_PAGE_def)

theorem rmi_write_read_roundtrip_witness:
  "do {
     (_, dev1, t1) \<leftarrow> rmi_write_block tp_bus 0x0150 (map Some [1, 2, 3]) 3 (init_device 1000 1000) tp_example;
     (r, buf, _, _) \<leftarrow> rmi_read_block tp_bus 0x0150 (replicate 3 None) 3 dev1 t1;
     Some (r, buf)
   } = Some (0, [Some 1, Some 2, Some 3])"
  using rmi_write_read_roundtrip [of "init_device 1000 1000" tp_example "[1, 2, 3]" "0x0150"]
  by (simp add: numeral_3_eq_3)

theorem rmi_read_block_stale_witness:
  "\<exists>dev' t'. rmi_read_block silent_bus 0x00e9 [Some 1, Some 2] 2 (init_device 1000 1000) () =
              Some (0, [Some 1, Some 2], dev', t')"
  using rmi_read_block_stale [of silent_bus "0x00e9" "[Some 1, Some 2]" 2 "init_device 1000 1000" "()"]
  by (simp add: silent_bus_def frame_byte_def)

theorem rmi_gen_mask_range_witness:
  "0 < (2::nat) \<and> (3::nat) + 2 \<le> 32 \<and> rmi_gen_mask 3 2 = Some 0x18"
  using rmi_gen_mask_range [of 2 3] by (simp add: mask_eq_exp_minus_1)

end
