(* ===== verification/Decoder_Run.thy ===== *)
theory Decoder_Run
  imports Decoder
begin

text \<open>
  What the decoder guarantees.  \<open>dev_inv\<close> is the configuration the RMI4
  discovery leaves for a supported touchpad (one to five fingers, non-zero
  resolutions, an F30 report as wide as its GPIO count) with a 40-byte latched
  frame and a gesture state satisfying \<open>gesture_inv\<close>; under it every
  interrupt and timer event returns and keeps it, so every run of events
  returns.  The coordinate unpacking inverts the F11 packing, the rescaling
  stays within the output resolution for in-range raw values, and the
  button decoder keeps the last registered button.  Raw \<open>y\<close> values beyond
  \<open>max_y\<close> and a ten-finger sensor show the code's unchecked cases.
\<close>

unbundle bit_operations_syntax

text \<open>The invariant of the device context and the well-formed events (42-byte transfers).\<close>

definition dev_inv :: "device \<Rightarrow> bool" where
  "dev_inv dev \<longleftrightarrow> gesture_inv (gesture dev) \<and> length (lastreport dev) = 40 \<and>
     0 < max_fingers dev \<and> max_fingers dev \<le> 5 \<and> max_x dev \<noteq> 0 \<and> max_y dev \<noteq> 0 \<and>
     gpio_led_count dev < 32 \<and> report_size (f30 dev) = (gpio_led_count dev + 7) div 8"

fun event_ok :: "event \<Rightarrow> bool" where
  "event_ok (Interrupt i2c) \<longleftrightarrow> length i2c = 42"
| "event_ok Timer \<longleftrightarrow> True"

text \<open>The F11 packing of two 12-bit coordinates into bytes 0-2 of a touch record.\<close>

definition touch_bytes :: "nat \<Rightarrow> nat \<Rightarrow> u8 \<times> u8 \<times> u8" where
  "touch_bytes x y = (of_nat (x div 16), of_nat (y div 16), of_nat ((y mod 16) * 16 + x mod 16))"

text \<open>A device with a 4000 x 2000 sensor and 1000 x 1000 output.\<close>

definition dev_2000 :: device where
  "dev_2000 = (init_device 1000 1000)\<lparr>max_fingers := 5, max_x := 4000, max_y := 2000\<rparr>"

text \<open>
  A configured five-finger touchpad: F01 owns interrupt bit 0, F11 bits 1-2,
  F30 bit 3 with two GPIOs of which GPIO 1 is a button.
\<close>

definition dev_example :: device where
  "dev_example = dev_2000\<lparr>ConnectInterrupt := True,
     f11 := no_function\<lparr>interrupt_base := 1, interrupt_count := 2, irq_mask := 6, report_size := 27\<rparr>,
     f30 := no_function\<lparr>interrupt_base := 3, interrupt_count := 1, irq_mask := 8, report_size := 1\<rparr>,
     gpio_led_count := 2, button_mask := 2, button_state_mask := 2\<rparr>"

text \<open>An attention frame: slot 0 touching at raw (1604, 803) with pressure 9, F11 and F30 interrupts.\<close>

definition frame_example :: "u8 list" where
  "frame_example = [1, 0x0A, 0x01, 0, 100, 50, 0x34, 0, 9] @ replicate 31 0"

text \<open>Whether button bit \<open>i\<close> reads as pressed, its active state taken into account.\<close>

definition f30_pressed :: "device \<Rightarrow> u8 list \<Rightarrow> nat \<Rightarrow> nat \<Rightarrow> bool" where
  "f30_pressed dev fr idx i \<longleftrightarrow> bit (fr ! (idx + i div 8)) (i AND 7) \<noteq> bit (button_state_mask dev) i"

subsection \<open>Decoding returns\<close>
lemma frame_byte_Some [simp]: "k < length fr \<Longrightarrow> frame_byte fr k = Some (fr ! k)"
  by (simp add: frame_byte_def)

lemma gesture_inv_slot_upd [simp]:
  "gesture_inv (sc\<lparr>sc_x := (sc_x sc)[i := x], sc_y := (sc_y sc)[i := y], sc_p := (sc_p sc)[i := p]\<rparr>) = gesture_inv sc"
  "gesture_inv (sc\<lparr>buttondown := b\<rparr>) = gesture_inv sc"
  by (simp_all add: gesture_inv_def alttab_ok_def)

lemma process_touch_Some:
  assumes "pos + 4 < length fr" "max_x dev \<noteq> 0" "max_y dev \<noteq> 0" "gesture_inv sc"
  shows "\<exists>sc'. rmi_f11_process_touch dev sc slot fs fr pos = Some sc' \<and> gesture_inv sc'"
  using assms by (simp add: rmi_f11_process_touch_def Let_def)

lemma f11_fold_Some:
  assumes "\<forall>i \<in> set is. idx + drop_bit 2 i < length fr \<and> idx + f11_offset (max_fingers dev) + 5 * i + 4 < length fr"
    and "max_x dev \<noteq> 0" "max_y dev \<noteq> 0"
  shows "gesture_inv sc \<Longrightarrow> \<exists>sc'. fold (\<lambda>i acc. do {
                   sc \<leftarrow> acc;
                   fsb \<leftarrow> frame_byte fr (idx + drop_bit 2 i);
                   rmi_f11_process_touch dev sc i (finger_state_of fsb i) fr
                     (idx + f11_offset (max_fingers dev) + 5 * i)
                 }) is (Some sc) = Some sc' \<and> gesture_inv sc'"
  using assms(1)
proof (induction "is" arbitrary: sc)
  case Nil
  then show ?case by simp
next
  case (Cons i "is")
  then obtain sc1 where "rmi_f11_process_touch dev sc i (finger_state_of (fr ! (idx + drop_bit 2 i)) i) fr
        (idx + f11_offset (max_fingers dev) + 5 * i) = Some sc1" and "gesture_inv sc1"
    using process_touch_Some [OF _ assms(2,3)] by force
  then show ?case using Cons by simp
qed


lemma f11_input_Some:
  assumes "0 < max_fingers dev" "max_fingers dev \<le> 5" "idx \<le> 6" "length fr = 40"
    and "max_x dev \<noteq> 0" "max_y dev \<noteq> 0" "gesture_inv sc"
  shows "\<exists>sc'. rmi_f11_input dev sc fr idx = Some (sc', report_size (f11 dev)) \<and> gesture_inv sc'"
proof -
  have "\<forall>i \<in> set [0..<max_fingers dev]. idx + drop_bit 2 i < length fr \<and>
          idx + f11_offset (max_fingers dev) + 5 * i + 4 < length fr"
    using assms(2-4) by (auto simp: f11_offset_def drop_bit_eq_div)
  from f11_fold_Some [OF this assms(5,6) assms(7)] show ?thesis
    by (auto simp: rmi_f11_input_def)
qed

lemma f30_fold_Some:
  assumes "\<forall>i \<in> set is. idx + i div 8 < length fr"
  shows "gesture_inv sc \<Longrightarrow> \<exists>sc'. fold (f30_button dev fr idx) is (Some sc) = Some sc' \<and> gesture_inv sc'"
  using assms
proof (induction "is" arbitrary: sc)
  case Nil
  then show ?case by simp
next
  case (Cons i "is")
  have "\<exists>sc1. f30_button dev fr idx i (Some sc) = Some sc1 \<and> gesture_inv sc1"
    using Cons.prems by (auto simp: f30_button_def Let_def)
  then obtain sc1 where "f30_button dev fr idx i (Some sc) = Some sc1" "gesture_inv sc1" by blast
  then show ?case using Cons by simp
qed

lemma f30_input_Some:
  assumes "report_size (f30 dev) = (gpio_led_count dev + 7) div 8" "length fr = 40"
    and "len = 40 - int idx" "gesture_inv sc"
  shows "\<exists>sc' n. rmi_f30_input dev sc irq fr idx len = Some (sc', n) \<and> gesture_inv sc' \<and>
           (n = 0 \<or> n = report_size (f30 dev))"
proof (cases "ucast irq AND irq_mask (f30 dev) = 0 \<or> len < int (report_size (f30 dev))")
  case True
  then show ?thesis using assms by (auto simp: rmi_f30_input_def)
next
  case False
  then have "\<forall>i \<in> set [0..<gpio_led_count dev]. idx + i div 8 < length fr"
    using assms(1-3) by (auto intro: less_le_trans [OF _ div_le_mono] simp: less_Suc_eq_le)
  from f30_fold_Some [OF this assms(4), of dev] obtain sc' where
    "fold (f30_button dev fr idx) [0..<gpio_led_count dev] (Some sc) = Some sc'" "gesture_inv sc'" by blast
  with False show ?thesis by (auto simp: rmi_f30_input_def)
qed


lemma gesture_inv_clear_slots [simp]: "gesture_inv (clear_slots sc) = gesture_inv sc"
  by (simp add: clear_slots_def upt_slots gesture_inv_def alttab_ok_def)

lemma decode_frame_Some:
  assumes "dev_inv dev" "length fr = 40" "gesture_inv sc"
  shows "\<exists>sc'. decode_frame dev sc fr = Some sc' \<and> gesture_inv sc'"
proof (cases "interrupt_base (f11 dev) < interrupt_base (f30 dev)")
  case True
  obtain sc1 where s1: "rmi_f11_input dev sc fr 2 = Some (sc1, report_size (f11 dev))" "gesture_inv sc1"
    using f11_input_Some [of dev 2 fr sc] assms by (auto simp: dev_inv_def)
  have "\<exists>sc2 n. rmi_f30_input dev sc1 (fr ! 1) fr (2 + report_size (f11 dev))
       (40 - int (2 + report_size (f11 dev))) = Some (sc2, n) \<and> gesture_inv sc2"
    using f30_input_Some [where dev = dev and idx = "2 + report_size (f11 dev)" and irq = "fr ! 1",
        OF _ assms(2) refl s1(2)] assms(1) by (auto simp: dev_inv_def)
  then obtain sc2 n where s2: "rmi_f30_input dev sc1 (fr ! 1) fr (2 + report_size (f11 dev))
       (40 - int (2 + report_size (f11 dev))) = Some (sc2, n)" "gesture_inv sc2" by blast
  show ?thesis using True s1 s2 by (simp add: decode_frame_def)
next
  case False
  have "\<exists>sc1 n. rmi_f30_input dev sc (fr ! 1) fr 2 (40 - int 2) = Some (sc1, n) \<and> gesture_inv sc1 \<and>
      (n = 0 \<or> n = report_size (f30 dev))"
    using f30_input_Some [where dev = dev and idx = 2 and irq = "fr ! 1",
        OF _ assms(2) refl assms(3)] assms(1) by (auto simp: dev_inv_def)
  then obtain sc1 n where s1: "rmi_f30_input dev sc (fr ! 1) fr 2 (40 - int 2) = Some (sc1, n)" "gesture_inv sc1"
    "n = 0 \<or> n = report_size (f30 dev)" by blast
  have "n \<le> 4" using s1(3) assms(1) by (auto simp: dev_inv_def)
  then obtain sc2 where s2: "rmi_f11_input dev sc1 fr (2 + n) = Some (sc2, report_size (f11 dev))" "gesture_inv sc2"
    using f11_input_Some [of dev "2 + n" fr sc1] assms s1 by (auto simp: dev_inv_def)
  show ?thesis using False s1 s2 by (simp add: decode_frame_def)
qed

lemma TrackpadRawInput_Some:
  assumes "dev_inv dev" "length fr = 40" "gesture_inv sc"
  shows "\<exists>sc'. TrackpadRawInput dev sc fr = Some sc' \<and> gesture_inv sc'"
proof (cases "fr ! 0 = RMI_ATTN_REPORT_ID")
  case True
  obtain sc1 where "decode_frame dev (clear_slots sc) fr = Some sc1" "gesture_inv sc1"
    using decode_frame_Some [of dev fr "clear_slots sc"] assms by auto
  with True show ?thesis using ProcessGesture_Some [of sc1] by (auto simp: TrackpadRawInput_def)
next
  case False
  then show ?thesis using assms by (simp add: TrackpadRawInput_def)
qed

lemma dev_inv_gesture: "dev_inv dev \<Longrightarrow> gesture_inv sc \<Longrightarrow> dev_inv (dev\<lparr>gesture := sc\<rparr>)"
  by (auto simp: dev_inv_def)

lemma device_step_Some:
  assumes "dev_inv dev" "event_ok e"
  shows "\<exists>dev'. device_step dev e = Some dev' \<and> dev_inv dev'"
proof (cases e)
  case (Interrupt i2c)
  then show ?thesis using assms by (auto simp: OnInterruptIsr_def dev_inv_def Let_def)
next
  case Timer
  show ?thesis
  proof (cases "\<not> ConnectInterrupt dev \<or> lastreport dev ! 0 = 0xff")
    case True
    then show ?thesis using assms Timer by (auto simp: SynaTimerFunc_def)
  next
    case False
    obtain sc' where "TrackpadRawInput dev (gesture dev) (lastreport dev) = Some sc'" "gesture_inv sc'"
      using TrackpadRawInput_Some [of dev "lastreport dev" "gesture dev"] assms by (auto simp: dev_inv_def)
    then show ?thesis using False Timer assms by (auto simp: SynaTimerFunc_def dev_inv_gesture)
  qed
qed

text \<open>
  C1: from a device context satisfying \<open>dev_inv\<close>, every sequence of interrupt transfers and timer ticks is processed to the end (no read past a frame, no division by zero, no endless alt-tab scan), and the context reached satisfies \<open>dev_inv\<close> again.
\<close>

theorem device_run_Some:
  "dev_inv dev \<Longrightarrow> list_all event_ok es \<Longrightarrow> \<exists>dev'. device_run dev es = Some dev' \<and> dev_inv dev'"
proof (induction es arbitrary: dev)
  case Nil
  then show ?case by simp
next
  case (Cons e es)
  then obtain dev1 where "device_step dev e = Some dev1" "dev_inv dev1"
    using device_step_Some by fastforce
  then show ?case using Cons by simp
qed

subsection \<open>Coordinates\<close>

lemma mask4_int: "(0x0F :: int) = mask 4"
  by (simp add: mask_eq_exp_minus_1)

lemma touch_x_eq: "touch_x b0 b2 = uint b0 * 16 + uint b2 mod 16"
proof -
  have "push_bit 4 (uint b0) OR (uint b2 AND 0x0F) = push_bit 4 (uint b0) + (uint b2 AND 0x0F)"
    by (rule disjunctive_add [symmetric]) (auto simp: bit_simps mask4_int)
  moreover have "uint b2 AND 0x0F = uint b2 mod 16"
    by (simp add: mask4_int take_bit_eq_mask [symmetric] take_bit_eq_mod)
  ultimately show ?thesis by (simp add: touch_x_def push_bit_eq_mult)
qed

lemma touch_y_eq: "touch_y b1 b2 = uint b1 * 16 + uint b2 div 16"
proof -
  have "uint b2 div 16 < 16"
    using uint_bounded [of b2] by simp
  then have v: "drop_bit 4 (uint b2) = take_bit 4 (drop_bit 4 (uint b2))"
    by (simp add: drop_bit_eq_div, subst take_bit_int_eq_self) (simp_all add: pos_imp_zdiv_nonneg_iff)
  have "push_bit 4 (uint b1) OR drop_bit 4 (uint b2) = push_bit 4 (uint b1) + drop_bit 4 (uint b2)"
    by (rule disjunctive_add [symmetric], subst v) (auto simp: bit_simps)
  then show ?thesis by (simp add: touch_y_def push_bit_eq_mult drop_bit_eq_div)
qed


lemma uint_of_nat_u8: "n < 256 \<Longrightarrow> uint (of_nat n :: u8) = int n"
  by (simp add: uint_nat unat_of_nat)

text \<open>
  C17: the coordinate unpacking of \<open>rmi_f11_process_touch\<close> inverts the F11 packing of two 12-bit coordinates into three bytes.
\<close>

theorem touch_roundtrip:
  assumes "x < 4096" "y < 4096" "touch_bytes x y = (b0, b1, b2)"
  shows "touch_x b0 b2 = int x \<and> touch_y b1 b2 = int y"
proof -
  have b: "uint b0 = int (x div 16)" "uint b1 = int (y div 16)" "uint b2 = int ((y mod 16) * 16 + x mod 16)"
    using assms by (auto simp: touch_bytes_def uint_of_nat_u8 simp del: of_nat_add of_nat_mult)
  have "int ((y mod 16) * 16 + x mod 16) mod 16 = int (x mod 16)" by (simp add: zmod_int [symmetric])
  moreover have "int ((y mod 16) * 16 + x mod 16) div 16 = int (y mod 16)" by (simp add: zdiv_int [symmetric])
  ultimately show ?thesis
    by (simp add: touch_x_eq touch_y_eq b) (metis div_mult_mod_eq of_nat_add of_nat_mult of_nat_numeral)
qed


lemma sint_div_small:
  assumes "0 \<le> p" "p < 2 ^ 31"
  shows "sint ((word_of_int p :: u32) div mx) = p div uint mx"
proof -
  have u: "uint (word_of_int p :: u32) = p"
    using assms by (simp add: uint_word_of_int_eq take_bit_int_eq_self)
  have q: "uint ((word_of_int p :: u32) div mx) = p div uint mx"
    by (simp add: uint_div u)
  have "p div uint mx \<le> p"
  proof (cases "uint mx = 0")
    case False
    then have "p div uint mx \<le> p div 1"
      using assms(1) uint_ge_0 [of mx] by (intro zdiv_mono2) (auto simp: order_le_less)
    then show ?thesis by simp
  qed (simp add: assms(1))
  moreover have "0 \<le> p div uint mx" using assms(1) uint_ge_0 [of mx] by (simp add: div_int_pos_iff)
  ultimately show ?thesis
    using assms(2) q by (simp add: sint_uint signed_take_bit_int_eq_self)
qed

lemma scale_axis_div:
  "0 \<le> v * res \<Longrightarrow> v * res < 2 ^ 31 \<Longrightarrow> scale_axis mx res v = v * res div uint mx"
  unfolding scale_axis_def by (rule sint_div_small)

lemma scale_axis_bounds:
  assumes "0 \<le> v" "v \<le> uint mx" "0 \<le> res" "uint mx * res < 2 ^ 31"
  shows "scale_axis mx res v = v * res div uint mx \<and> 0 \<le> scale_axis mx res v \<and> scale_axis mx res v \<le> res"
proof -
  have le: "v * res \<le> uint mx * res" using assms by (simp add: mult_right_mono)
  then have eq: "scale_axis mx res v = v * res div uint mx"
    using assms by (intro scale_axis_div) auto
  have "v * res div uint mx \<le> res"
  proof (cases "uint mx = 0")
    case False
    then have "0 < uint mx" using uint_ge_0 [of mx] by linarith
    then show ?thesis using zdiv_mono1 [OF le \<open>0 < uint mx\<close>] by simp
  qed (simp add: assms(3))
  then show ?thesis using eq assms uint_ge_0 [of mx] by (simp add: div_int_pos_iff)
qed

lemma invert_y_in_range:
  assumes "0 \<le> y" "y \<le> uint my" "uint my < 2 ^ 31"
  shows "invert_y my y = uint my - y"
proof -
  have "uint (word_of_int y :: u32) = y" using assms uint_bounded [of my]
    by (simp add: uint_word_of_int_eq take_bit_int_eq_self)
  then have "uint (my - word_of_int y) = uint my - y"
    using assms by (simp add: uint_sub_if')
  then show ?thesis using assms by (simp add: invert_y_def sint_uint signed_take_bit_int_eq_self)
qed

lemma sint_u32_high:
  assumes "2 ^ 31 \<le> uint (w :: u32)"
  shows "sint w = uint w - 2 ^ 32"
proof -
  have b: "uint w < 2 ^ 32" using uint_bounded [of w] by simp
  have "uint w div 2 ^ 31 = 1"
    by (rule int_div_pos_eq [where r = "uint w - 2 ^ 31"]) (use assms b in simp_all)
  then have "bit (uint w) 31" by (simp add: bit_iff_odd)
  moreover have "take_bit 32 (uint w) = uint w" using b uint_ge_0 [of w] by (simp add: take_bit_int_eq_self)
  ultimately show ?thesis by (simp add: sint_uint signed_take_bit_eq_take_bit_minus)
qed

lemma invert_y_beyond:
  assumes "uint my < y" "y < 4096"
  shows "invert_y my y = uint my - y"
proof -
  have y0: "0 \<le> y" using assms(1) uint_ge_0 [of my] by linarith
  have "uint (word_of_int y :: u32) = y" using y0 assms(2)
    by (simp add: uint_word_of_int_eq take_bit_int_eq_self)
  then have u: "uint (my - word_of_int y) = uint my - y + 2 ^ 32"
    using assms(1) by (simp add: uint_sub_if')
  have "2 ^ 31 \<le> uint my - y + 2 ^ 32" using assms uint_ge_0 [of my] by (simp; linarith)
  then show ?thesis using u sint_u32_high [of "my - word_of_int y"] by (simp add: invert_y_def)
qed

lemma scale_axis_negative:
  assumes "0 < d" "d * res < 2 ^ 31" "0 < res" "2 \<le> uint mx"
  shows "scale_axis mx res (- d) = (2 ^ 32 - d * res) div uint mx"
proof -
  have "(- d * res) mod 2 ^ 32 = 2 ^ 32 - d * res"
    by (rule int_mod_pos_eq [where q = "-1"]) (use assms in \<open>simp_all add: mult_pos_pos\<close>)
  then have "uint (word_of_int (- d * res) :: u32) = 2 ^ 32 - d * res"
    unfolding uint_word_of_int_eq by (simp add: take_bit_eq_mod)
  then have q: "uint ((word_of_int (- d * res) :: u32) div mx) = (2 ^ 32 - d * res) div uint mx"
    by (simp add: uint_div)
  have "(2 ^ 32 - d * res) div uint mx \<le> (2 ^ 32 - d * res) div 2"
    using assms by (intro zdiv_mono2) simp_all
  moreover have "(2 ^ 32 - d * res) div 2 \<le> (2 ^ 32 - 1) div (2 :: int)"
    using mult_pos_pos [OF assms(1) assms(3)] by (intro zdiv_mono1) simp_all
  moreover have "0 \<le> (2 ^ 32 - d * res) div uint mx" using assms by (simp add: div_int_pos_iff)
  ultimately show ?thesis using q
    by (simp add: scale_axis_def sint_uint signed_take_bit_int_eq_self)
qed

lemma touch_y_bound: "touch_y b1 b2 < 4096"
proof -
  have "uint b1 \<le> 255" "uint b2 div 16 \<le> 15" using uint_bounded [of b1] uint_bounded [of b2] by simp_all
  then show ?thesis by (simp add: touch_y_eq)
qed

text \<open>
  C25: a raw y beyond \<open>max_y\<close> is not clamped: \<open>max_y - y\<close> wraps in unsigned
  arithmetic, the product with the resolution is negative, and the division by
  the unsigned \<open>max_y\<close> turns it into \<open>(2^32 - (y - max_y) * resy) div max_y\<close>,
  which is beyond the output resolution for every such y.
\<close>

theorem f11_y_beyond_max:
  assumes "rmi_f11_process_touch dev sc slot 1 fr pos = Some sc'" "slot < length (sc_y sc)"
    and "uint (max_y dev) < touch_y (fr ! (pos + 1)) (fr ! (pos + 2))" "2 \<le> uint (max_y dev)"
    and "0 < resy sc" "4096 * resy sc < 2 ^ 31"
  shows "sc_y sc' ! slot =
           (2 ^ 32 - (touch_y (fr ! (pos + 1)) (fr ! (pos + 2)) - uint (max_y dev)) * resy sc) div uint (max_y dev) \<and>
         resy sc < sc_y sc' ! slot"
proof -
  let ?ty = "touch_y (fr ! (pos + 1)) (fr ! (pos + 2))" and ?m = "uint (max_y dev)"
  let ?d = "?ty - ?m"
  have tb: "?ty < 4096" by (rule touch_y_bound)
  have d: "0 < ?d" "?d < 4096" using assms(3) tb uint_ge_0 [of "max_y dev"] by linarith+
  have dres: "?d * resy sc < 2 ^ 31"
    using mult_strict_right_mono [OF d(2) assms(5)] assms(6) by linarith
  have iy: "invert_y (max_y dev) ?ty = - ?d" using invert_y_beyond [OF assms(3) touch_y_bound] by simp
  have "pos + 4 < length fr" and "max_x dev \<noteq> 0" and "max_y dev \<noteq> 0"
    using assms(1) by (auto simp: rmi_f11_process_touch_def frame_byte_def split: if_splits)
  then have "sc_y sc' ! slot = scale_axis (max_y dev) (resy sc) (- ?d)"
    using assms(1,2) iy by (auto simp: rmi_f11_process_touch_def Let_def)
  also have "\<dots> = (2 ^ 32 - ?d * resy sc) div ?m"
    using d(1) dres assms(5,4) by (rule scale_axis_negative)
  finally have eq: "sc_y sc' ! slot = (2 ^ 32 - ?d * resy sc) div ?m" .
  have "(2 ^ 31 :: int) div 4096 \<le> (2 ^ 32 - ?d * resy sc) div 4096"
    using dres by (intro zdiv_mono1) simp_all
  also have "\<dots> \<le> (2 ^ 32 - ?d * resy sc) div ?m"
    using dres assms(3,4) tb by (intro zdiv_mono2) simp_all
  finally have "2 ^ 19 \<le> sc_y sc' ! slot" using eq by simp
  moreover have "resy sc < 2 ^ 19" using assms(6) by simp
  ultimately show ?thesis using eq by simp
qed

lemma fold_bind_None:
  assumes "k \<in> set is" "\<And>x. h k x = None"
  shows "fold (\<lambda>i acc. acc \<bind> h i) is a = None"
  using assms(1)
proof (induction "is" arbitrary: a)
  case Nil
  then show ?case by simp
next
  case (Cons i "is")
  have none: "fold (\<lambda>i acc. acc \<bind> h i) js None = None" for js by (induction js) simp_all
  show ?case
  proof (cases "k = i")
    case True
    then have "a \<bind> h i = None" using assms(2) by (cases a) simp_all
    then show ?thesis using none by simp
  next
    case False
    then show ?thesis using Cons by simp
  qed
qed

text \<open>
  C26: with ten fingers (the clamp of \<open>rmi_populate_f11\<close> for sensors reporting
  more than five), any 40-byte frame decoded from offset 2 or later in which
  one of slots 7-9 reports a touch makes the decoder read past the frame.
\<close>

theorem f11_ten_fingers_overread:
  assumes "max_fingers dev = 10" "length fr = 40" "2 \<le> idx" "7 \<le> k" "k < 10"
    and "finger_state_of (fr ! (idx + drop_bit 2 k)) k = 1"
  shows "rmi_f11_input dev sc fr idx = None"
proof -
  let ?h = "\<lambda>i sc. frame_byte fr (idx + drop_bit 2 i) \<bind>
              (\<lambda>fsb. rmi_f11_process_touch dev sc i (finger_state_of fsb i) fr
                        (idx + f11_offset (max_fingers dev) + 5 * i))"
  have past: "length fr \<le> idx + f11_offset (max_fingers dev) + 5 * k"
    using assms(1-4) by (simp add: f11_offset_def drop_bit_eq_div)
  have "?h k x = None" for x
    using assms(6) past by (auto simp: frame_byte_def rmi_f11_process_touch_def)
  then have "fold (\<lambda>i acc. acc \<bind> ?h i) [0..<max_fingers dev] (Some sc) = None"
    using assms(1,5) by (intro fold_bind_None [where k = k]) simp_all
  then show ?thesis by (simp add: rmi_f11_input_def)
qed

subsection \<open>Buttons\<close>

lemma f30_fold_last:
  assumes "\<forall>i \<in> set is. idx + i div 8 < length fr"
  shows "fold (f30_button dev fr idx) is (Some sc) =
           Some (let B = filter (\<lambda>i. i \<noteq> 0 \<and> bit (button_mask dev) i) is in
                 if B = [] then sc else sc\<lparr>buttondown := f30_pressed dev fr idx (last B)\<rparr>)"
  using assms
proof (induction "is" rule: rev_induct)
  case Nil
  then show ?case by simp
next
  case (snoc i "is")
  then show ?case
    by (auto simp: f30_button_def f30_pressed_def Let_def frame_byte_def)
qed


text \<open>
  C24: when the interrupt bitmap names F30 and the frame holds its report, the button decoder sets \<open>buttondown\<close> from the last registered button bit other than bit 0 (inverted by its active state) and leaves it unchanged when there is none.
\<close>

theorem rmi_f30_input_last_button:
  assumes "ucast irq AND irq_mask (f30 dev) \<noteq> 0" "int (report_size (f30 dev)) \<le> len"
    and "\<forall>i < gpio_led_count dev. idx + i div 8 < length fr"
  shows "rmi_f30_input dev sc irq fr idx len =
           Some (let B = filter (\<lambda>i. i \<noteq> 0 \<and> bit (button_mask dev) i) [0..<gpio_led_count dev] in
                 if B = [] then sc else sc\<lparr>buttondown := f30_pressed dev fr idx (last B)\<rparr>,
                 report_size (f30 dev))"
  using assms f30_fold_last [of "[0..<gpio_led_count dev]" idx fr dev sc]
  by (simp add: rmi_f30_input_def Let_def)

subsection \<open>Frames that are not decoded\<close>

text \<open>
  C23: an interrupt transfer whose frame does not start with the attention id (in particular 0x00, no new data) leaves the device context, and with it the gesture state and the emitted reports, unchanged.
\<close>

theorem interrupt_frame_ignored:
  "length i2c = 42 \<Longrightarrow> i2c ! 2 \<noteq> RMI_ATTN_REPORT_ID \<Longrightarrow> device_step dev (Interrupt i2c) = Some dev"
  by (simp add: OnInterruptIsr_def Let_def)

subsection \<open>Decoded positions\<close>

text \<open>
  C16: a touch record whose raw coordinates lie within the sensor range is decoded to a position within the output resolution, for resolutions whose products with the sensor range fit in 31 bits.
\<close>

theorem process_touch_in_range:
  assumes "rmi_f11_process_touch dev sc slot 1 fr pos = Some sc'" "slot < length (sc_x sc)" "slot < length (sc_y sc)"
    and "touch_x (fr ! pos) (fr ! (pos + 2)) \<le> uint (max_x dev)"
    and "touch_y (fr ! (pos + 1)) (fr ! (pos + 2)) \<le> uint (max_y dev)"
    and "0 \<le> resx sc" "0 < resy sc" "uint (max_x dev) * resx sc < 2 ^ 31" "uint (max_y dev) * resy sc < 2 ^ 31"
  shows "0 \<le> sc_x sc' ! slot \<and> sc_x sc' ! slot \<le> resx sc \<and> 0 \<le> sc_y sc' ! slot \<and> sc_y sc' ! slot \<le> resy sc"
proof -
  have tx: "0 \<le> touch_x (fr ! pos) (fr ! (pos + 2))" by (simp add: touch_x_eq)
  have ty: "0 \<le> touch_y (fr ! (pos + 1)) (fr ! (pos + 2))"
    by (simp add: touch_y_eq pos_imp_zdiv_nonneg_iff)
  have "uint (max_y dev) \<le> uint (max_y dev) * resy sc"
    using assms(7) uint_ge_0 [of "max_y dev"] by (simp add: mult_le_cancel_left1)
  then have my: "uint (max_y dev) < 2 ^ 31" using assms(9) by linarith
  have iy: "invert_y (max_y dev) (touch_y (fr ! (pos + 1)) (fr ! (pos + 2))) =
            uint (max_y dev) - touch_y (fr ! (pos + 1)) (fr ! (pos + 2))"
    using ty assms(5) my by (rule invert_y_in_range)
  have "pos + 4 < length fr" and "max_x dev \<noteq> 0" and "max_y dev \<noteq> 0"
    using assms(1) by (auto simp: rmi_f11_process_touch_def frame_byte_def split: if_splits)
  then have sc': "sc' = sc\<lparr>sc_x := (sc_x sc)[slot := scale_axis (max_x dev) (resx sc) (touch_x (fr ! pos) (fr ! (pos + 2)))],
      sc_y := (sc_y sc)[slot := scale_axis (max_y dev) (resy sc) (uint (max_y dev) - touch_y (fr ! (pos + 1)) (fr ! (pos + 2)))],
      sc_p := (sc_p sc)[slot := uint (fr ! (pos + 4))]\<rparr>"
    using assms(1) iy by (simp add: rmi_f11_process_touch_def Let_def)
  have ty': "0 \<le> uint (max_y dev) - touch_y (fr ! (pos + 1)) (fr ! (pos + 2))"
    "uint (max_y dev) - touch_y (fr ! (pos + 1)) (fr ! (pos + 2)) \<le> uint (max_y dev)"
    using ty assms(5) by simp_all
  have "sc_x sc' ! slot = scale_axis (max_x dev) (resx sc) (touch_x (fr ! pos) (fr ! (pos + 2)))"
       "sc_y sc' ! slot = scale_axis (max_y dev) (resy sc) (uint (max_y dev) - touch_y (fr ! (pos + 1)) (fr ! (pos + 2)))"
    using assms(2,3) by (simp_all add: sc')
  moreover note scale_axis_bounds [OF tx assms(4,6,8)]
  moreover note scale_axis_bounds [OF ty' _ assms(9)] assms(7)
  ultimately show ?thesis by simp
qed


subsection \<open>Witnesses\<close>

lemma dev_example_inv: "dev_inv dev_example"
  using init_gesture_inv [of 1000 1000]
  by (simp add: dev_inv_def dev_example_def dev_2000_def init_device_def)

theorem device_run_Some_witness:
  "\<exists>dev'. device_run dev_example [Interrupt ([0, 0] @ frame_example), Timer, Timer] = Some dev' \<and> dev_inv dev'"
  using device_run_Some [of dev_example "[Interrupt ([0, 0] @ frame_example), Timer, Timer]"] dev_example_inv
  by (simp add: frame_example_def)

theorem touch_roundtrip_witness: "touch_x 6 164 = 100 \<and> touch_y 125 164 = 2010"
  using touch_roundtrip [of 100 2010 6 125 164] by (simp add: touch_bytes_def)

theorem rmi_f30_input_last_button_witness:
  "rmi_f30_input dev_example (init_softc 1000 1000) 0x0A (replicate 40 0) 29 11 =
     Some ((init_softc 1000 1000)\<lparr>buttondown := True\<rparr>, 1)"
  using rmi_f30_input_last_button [where irq = "0x0A" and dev = dev_example and len = 11 and idx = 29
      and fr = "replicate 40 0" and sc = "init_softc 1000 1000"]
  by (simp add: dev_example_def dev_2000_def init_device_def f30_pressed_def upt_rec)

theorem interrupt_frame_ignored_witness: "device_step dev_example (Interrupt (replicate 42 0)) = Some dev_example"
  using interrupt_frame_ignored [of "replicate 42 0" dev_example] by simp

theorem process_touch_in_range_witness:
  "case rmi_f11_process_touch dev_2000 (init_softc 1000 1000) 0 1 (drop 4 frame_example) 0 of
     None \<Rightarrow> False
   | Some sc' \<Rightarrow> 0 \<le> sc_x sc' ! 0 \<and> sc_x sc' ! 0 \<le> 1000 \<and> 0 \<le> sc_y sc' ! 0 \<and> sc_y sc' ! 0 \<le> 1000"
proof (cases "rmi_f11_process_touch dev_2000 (init_softc 1000 1000) 0 1 (drop 4 frame_example) 0")
  case None
  moreover have "rmi_f11_process_touch dev_2000 (init_softc 1000 1000) 0 1 (drop 4 frame_example) 0 \<noteq> None"
    by code_simp
  ultimately show ?thesis by simp
next
  case (Some sc')
  have "resx (init_softc 1000 1000) = 1000" "resy (init_softc 1000 1000) = 1000"
       "length (sc_x (init_softc 1000 1000)) = 5" "length (sc_y (init_softc 1000 1000)) = 5"
    by (simp_all add: init_softc_def SetDefaultSettings_def)
  then show ?thesis
    unfolding Some using process_touch_in_range [OF Some]
    by (simp add: touch_x_eq touch_y_eq frame_example_def dev_2000_def init_device_def)
qed

theorem f11_y_beyond_max_witness:
  "map_option (\<lambda>sc. sc_y sc ! 0) (rmi_f11_process_touch dev_2000 (init_softc 1000 1000) 0 1 [6, 125, 164, 0, 9] 0) =
     Some ((2 ^ 32 - (2010 - 2000) * 1000) div 2000) \<and> (1000 :: int) < (2 ^ 32 - (2010 - 2000) * 1000) div 2000"
proof -
  have "rmi_f11_process_touch dev_2000 (init_softc 1000 1000) 0 1 [6, 125, 164, 0, 9] 0 \<noteq> None" by code_simp
  then obtain sc' where p: "rmi_f11_process_touch dev_2000 (init_softc 1000 1000) 0 1 [6, 125, 164, 0, 9] 0 = Some sc'" by blast
  have ty: "touch_y ([6, 125, 164, 0, 9] ! (0 + 1)) ([6, 125, 164, 0, 9] ! (0 + 2)) = 2010" by (simp add: touch_y_eq)
  have my: "uint (max_y dev_2000) = 2000" by (simp add: dev_2000_def init_device_def)
  have "resy (init_softc 1000 1000) = 1000" by (simp add: init_softc_def SetDefaultSettings_def)
  then show ?thesis using f11_y_beyond_max [OF p] p ty my by (simp add: init_softc_def SetDefaultSettings_def)
qed

theorem f11_ten_fingers_overread_witness:
  "rmi_f11_input (dev_2000\<lparr>max_fingers := 10\<rparr>) (init_softc 1000 1000) ([1, 0, 0, 0, 0x04] @ replicate 35 0) 2 = None"
  by (rule f11_ten_fingers_overread [where k = 9]) (simp_all add: finger_state_of_def)

end
