(* ===== verification/Rmi_Init.thy ===== *)
theory Rmi_Init
  imports Rmi_Run Decoder_Run
begin

text \<open>
  Initialisation composed with decoding: what \<open>rmi_populate\<close> (rmi.cpp
  615-648) leaves in the device context on any transport, and that a
  context populated from a touchpad with at most five fingers and a
  non-zero resolution satisfies the decoder invariant \<open>dev_inv\<close>, so that
  every sequence of interrupts and timer ticks runs.  The proofs go through
  frame lemmas: each block read or write changes only the cached page, and
  each population step changes only the fields it is named for
  (\<open>keeps_decoder\<close>, \<open>keeps_f11\<close>, \<open>keeps_f30\<close>).
\<close>

unbundle bit_operations_syntax

subsection \<open>Frames\<close>

definition keeps_decoder :: "device \<Rightarrow> device \<Rightarrow> bool" where
  "keeps_decoder d d' \<longleftrightarrow> gesture d' = gesture d \<and> lastreport d' = lastreport d \<and> ConnectInterrupt d' = ConnectInterrupt d"

definition keeps_f30 :: "device \<Rightarrow> device \<Rightarrow> bool" where
  "keeps_f30 d d' \<longleftrightarrow> gpio_led_count d' = gpio_led_count d \<and> f30 d' = f30 d \<and>
     button_mask d' = button_mask d \<and> button_state_mask d' = button_state_mask d"

definition keeps_f11 :: "device \<Rightarrow> device \<Rightarrow> bool" where
  "keeps_f11 d d' \<longleftrightarrow> max_fingers d' = max_fingers d \<and> max_x d' = max_x d \<and> max_y d' = max_y d \<and> f11 d' = f11 d"


lemma select_page_frame:
  "select_page B addr dev t = (r, dev', t') \<Longrightarrow> r = 0 \<and> dev' = dev\<lparr>page := unat (RMI_PAGE addr)\<rparr>"
  by (auto simp: select_page_def rmi_set_page_def rmi_write_report_def Let_def split: if_splits)

lemma rmi_read_block_frame:
  "rmi_read_block B addr buf len dev t = Some (r, b, dev', t') \<Longrightarrow> r = 0 \<and> dev' = dev\<lparr>page := unat (RMI_PAGE addr)\<rparr>"
  unfolding rmi_read_block_def
  by (auto simp: Let_def dest!: select_page_frame split: prod.splits bind_split_asm if_splits)

lemma rmi_write_block_frame:
  "rmi_write_block B addr buf len dev t = Some (r, dev', t') \<Longrightarrow> r = 0 \<and> dev' = dev\<lparr>page := unat (RMI_PAGE addr)\<rparr>"
  unfolding rmi_write_block_def
  by (auto simp: Let_def rmi_write_report_def dest!: select_page_frame split: prod.splits bind_split_asm if_splits)

lemma rmi_read_frame:
  "rmi_read B addr buf dev t = Some (r, b, dev', t') \<Longrightarrow> r = 0 \<and> dev' = dev\<lparr>page := unat (RMI_PAGE addr)\<rparr>"
  unfolding rmi_read_def by (rule rmi_read_block_frame)

lemma rmi_write_frame:
  "rmi_write B addr buf dev t = Some (r, dev', t') \<Longrightarrow> r = 0 \<and> dev' = dev\<lparr>page := unat (RMI_PAGE addr)\<rparr>"
  unfolding rmi_write_def by (rule rmi_write_block_frame)

lemmas rmi_io_frames = rmi_read_block_frame rmi_write_block_frame rmi_read_frame rmi_write_frame

lemma if_eq_Some: "((if c then a else b) = Some y) = ((c \<and> a = Some y) \<or> (\<not> c \<and> b = Some y))"
  by simp

lemma f01_ds4_frame:
  "f01_ds4 B qo q42 info dev t = Some (r, info', p, b, dev', t') \<Longrightarrow>
   r = 0 \<and> keeps_decoder dev dev' \<and> keeps_f11 dev dev' \<and> keeps_f30 dev dev'"
  unfolding f01_ds4_def
  by (auto simp: Let_def if_eq_Some bind_eq_Some_conv keeps_decoder_def keeps_f11_def keeps_f30_def
           split: prod.split_asm dest!: rmi_io_frames)

lemma rmi_populate_f01_frame:
  "rmi_populate_f01 B dev t = Some (r, dev', t') \<Longrightarrow>
   r = 0 \<and> keeps_decoder dev dev' \<and> keeps_f11 dev dev' \<and> keeps_f30 dev dev'"
  unfolding rmi_populate_f01_def
  by (auto simp: Let_def if_eq_Some bind_eq_Some_conv keeps_decoder_def keeps_f11_def keeps_f30_def
           split: prod.split_asm dest!: rmi_io_frames f01_ds4_frame)


lemmas keeps_defs = keeps_decoder_def keeps_f11_def keeps_f30_def

lemma f11_block_frames:
  "f11_gestures B qb g qo buf dev t = Some (r, buf', p, q10, qo', dev', t') \<Longrightarrow>
   r = 0 \<and> keeps_decoder dev dev' \<and> keeps_f11 dev dev' \<and> keeps_f30 dev dev'"
  "f11_query12 B qb q12 qo buf dev t = Some (r, buf', qo', dev', t') \<Longrightarrow>
   r = 0 \<and> keeps_decoder dev dev' \<and> keeps_f11 dev dev' \<and> keeps_f30 dev dev'"
  "f11_query28 B qb q28 qo buf dev t = Some (r, buf', q36, dev', t') \<Longrightarrow>
   r = 0 \<and> keeps_decoder dev dev' \<and> keeps_f11 dev dev' \<and> keeps_f30 dev dev'"
  "f11_query36 B qb q36 qo buf dev t = Some (r, buf', d40, dev', t') \<Longrightarrow>
   r = 0 \<and> keeps_decoder dev dev' \<and> keeps_f11 dev dev' \<and> keeps_f30 dev dev'"
  "f11_dribble B dr dev t = Some (r, dev', t') \<Longrightarrow>
   r = 0 \<and> keeps_decoder dev dev' \<and> keeps_f11 dev dev' \<and> keeps_f30 dev dev'"
  "f11_palm B pd dev t = Some (r, dev', t') \<Longrightarrow>
   r = 0 \<and> keeps_decoder dev dev' \<and> keeps_f11 dev dev' \<and> keeps_f30 dev dev'"
  unfolding f11_gestures_def f11_query12_def f11_query28_def f11_query36_def f11_dribble_def f11_palm_def
  by (auto simp: Let_def if_eq_Some bind_eq_Some_conv keeps_defs split: prod.split_asm dest!: rmi_io_frames)

lemma f11_query_chain_frame:
  "f11_query_chain B qb q0 q1 buf dev t = Some (r, buf', p, d40, dev', t') \<Longrightarrow>
   r = 0 \<and> keeps_decoder dev dev' \<and> keeps_f11 dev dev' \<and> keeps_f30 dev dev'"
  unfolding f11_query_chain_def
  by (auto simp: Let_def if_eq_Some bind_eq_Some_conv keeps_defs split: prod.split_asm dest!: f11_block_frames)

lemma f11_ctrl_frame:
  "f11_ctrl B dr pd dev t = Some (r, dev', t') \<Longrightarrow>
   r = 0 \<and> keeps_decoder dev dev' \<and> keeps_f30 dev dev' \<and> max_fingers dev' = max_fingers dev \<and> f11 dev' = f11 dev"
  unfolding f11_ctrl_def
  by (auto simp: Let_def if_eq_Some bind_eq_Some_conv keeps_defs split: prod.split_asm
           dest!: rmi_io_frames f11_block_frames)

lemma f11_fingers_range: "f11_fingers q \<in> {1, 2, 3, 4, 5, 10}"
proof -
  have "q AND 0x07 \<le> 7" by (rule word_and_le1)
  then have "unat (q AND 0x07) \<le> 7" by (simp add: word_le_nat_alt)
  then show ?thesis by (auto simp: f11_fingers_def Let_def)
qed


lemma rmi_populate_f11_frame:
  "rmi_populate_f11 B dev t = Some (0, dev', t') \<Longrightarrow>
   keeps_decoder dev dev' \<and> keeps_f30 dev dev' \<and>
   (\<exists>q. max_fingers dev' = f11_fingers q \<and>
        (report_size (f11 dev') = f11_report_size (f11_fingers q) \<or>
         report_size (f11 dev') = f11_report_size (f11_fingers q) + f11_fingers q * 2))"
  unfolding rmi_populate_f11_def
  by (auto simp: Let_def if_eq_Some bind_eq_Some_conv keeps_defs ENODEV_def
           split: prod.split_asm dest!: rmi_io_frames f11_query_chain_frame f11_ctrl_frame)

lemma f30_buttons_Suc:
  "f30_buttons (Suc n) bpc buf dev =
     do {
       dev \<leftarrow> f30_buttons n bpc buf dev;
       dir_byte \<leftarrow> cbyte buf (drop_bit 3 n);
       data_byte \<leftarrow> cbyte buf (drop_bit 3 n + bpc);
       if \<not> bit dir_byte (n AND 7) \<and> bit data_byte (n AND 7)
       then Some (dev\<lparr>button_count := button_count dev + 1, button_mask := button_mask dev OR push_bit n 1,
                       button_state_mask := button_state_mask dev OR push_bit n 1\<rparr>)
       else Some dev
     }"
  by (simp add: f30_buttons_def Let_def)


lemma f30_buttons_frame:
  "f30_buttons n bpc buf dev = Some dev' \<Longrightarrow>
   keeps_decoder dev dev' \<and> keeps_f11 dev dev' \<and> gpio_led_count dev' = gpio_led_count dev \<and> f30 dev' = f30 dev \<and>
   (\<forall>i. bit (button_mask dev') i \<longrightarrow> bit (button_mask dev) i \<or> i < n)"
proof (induction n arbitrary: dev')
  case 0 then show ?case by (simp add: f30_buttons_def keeps_defs)
next
  case (Suc n)
  obtain d1 where d1: "f30_buttons n bpc buf dev = Some d1"
    and dev': "dev' = d1 \<or> dev' = d1\<lparr>button_count := button_count d1 + 1, button_mask := button_mask d1 OR push_bit n 1,
                                  button_state_mask := button_state_mask d1 OR push_bit n 1\<rparr>"
    using Suc.prems by (auto simp: f30_buttons_Suc bind_eq_Some_conv if_eq_Some)
  have bits: "bit (button_mask dev') i \<Longrightarrow> bit (button_mask d1) i \<or> i = n" for i
    using dev' by (auto simp: bit_or_iff bit_exp_iff)
  have "\<forall>i. bit (button_mask dev') i \<longrightarrow> bit (button_mask dev) i \<or> i < Suc n"
    using bits Suc.IH [OF d1] less_Suc_eq by blast
  moreover have "keeps_decoder dev dev' \<and> keeps_f11 dev dev' \<and> gpio_led_count dev' = gpio_led_count dev \<and> f30 dev' = f30 dev"
    using Suc.IH [OF d1] dev' by (auto simp: keeps_defs)
  ultimately show ?case by blast
qed

lemma gpio_count_bound: "unat (b AND (0x1f :: u8)) < 32"
proof -
  have "b AND 0x1f \<le> 0x1f" by (rule word_and_le1)
  then show ?thesis by (simp add: word_le_nat_alt)
qed

lemma rmi_populate_f30_frame:
  "rmi_populate_f30 B dev t = Some (0, dev', t') \<Longrightarrow>
   keeps_decoder dev dev' \<and> keeps_f11 dev dev' \<and> gpio_led_count dev' < 32 \<and>
   report_size (f30 dev') = (gpio_led_count dev' + 7) div 8 \<and>
   (\<forall>i. bit (button_mask dev') i \<longrightarrow> bit (button_mask dev) i \<or> i < gpio_led_count dev')"
  unfolding rmi_populate_f30_def
  by (auto simp: Let_def if_eq_Some bind_eq_Some_conv keeps_defs ENODEV_def gpio_count_bound
           split: prod.split_asm dest!: rmi_io_frames f30_buttons_frame)

lemma rmi_register_function_frame:
  "rmi_register_function dev e pg b = Some dev' \<Longrightarrow> keeps_decoder dev dev' \<and> button_mask dev' = button_mask dev"
  unfolding rmi_register_function_def
  by (auto simp: keeps_defs if_eq_Some bind_eq_Some_conv)

lemma scan_page_frame:
  "scan_page B pg as entry intr has dev t = Some (r, entry', intr', has', dev', t') \<Longrightarrow>
   r = 0 \<and> keeps_decoder dev dev' \<and> button_mask dev' = button_mask dev"
proof (induction as arbitrary: entry intr has dev t)
  case Nil then show ?case by (simp add: keeps_defs)
next
  case (Cons a as)
  then show ?case
    by (auto simp: Let_def if_eq_Some bind_eq_Some_conv keeps_defs split: prod.split_asm
             dest!: rmi_read_block_frame rmi_register_function_frame Cons.IH)
qed

lemma scan_pages_frame:
  "scan_pages B pgs entry intr dev t = Some (r, dev', t') \<Longrightarrow>
   r = 0 \<and> keeps_decoder dev dev' \<and> button_mask dev' = button_mask dev"
proof (induction pgs arbitrary: entry intr dev t)
  case Nil then show ?case by (simp add: keeps_defs)
next
  case (Cons pg pgs)
  then show ?case
    by (auto simp: if_eq_Some bind_eq_Some_conv keeps_defs split: prod.split_asm
             dest!: scan_page_frame Cons.IH)
qed

lemma rmi_populate_f11_spec:
  assumes "rmi_populate_f11 B dev t = Some (0, dev', t')"
  shows "keeps_decoder dev dev' \<and> keeps_f30 dev dev' \<and> max_fingers dev' \<in> {1, 2, 3, 4, 5, 10} \<and>
         report_size (f11 dev') \<in> {f11_report_size (max_fingers dev'), f11_report_size (max_fingers dev') + max_fingers dev' * 2}"
proof -
  obtain q where "keeps_decoder dev dev'" "keeps_f30 dev dev'" "max_fingers dev' = f11_fingers q"
    "report_size (f11 dev') = f11_report_size (f11_fingers q) \<or>
     report_size (f11 dev') = f11_report_size (f11_fingers q) + f11_fingers q * 2"
    using rmi_populate_f11_frame [OF assms] by blast
  then show ?thesis using f11_fingers_range [of q] by auto
qed

lemma populate_frames:
  "rmi_populate B dev t = Some (0, dev', t') \<Longrightarrow>
   keeps_decoder dev dev' \<and> max_fingers dev' \<in> {1, 2, 3, 4, 5, 10} \<and>
   report_size (f11 dev') \<in> {f11_report_size (max_fingers dev'), f11_report_size (max_fingers dev') + max_fingers dev' * 2} \<and>
   gpio_led_count dev' < 32 \<and> report_size (f30 dev') = (gpio_led_count dev' + 7) div 8 \<and>
   (\<forall>i. bit (button_mask dev') i \<longrightarrow> bit (button_mask dev) i \<or> i < gpio_led_count dev')"
  unfolding rmi_populate_def rmi_scan_pdt_def rmi_set_mode_def
  by (auto simp: if_eq_Some bind_eq_Some_conv keeps_defs split: prod.split_asm
           dest!: scan_pages_frame rmi_populate_f01_frame rmi_populate_f11_spec rmi_populate_f30_frame)


lemma init_device_sel [simp]:
  "gesture (init_device rx ry) = init_softc rx ry" "device.lastreport (init_device rx ry) = replicate 40 0"
  by (simp_all add: init_device_def)

lemma populate_dev_inv:
  assumes "rmi_populate B (init_device rx ry) t = Some (0, dev, t')"
          "max_fingers dev \<le> 5" "max_x dev \<noteq> 0" "max_y dev \<noteq> 0"
  shows "dev_inv (dev\<lparr>ConnectInterrupt := True\<rparr>)"
  using populate_frames [OF assms(1)] assms(2-4) init_gesture_inv
  by (auto simp: dev_inv_def keeps_defs)


text \<open>The example touchpad of \<open>Rmi_Run\<close> populated, evaluated once.\<close>

lemma tp_example_populate:
  "map_option (\<lambda>(r, d, _). (r, max_fingers d, max_x d, max_y d, report_size (f11 d), gpio_led_count d,
                            report_size (f30 d), button_mask d))
     (rmi_populate tp_bus (init_device 1000 1000) tp_example) = Some (0, 5, 4000, 2000, 27, 2, 1, 2)"
  by code_simp

subsection \<open>Properties of initialisation\<close>

text \<open>
  C7: On any transport, a population that returns status 0 leaves the
  gesture state, the latched frame and the interrupt connection as they
  were, sets a finger count of 1-5 or 10 with the F11 report size
  \<open>5 n + \<lceil>n/4\<rceil>\<close> (plus \<open>2 n\<close> with data 40), at most 31 GPIOs with an F30
  report of \<open>\<lceil>count/8\<rceil>\<close> bytes, and registers buttons only below the GPIO count.
\<close>

theorem rmi_populate_bounds:
  assumes "rmi_populate B dev t = Some (0, dev', t')"
  shows "gesture dev' = gesture dev \<and> lastreport dev' = lastreport dev \<and> ConnectInterrupt dev' = ConnectInterrupt dev \<and>
         max_fingers dev' \<in> {1, 2, 3, 4, 5, 10} \<and>
         report_size (f11 dev') \<in> {f11_report_size (max_fingers dev'), f11_report_size (max_fingers dev') + max_fingers dev' * 2} \<and>
         gpio_led_count dev' < 32 \<and> report_size (f30 dev') = (gpio_led_count dev' + 7) div 8 \<and>
         (\<forall>i. bit (button_mask dev') i \<longrightarrow> bit (button_mask dev) i \<or> i < gpio_led_count dev')"
  using populate_frames [OF assms] by (simp add: keeps_decoder_def)

text \<open>
  C4: Initialisation then operation: a context populated from the zeroed
  device context with at most five fingers and a non-zero resolution, once
  its interrupt is connected, runs every sequence of well-formed interrupt
  transfers and timer ticks to the end and keeps \<open>dev_inv\<close>.
\<close>

theorem rmi_populate_then_run:
  assumes "rmi_populate B (init_device rx ry) t = Some (0, dev, t')"
          "max_fingers dev \<le> 5" "max_x dev \<noteq> 0" "max_y dev \<noteq> 0" "list_all event_ok es"
  shows "\<exists>dev'. device_run (dev\<lparr>ConnectInterrupt := True\<rparr>) es = Some dev' \<and> dev_inv dev'"
proof -
  have "dev_inv d \<Longrightarrow> \<exists>dev'. device_run d es = Some dev' \<and> dev_inv dev'" for d
    using assms(5)
  proof (induction es arbitrary: d)
    case Nil then show ?case by simp
  next
    case (Cons e es)
    then obtain d1 where "device_step d e = Some d1" "dev_inv d1"
      using device_step_Some by fastforce
    then show ?case using Cons by simp
  qed
  then show ?thesis using populate_dev_inv [OF assms(1-4)] .
qed


text \<open>
  C22: The F11 touch records start at \<open>(max_fingers >> 2) + 1\<close> in the
  decoder but the report holds \<open>\<lceil>max_fingers/4\<rceil>\<close> finger-state bytes: for every
  finger count population can set, the last record ends exactly at the end
  of the F11 report, except for 4 fingers, where it ends one byte past it.
\<close>

theorem f11_offset_report_size:
  "mf \<in> {1, 2, 3, 4, 5, 10} \<Longrightarrow> f11_offset mf + 5 * mf = f11_report_size mf + (if mf = 4 then 1 else 0)"
  by (auto simp: f11_offset_def f11_report_size_def drop_bit_eq_div)

subsection \<open>Witnesses\<close>

theorem rmi_populate_bounds_witness:
  "\<exists>dev' t'. rmi_populate tp_bus (init_device 1000 1000) tp_example = Some (0, dev', t') \<and>
     max_fingers dev' \<in> {1, 2, 3, 4, 5, 10} \<and> gpio_led_count dev' < 32"
proof -
  obtain dev' t' where p: "rmi_populate tp_bus (init_device 1000 1000) tp_example = Some (0, dev', t')"
    using tp_example_populate by (auto split: option.splits)
  then show ?thesis using rmi_populate_bounds [OF p] by blast
qed

theorem rmi_populate_then_run_witness:
  "\<exists>dev t'. rmi_populate tp_bus (init_device 1000 1000) tp_example = Some (0, dev, t') \<and>
     (\<exists>dev'. device_run (dev\<lparr>ConnectInterrupt := True\<rparr>) [Timer, Timer] = Some dev' \<and> dev_inv dev')"
proof -
  obtain dev t' where p: "rmi_populate tp_bus (init_device 1000 1000) tp_example = Some (0, dev, t')"
    and v: "max_fingers dev = 5" "max_x dev = 4000" "max_y dev = 2000"
    using tp_example_populate by (auto split: option.splits)
  then show ?thesis using rmi_populate_then_run [OF p, of "[Timer, Timer]"] by auto
qed

theorem f11_offset_report_size_witness:
  "(4::nat) \<in> {1, 2, 3, 4, 5, 10} \<and> f11_offset 4 + 5 * 4 = f11_report_size 4 + 1"
  using f11_offset_report_size [of 4] by simp

end
