(* ===== verification/Hid.thy ===== *)
theory Hid
  imports Decoder_Run "HOL-Library.Sublist"
begin

text \<open>
  The HID minidriver requests of hiddevice.cpp: the read requests parked in
  the manual \<open>ReportQueue\<close> (\<open>SynaReadReport\<close>), the output reports a
  client writes (\<open>SynaWriteReport\<close>: scroll control and settings), the
  feature report (\<open>SynaGetFeature\<close>), the device attributes and the string
  descriptors.  A request's transfer packet is a record of its report id
  and its buffer; a read of the buffer past its end is \<open>None\<close>.  The status
  codes are a datatype of the NTSTATUS values the code returns.
\<close>

unbundle bit_operations_syntax

subsection \<open>Status codes and transfer packets\<close>

datatype ntstatus =
    STATUS_SUCCESS | STATUS_BUFFER_TOO_SMALL | STATUS_INVALID_DEVICE_REQUEST
  | STATUS_INVALID_PARAMETER | STATUS_INVALID_DEVICE_STATE | STATUS_FAILED

record xfer_packet =
  reportId :: u8
  reportBuffer :: "u8 list"

definition REPORTID_FEATURE :: u8 where "REPORTID_FEATURE = 0x02"
definition REPORTID_SCROLLCTRL :: u8 where "REPORTID_SCROLLCTRL = 0x08"
definition DEVICE_MODE_MOUSE :: u8 where "DEVICE_MODE_MOUSE = 0x00"
definition SYNA_PID :: u16 where "SYNA_PID = 0x0004"
definition SYNA_VID :: u16 where "SYNA_VID = 0x06CB"
definition SYNA_VERSION :: u16 where "SYNA_VERSION = 0x0003"

text \<open>
  \<open>sizeof(HID_XFER_PACKET)\<close> (a pointer, a length and the id, padded: 16
  bytes on x64), \<open>sizeof(HID_DEVICE_ATTRIBUTES)\<close> (32) and the string ids
  of hidport.h; these headers are not in the sources.
\<close>

definition HID_XFER_PACKET_SIZE :: nat where "HID_XFER_PACKET_SIZE = 16"
definition HID_DEVICE_ATTRIBUTES_SIZE :: nat where "HID_DEVICE_ATTRIBUTES_SIZE = 32"
definition HID_STRING_ID_IMANUFACTURER :: nat where "HID_STRING_ID_IMANUFACTURER = 14"
definition HID_STRING_ID_IPRODUCT :: nat where "HID_STRING_ID_IPRODUCT = 15"
definition HID_STRING_ID_ISERIALNUMBER :: nat where "HID_STRING_ID_ISERIALNUMBER = 16"

subsection \<open>Reads and writes of reports (hiddevice.cpp 366-483)\<close>

text \<open>
  \<open>SynaReadReport\<close>: the request is forwarded to the manual queue, where it
  waits for the next report; \<open>fwd\<close> is the status of the forwarding and
  \<open>outlen\<close> the size of the request's output buffer, which the queued
  request carries.  It returns the status, whether the caller completes the
  request, and the state.
\<close>

definition SynaReadReport :: "ntstatus \<Rightarrow> nat \<Rightarrow> device \<Rightarrow> ntstatus \<times> bool \<times> device" where
  "SynaReadReport fwd outlen dev =
    (if fwd \<noteq> STATUS_SUCCESS then (fwd, True, dev)
     else (STATUS_SUCCESS, False, dev\<lparr>gesture := (gesture dev)\<lparr>pending := pending (gesture dev) @ [outlen]\<rparr>\<rparr>))"

text \<open>
  \<open>SynaWriteReport\<close>: a scroll-control report sets or clears the inertia
  flag, a settings report goes to \<open>ProcessSetting\<close>; any other id, a short
  input buffer or a missing packet is an error that changes nothing.
\<close>

definition SynaWriteReport :: "device \<Rightarrow> nat \<Rightarrow> xfer_packet option \<Rightarrow> (ntstatus \<times> device) option" where
  "SynaWriteReport dev inlen pkt =
    (if inlen < HID_XFER_PACKET_SIZE then Some (STATUS_BUFFER_TOO_SMALL, dev)
     else case pkt of
       None \<Rightarrow> Some (STATUS_INVALID_DEVICE_REQUEST, dev)
     | Some p \<Rightarrow>
         if reportId p = REPORTID_SCROLLCTRL then do {
           flag \<leftarrow> frame_byte (reportBuffer p) 1;
           Some (STATUS_SUCCESS, dev\<lparr>gesture := (gesture dev)\<lparr>scrollInertiaActive := (flag = 1)\<rparr>\<rparr>)
         }
         else if reportId p = REPORTID_SETTINGS then do {
           reg \<leftarrow> frame_byte (reportBuffer p) 1;
           val \<leftarrow> frame_byte (reportBuffer p) 2;
           Some (STATUS_SUCCESS, dev\<lparr>gesture := ProcessSetting (gesture dev) (uint reg) (uint val)\<rparr>)
         }
         else Some (STATUS_INVALID_PARAMETER, dev))"

subsection \<open>Feature report, attributes and strings (hiddevice.cpp 158-282, 485-575)\<close>

text \<open>
  \<open>SynaGetFeature\<close>: a three-byte feature report gets the device mode in
  byte 1 and device identifier 0 in byte 2; it returns the status and the
  packet as the caller sees it afterwards.
\<close>

definition SynaGetFeature :: "device \<Rightarrow> nat \<Rightarrow> xfer_packet option \<Rightarrow> ntstatus \<times> xfer_packet option" where
  "SynaGetFeature dev outlen pkt =
    (if outlen < HID_XFER_PACKET_SIZE then (STATUS_BUFFER_TOO_SMALL, pkt)
     else case pkt of
       None \<Rightarrow> (STATUS_INVALID_DEVICE_REQUEST, None)
     | Some p \<Rightarrow>
         if reportId p = REPORTID_FEATURE then
           (if length (reportBuffer p) = 3
            then (STATUS_SUCCESS, Some (p\<lparr>reportBuffer := (reportBuffer p)[1 := DeviceMode dev, 2 := 0]\<rparr>))
            else (STATUS_INVALID_PARAMETER, pkt))
         else (STATUS_INVALID_PARAMETER, pkt))"

definition le16_bytes :: "u16 \<Rightarrow> u8 list" where
  "le16_bytes v = [ucast v, ucast (drop_bit 8 v)]"

text \<open>
  \<open>SynaGetDeviceAttributes\<close>: the size, vendor, product and version fields
  of the attributes block (the reserved words are not written).
\<close>

definition SynaGetDeviceAttributes :: "nat \<Rightarrow> ntstatus \<times> u8 list" where
  "SynaGetDeviceAttributes outlen =
    (if outlen < HID_DEVICE_ATTRIBUTES_SIZE then (STATUS_BUFFER_TOO_SMALL, [])
     else (STATUS_SUCCESS,
           [of_nat HID_DEVICE_ATTRIBUTES_SIZE, 0, 0, 0] @ le16_bytes SYNA_VID @ le16_bytes SYNA_PID @
           le16_bytes SYNA_VERSION))"

text \<open>
  A wide string literal \<open>L"...\0"\<close> in memory: UTF-16LE code units, the
  explicit \<open>\0\<close> and the terminator.
\<close>

definition wliteral :: "string \<Rightarrow> u8 list" where
  "wliteral s = concat (map (\<lambda>c. [of_char c, 0]) s) @ [0, 0, 0, 0]"

definition hid_string :: "nat \<Rightarrow> string option" where
  "hid_string sid =
    (if sid = HID_STRING_ID_IMANUFACTURER then Some ''CoolStar''
     else if sid = HID_STRING_ID_IPRODUCT then Some ''Syna I2C Trackpad''
     else if sid = HID_STRING_ID_ISERIALNUMBER then Some ''123123123''
     else None)"

text \<open>
  \<open>SynaGetString\<close>: the length asked of the output buffer is the string's
  length plus the terminator; \<open>WdfRequestRetrieveOutputBuffer\<close> then
  overwrites that length with the size of the caller's buffer, and that many
  bytes are copied from the literal.  A copy past the end of the literal is
  \<open>None\<close>.
\<close>

definition SynaGetString :: "nat \<Rightarrow> nat \<Rightarrow> (ntstatus \<times> u8 list) option" where
  "SynaGetString sid outlen =
    (case hid_string (sid AND 0xFFFF) of
       None \<Rightarrow> Some (STATUS_INVALID_PARAMETER, [])
     | Some s \<Rightarrow>
         (let lenID = length s * 2 + 2 in
          if outlen < lenID then Some (STATUS_BUFFER_TOO_SMALL, [])
          else (let lenID = outlen in
                if lenID \<le> length (wliteral s) then Some (STATUS_SUCCESS, take lenID (wliteral s))
                else None)))"

subsection \<open>Read requests and reports\<close>

text \<open>
  The requests a client sends and the reports the driver emits, in any
  order: \<open>hid_reach n dev\<close> holds of every device context reachable from the
  initial one after \<open>n\<close> read requests were queued.
\<close>

inductive hid_reach :: "nat \<Rightarrow> device \<Rightarrow> bool" where
  hid_init: "hid_reach 0 (init_device rx ry)"
| hid_read: "hid_reach n dev \<Longrightarrow> SynaReadReport STATUS_SUCCESS outlen dev = (st, c, dev') \<Longrightarrow> hid_reach (Suc n) dev'"
| hid_read_failed: "hid_reach n dev \<Longrightarrow> fwd \<noteq> STATUS_SUCCESS \<Longrightarrow> SynaReadReport fwd outlen dev = (st, c, dev') \<Longrightarrow> hid_reach n dev'"
| hid_write: "hid_reach n dev \<Longrightarrow> SynaWriteReport dev len pkt = Some (st, dev') \<Longrightarrow> hid_reach n dev'"
| hid_report: "hid_reach n dev \<Longrightarrow> hid_reach n (dev\<lparr>gesture := SynaProcessVendorReport r (gesture dev)\<rparr>)"

text \<open>
  The accounting of read requests: each of the \<open>n\<close> requests queued was
  completed with a report, is still queued, or was dequeued with a buffer
  too small for the report and left stranded; the delivered reports are,
  in order, a subsequence of the emitted ones.
\<close>

definition sink_pairs :: "nat \<Rightarrow> 'a sink_scheme \<Rightarrow> bool" where
  "sink_pairs n s \<longleftrightarrow> length (delivered s) + length (pending s) + length (stranded s) = n \<and>
     subseq (delivered s) (emitted s) \<and> list_all (\<lambda>(b, r). b < length (report_bytes r)) (stranded s)"

text \<open>The context after one read request with a 64-byte buffer queued on a fresh device.\<close>

definition dev_hid :: device where
  "dev_hid = snd (snd (SynaReadReport STATUS_SUCCESS 64 (init_device 1000 1000)))"

lemma sink_pairs_report: "sink_pairs n s \<Longrightarrow> sink_pairs n (SynaProcessVendorReport r s)"
  by (cases "pending s") (auto simp: sink_pairs_def fits_def list_emb_append_mono)

lemma sink_pairs_setting: "sink_pairs n sc \<Longrightarrow> sink_pairs n (ProcessSetting sc reg v)"
  unfolding ProcessSetting_def ProcessInfo_def
  by (simp add: sink_pairs_report del: SynaProcessVendorReport_upd) (simp add: sink_pairs_def)

lemma SynaWriteReport_sink:
  "SynaWriteReport dev len pkt = Some (st, dev') \<Longrightarrow> sink_pairs n (gesture dev) \<Longrightarrow> sink_pairs n (gesture dev')"
  by (auto simp: SynaWriteReport_def bind_eq_Some_conv sink_pairs_setting split: option.splits if_splits)
     (simp_all add: sink_pairs_def)

lemma length_wliteral [simp]: "length (wliteral s) = 2 * length s + 4"
proof -
  have "length (concat (map (\<lambda>c. [of_char c, 0 :: u8]) s)) = 2 * length s" by (induction s) auto
  then show ?thesis by (simp add: wliteral_def)
qed

lemma hid_constants [simp]:
  "REPORTID_FEATURE = 2" "REPORTID_SCROLLCTRL = 8" "HID_XFER_PACKET_SIZE = 16" "HID_DEVICE_ATTRIBUTES_SIZE = 32"
  "HID_STRING_ID_IMANUFACTURER = 14" "HID_STRING_ID_IPRODUCT = 15" "HID_STRING_ID_ISERIALNUMBER = 16"
  by (simp_all add: REPORTID_FEATURE_def REPORTID_SCROLLCTRL_def HID_XFER_PACKET_SIZE_def
      HID_DEVICE_ATTRIBUTES_SIZE_def HID_STRING_ID_IMANUFACTURER_def HID_STRING_ID_IPRODUCT_def
      HID_STRING_ID_ISERIALNUMBER_def)

text \<open>
  C10: in every device context reachable by read requests (each with its
  own buffer size), written reports and emitted reports, the requests
  completed with a report, still queued, or stranded add up to the requests
  made; the delivered reports are, in order, a subsequence of the emitted
  ones; and a request is stranded (dequeued, never completed nor requeued)
  only when its buffer is shorter than the report it was dequeued for.
\<close>

theorem hid_reach_pairs:
  "hid_reach n dev \<Longrightarrow> sink_pairs n (gesture dev)"
proof (induction rule: hid_reach.induct)
  case (hid_init rx ry) then show ?case by (simp add: sink_pairs_def init_device_def init_softc_def SetDefaultSettings_def)
next
  case (hid_read n dev st c dev') then show ?case
    by (auto simp: SynaReadReport_def sink_pairs_def)
next
  case (hid_read_failed n dev fwd st c dev') then show ?case by (simp add: SynaReadReport_def)
next
  case (hid_write n dev len pkt st dev') then show ?case using SynaWriteReport_sink by blast
next
  case (hid_report n dev r) then show ?case by (simp add: sink_pairs_report del: SynaProcessVendorReport_upd)
qed


text \<open>
  C27: an output report succeeds exactly when the input buffer holds a
  transfer packet and the packet is a scroll-control or settings report; on
  every error the device context is unchanged.
\<close>

theorem SynaWriteReport_status:
  assumes "SynaWriteReport dev len pkt = Some (st, dev')"
  shows "(st = STATUS_SUCCESS \<longleftrightarrow> 16 \<le> len \<and> (\<exists>p. pkt = Some p \<and> reportId p \<in> {REPORTID_SCROLLCTRL, REPORTID_SETTINGS})) \<and>
         (st \<noteq> STATUS_SUCCESS \<longrightarrow> dev' = dev)"
  using assms
  by (auto simp: SynaWriteReport_def bind_eq_Some_conv split: option.splits if_splits)

text \<open>
  C28: a string request reads past the end of the string literal exactly
  when the string id is known and the caller's output buffer is longer than
  the literal: the copy length is the caller's buffer size, not the string's.
\<close>

theorem SynaGetString_overread:
  "SynaGetString sid outlen = None \<longleftrightarrow> (\<exists>s. hid_string (sid AND 0xFFFF) = Some s \<and> length (wliteral s) < outlen)"
  by (auto simp: SynaGetString_def Let_def split: option.splits)

text \<open>
  C29: a successful feature request returns the three-byte feature report
  with the device mode in byte 1 and device identifier 0 in byte 2.
\<close>

theorem SynaGetFeature_mode:
  assumes "SynaGetFeature dev outlen (Some p) = (STATUS_SUCCESS, Some p')"
  shows "reportBuffer p' = [reportBuffer p ! 0, DeviceMode dev, 0] \<and> reportId p' = REPORTID_FEATURE"
proof -
  have "reportId p = REPORTID_FEATURE" "length (reportBuffer p) = 3"
    "p' = p\<lparr>reportBuffer := (reportBuffer p)[1 := DeviceMode dev, 2 := 0]\<rparr>"
    using assms by (auto simp: SynaGetFeature_def split: if_splits)
  then show ?thesis by (cases "reportBuffer p" rule: remdups_adj.cases) (auto simp: numeral_3_eq_3 length_Suc_conv)
qed

theorem hid_reach_pairs_witness:
  "hid_reach 1 (dev_hid\<lparr>gesture := SynaProcessVendorReport (InfoRep (replicate 64 0)) (gesture dev_hid)\<rparr>) \<and>
   sink_pairs 1 (SynaProcessVendorReport (InfoRep (replicate 64 0)) (gesture dev_hid)) \<and>
   stranded (SynaProcessVendorReport (InfoRep (replicate 64 0)) (gesture dev_hid)) = [(64, InfoRep (replicate 64 0))]"
proof -
  have "SynaReadReport STATUS_SUCCESS 64 (init_device 1000 1000) = (STATUS_SUCCESS, False, dev_hid)"
    by (simp add: dev_hid_def SynaReadReport_def)
  from hid_reach.hid_read [OF hid_reach.hid_init this] have r: "hid_reach 1 dev_hid" by simp
  then have "hid_reach 1 (dev_hid\<lparr>gesture := SynaProcessVendorReport (InfoRep (replicate 64 0)) (gesture dev_hid)\<rparr>)"
    by (rule hid_reach.hid_report)
  moreover have "stranded (SynaProcessVendorReport (InfoRep (replicate 64 0)) (gesture dev_hid)) = [(64, InfoRep (replicate 64 0))]"
    by (simp add: dev_hid_def SynaReadReport_def init_device_def init_softc_def SetDefaultSettings_def fits_def)
  ultimately show ?thesis using hid_reach_pairs by fastforce
qed

theorem SynaWriteReport_status_witness:
  "SynaWriteReport (init_device 1000 1000) 16 (Some \<lparr>reportId = 0x08, reportBuffer = [8, 1]\<rparr>) =
     Some (STATUS_SUCCESS, (init_device 1000 1000)\<lparr>gesture := (gesture (init_device 1000 1000))\<lparr>scrollInertiaActive := True\<rparr>\<rparr>) \<and>
   (STATUS_SUCCESS = STATUS_SUCCESS \<longleftrightarrow> (16::nat) \<le> 16 \<and> (\<exists>p. Some \<lparr>reportId = 0x08, reportBuffer = [8, 1]\<rparr> = Some p \<and> reportId p \<in> {REPORTID_SCROLLCTRL, REPORTID_SETTINGS}))"
proof -
  have w: "SynaWriteReport (init_device 1000 1000) 16 (Some \<lparr>reportId = 0x08, reportBuffer = [8, 1]\<rparr>) =
     Some (STATUS_SUCCESS, (init_device 1000 1000)\<lparr>gesture := (gesture (init_device 1000 1000))\<lparr>scrollInertiaActive := True\<rparr>\<rparr>)"
    by (simp add: SynaWriteReport_def frame_byte_def)
  show ?thesis using w SynaWriteReport_status [OF w] by simp
qed

theorem SynaGetFeature_mode_witness:
  "SynaGetFeature (init_device 1000 1000) 16 (Some \<lparr>reportId = 2, reportBuffer = [2, 7, 7]\<rparr>) =
     (STATUS_SUCCESS, Some \<lparr>reportId = 2, reportBuffer = [2, 0, 0]\<rparr>) \<and>
   [2, DeviceMode (init_device 1000 1000), 0] = [2, 0, (0::u8)]"
proof -
  have f: "SynaGetFeature (init_device 1000 1000) 16 (Some \<lparr>reportId = 2, reportBuffer = [2, 7, 7]\<rparr>) =
     (STATUS_SUCCESS, Some \<lparr>reportId = 2, reportBuffer = [2, 0, 0]\<rparr>)"
    by (simp add: SynaGetFeature_def init_device_def)
  show ?thesis using f SynaGetFeature_mode [OF f] by simp
qed

end
