(* ===== verification/Interleave.thy ===== *)
theory Interleave
  imports Decoder_Run
begin

text \<open>
  The interrupt routine and the timer as concurrent contexts.  The driver
  registers \<open>OnInterruptIsr\<close> with passive-level handling (driver.cpp
  292-296), so it runs in a work item, and \<open>SynaTimerFunc\<close> as a periodic
  10 ms WDF timer (319-322), whose callback is a DPC: it can preempt the
  routine or run beside it on another processor.  Neither takes a lock, and
  both use \<open>lastreport\<close>: the routine writes it one byte at a time (lines
  370-371) and the timer decodes it.  \<open>sys_step\<close> interleaves the routine's
  copy loop, byte by byte, with whole timer ticks; \<open>isr_pc\<close> is the
  routine's program counter (\<open>Copying f k\<close>: the frame \<open>f\<close> read from the
  bus, \<open>k\<close> bytes copied).  A transfer the routine drops (no connection,
  id 0 or another id) changes nothing and is a stutter, left out.  A tick is
  atomic here; in the code the routine may also interleave with the tick's
  reads, which only adds behaviours: the torn states below are reachable
  either way, and the invariant holds because a tick is defined on every
  40-byte buffer.
\<close>

datatype isr_pc = Idle | Copying "u8 list" nat

inductive sys_step :: "device \<times> isr_pc \<Rightarrow> device \<times> isr_pc \<Rightarrow> bool" where
  isr_latch:
    "length i2c = 42 \<Longrightarrow> ConnectInterrupt d \<Longrightarrow> take 40 (drop 2 i2c) ! 0 = RMI_ATTN_REPORT_ID \<Longrightarrow>
     sys_step (d, Idle) (d, Copying (take 40 (drop 2 i2c)) 0)"
| isr_copy:
    "k < 40 \<Longrightarrow> sys_step (d, Copying f k) (d\<lparr>lastreport := (lastreport d)[k := f ! k]\<rparr>, Copying f (Suc k))"
| isr_done:
    "sys_step (d, Copying f 40) (d, Idle)"
| timer:
    "SynaTimerFunc d = Some d' \<Longrightarrow> sys_step (d, p) (d', p)"

inductive sys_reach :: "device \<times> isr_pc \<Rightarrow> bool" where
  reach_init: "dev_inv d \<Longrightarrow> sys_reach (d, Idle)"
| reach_step: "sys_reach s \<Longrightarrow> sys_step s s' \<Longrightarrow> sys_reach s'"

text \<open>The routine's local state is consistent with the copy it is doing.\<close>

fun isr_ok :: "device \<times> isr_pc \<Rightarrow> bool" where
  "isr_ok (d, Idle) = True"
| "isr_ok (d, Copying f k) \<longleftrightarrow> length f = 40 \<and> k \<le> 40 \<and> f ! 0 = RMI_ATTN_REPORT_ID"

lemma dev_inv_lastreport:
  "dev_inv d \<Longrightarrow> length l = 40 \<Longrightarrow> dev_inv (d\<lparr>lastreport := l\<rparr>)"
  by (simp add: dev_inv_def)

lemma timer_Some:
  "dev_inv d \<Longrightarrow> \<exists>d'. SynaTimerFunc d = Some d' \<and> dev_inv d'"
  using device_step_Some [of d Timer] by simp

text \<open>
  C8: in every state the interleaving of the interrupt routine's byte copy
  with timer ticks can reach from a configured device, the device context
  satisfies \<open>dev_inv\<close>, the routine's copy is consistent, and a timer tick
  is defined (the timer never reads past a buffer or divides by zero, even
  on a half-copied report).
\<close>

theorem sys_reach_inv:
  "sys_reach s \<Longrightarrow> dev_inv (fst s) \<and> isr_ok s \<and> (\<exists>d'. SynaTimerFunc (fst s) = Some d')"
proof (induction rule: sys_reach.induct)
  case (reach_init d) then show ?case using timer_Some by fastforce
next
  case (reach_step s s')
  then have inv: "dev_inv (fst s)" "isr_ok s" by simp_all
  from reach_step.hyps(2) inv have "dev_inv (fst s') \<and> isr_ok s'"
  proof (cases rule: sys_step.cases)
    case (isr_copy k d f)
    then show ?thesis using inv by (auto simp: dev_inv_def)
  next
    case (timer d d' p)
    then show ?thesis using inv timer_Some [of d] by (cases p) auto
  qed auto
  then show ?case using timer_Some by blast
qed


lemma sys_reach_steps: "sys_step\<^sup>*\<^sup>* s s' \<Longrightarrow> sys_reach s \<Longrightarrow> sys_reach s'"
  by (induction rule: rtranclp_induct) (auto intro: sys_reach.reach_step)

lemma copy_update:
  "j < 40 \<Longrightarrow> length L = 40 \<Longrightarrow> length f = 40 \<Longrightarrow>
   (take j f @ drop j L)[j := f ! j] = take (Suc j) f @ drop (Suc j) L"
  by (simp add: list_update_append take_Suc_conv_app_nth Cons_nth_drop_Suc [symmetric])

lemma copy_steps:
  "k \<le> j \<Longrightarrow> j \<le> 40 \<Longrightarrow> length L = 40 \<Longrightarrow> length f = 40 \<Longrightarrow>
   sys_step\<^sup>*\<^sup>* (d\<lparr>lastreport := take k f @ drop k L\<rparr>, Copying f k) (d\<lparr>lastreport := take j f @ drop j L\<rparr>, Copying f j)"
proof (induction j)
  case 0 then show ?case by simp
next
  case (Suc j)
  show ?case
  proof (cases "k = Suc j")
    case True then show ?thesis by simp
  next
    case False
    then have IH: "sys_step\<^sup>*\<^sup>* (d\<lparr>lastreport := take k f @ drop k L\<rparr>, Copying f k)
                                 (d\<lparr>lastreport := take j f @ drop j L\<rparr>, Copying f j)"
      using Suc by simp
    have "sys_step (d\<lparr>lastreport := take j f @ drop j L\<rparr>, Copying f j)
                   (d\<lparr>lastreport := take (Suc j) f @ drop (Suc j) L\<rparr>, Copying f (Suc j))"
      using sys_step.isr_copy [of j "d\<lparr>lastreport := take j f @ drop j L\<rparr>" f] Suc.prems copy_update [of j L f]
      by simp
    then show ?thesis by (rule rtranclp.rtrancl_into_rtrancl [OF IH])
  qed
qed

text \<open>
  C9: the interrupt routine and the timer share \<open>lastreport\<close> without a
  lock, so for every attention frame and every \<open>k \<le> 40\<close> the state where the
  first \<open>k\<close> bytes of the new report and the last \<open>40 - k\<close> bytes of the old
  one are in the buffer is reachable, and a timer tick decodes that mixed
  report there.
\<close>

theorem torn_frame_reachable:
  assumes "dev_inv d" "ConnectInterrupt d" "length i2c = 42"
          "take 40 (drop 2 i2c) ! 0 = RMI_ATTN_REPORT_ID" "k \<le> 40"
  shows "sys_reach (d\<lparr>lastreport := take k (take 40 (drop 2 i2c)) @ drop k (lastreport d)\<rparr>, Copying (take 40 (drop 2 i2c)) k) \<and>
         (\<exists>d''. SynaTimerFunc (d\<lparr>lastreport := take k (take 40 (drop 2 i2c)) @ drop k (lastreport d)\<rparr>) = Some d'' \<and>
               sys_step (d\<lparr>lastreport := take k (take 40 (drop 2 i2c)) @ drop k (lastreport d)\<rparr>, Copying (take 40 (drop 2 i2c)) k)
                        (d'', Copying (take 40 (drop 2 i2c)) k))"
proof -
  let ?f = "take 40 (drop 2 i2c)"
  let ?dt = "d\<lparr>lastreport := take k ?f @ drop k (lastreport d)\<rparr>"
  have len: "length (lastreport d) = 40" using assms by (simp add: dev_inv_def)
  have "sys_step (d, Idle) (d, Copying ?f 0)"
    by (rule sys_step.isr_latch [OF assms(3) assms(2) assms(4)])
  then have "sys_reach (d, Copying ?f 0)"
    by (rule sys_reach.reach_step [OF sys_reach.reach_init [OF assms(1)]])
  moreover have "sys_step\<^sup>*\<^sup>* (d\<lparr>lastreport := take 0 ?f @ drop 0 (lastreport d)\<rparr>, Copying ?f 0) (?dt, Copying ?f k)"
    using assms len by (intro copy_steps) simp_all
  ultimately have reach: "sys_reach (?dt, Copying ?f k)" by (simp add: sys_reach_steps)
  have "dev_inv ?dt" using dev_inv_lastreport [OF assms(1)] assms(3,5) len by simp
  then obtain d'' where "SynaTimerFunc ?dt = Some d''" using timer_Some by blast
  then show ?thesis using reach by (blast intro: sys_step.timer)
qed

theorem sys_reach_inv_witness:
  "dev_inv dev_example \<and> isr_ok (dev_example, Copying frame_example 0) \<and>
   (\<exists>d'. SynaTimerFunc dev_example = Some d')"
proof -
  have "sys_step (dev_example, Idle) (dev_example, Copying (take 40 (drop 2 ([0, 0] @ frame_example))) 0)"
    by (rule sys_step.isr_latch) (simp_all add: frame_example_def dev_example_def dev_2000_def init_device_def)
  then have "sys_reach (dev_example, Copying (take 40 (drop 2 ([0, 0] @ frame_example))) 0)"
    by (rule sys_reach.reach_step [OF sys_reach.reach_init [OF dev_example_inv]])
  then have "sys_reach (dev_example, Copying frame_example 0)" by (simp add: frame_example_def)
  then show ?thesis using sys_reach_inv by fastforce
qed

theorem torn_frame_reachable_witness:
  "sys_reach (dev_example\<lparr>lastreport := take 3 frame_example @ replicate 37 0\<rparr>, Copying frame_example 3) \<and>
   take 3 frame_example @ replicate 37 0 \<noteq> frame_example \<and>
   take 3 frame_example @ replicate 37 0 \<noteq> lastreport dev_example \<and>
   (\<exists>d''. SynaTimerFunc (dev_example\<lparr>lastreport := take 3 frame_example @ replicate 37 0\<rparr>) = Some d'')"
proof -
  have f: "take 40 (drop 2 ([0, 0] @ frame_example)) = frame_example" by (simp add: frame_example_def)
  have old: "lastreport dev_example = replicate 40 0" by (simp add: dev_example_def dev_2000_def init_device_def)
  have "sys_reach (dev_example\<lparr>lastreport := take 3 frame_example @ drop 3 (lastreport dev_example)\<rparr>, Copying frame_example 3) \<and>
        (\<exists>d''. SynaTimerFunc (dev_example\<lparr>lastreport := take 3 frame_example @ drop 3 (lastreport dev_example)\<rparr>) = Some d'' \<and>
              sys_step (dev_example\<lparr>lastreport := take 3 frame_example @ drop 3 (lastreport dev_example)\<rparr>, Copying frame_example 3)
                       (d'', Copying frame_example 3))"
    using torn_frame_reachable [of dev_example "[0, 0] @ frame_example" 3, unfolded f] dev_example_inv
    by (simp add: frame_example_def dev_example_def)
  moreover have "(take 3 frame_example @ replicate 37 0) ! 4 \<noteq> frame_example ! 4"
    by (simp add: frame_example_def nth_append)
  then have "take 3 frame_example @ replicate 37 0 \<noteq> frame_example" by metis
  moreover have "(take 3 frame_example @ replicate 37 0) ! 0 \<noteq> replicate 40 0 ! 0"
    by (simp add: frame_example_def)
  then have "take 3 frame_example @ replicate 37 0 \<noteq> lastreport dev_example" using old by metis
  ultimately show ?thesis using old by (simp, blast)
qed

end
