(* ===== verification/Report_Types.thy ===== *)
theory Report_Types
  imports Hid
begin

text \<open>
  The types of the reports the driver sends.  Each output report of
  hidcommon.h is a packed structure selected by its report id; a report value
  of the model conforms to its structure (\<open>report_conf\<close>) when its arrays
  have their declared sizes (six key codes, a 64-byte info value), and then
  its wire bytes have the structure's size (\<open>output_report_size\<close>), at
  most \<open>INPUT_REPORT_MAX\<close> = 65 bytes, the size of the info report.  The
  state invariant \<open>sc_reports_ok\<close> says every report emitted so far conforms,
  the identification strings fit the info report (the \<open>strcpy\<close> of
  \<open>ProcessInfo\<close>), every queued read request has a buffer of at least
  \<open>INPUT_REPORT_MAX\<close> bytes and no request was stranded; every operation of
  the gesture engine, the decoder and the output-report handler keeps it.
\<close>

definition KBD_KEY_CODES :: nat where "KBD_KEY_CODES = 6"

fun report_conf :: "report \<Rightarrow> bool" where
  "report_conf (KeyboardRep s ks) \<longleftrightarrow> length ks = KBD_KEY_CODES"
| "report_conf (InfoRep v) \<longleftrightarrow> length v = 64"
| "report_conf (RelMouse m) \<longleftrightarrow> True"
| "report_conf (ScrollRep f a b c d) \<longleftrightarrow> True"

text \<open>\<open>sizeof\<close> of the packed output report structure a report id names.\<close>

definition output_report_size :: "u8 \<Rightarrow> nat option" where
  "output_report_size rid =
     (if rid = REPORTID_RELATIVE_MOUSE then Some 6
      else if rid = REPORTID_SCROLL then Some 10
      else if rid = REPORTID_KEYBOARD then Some (3 + KBD_KEY_CODES)
      else if rid = REPORTID_SETTINGS then Some 65
      else None)"

text \<open>The largest input report of the report descriptor, \<open>sizeof(SYNA_INFO_REPORT)\<close>.\<close>

definition INPUT_REPORT_MAX :: nat where "INPUT_REPORT_MAX = 65"

definition sc_reports_ok :: "softc \<Rightarrow> bool" where
  "sc_reports_ok sc \<longleftrightarrow>
     list_all report_conf (emitted sc) \<and> length (product_id sc) < 64 \<and> length (firmware_version sc) < 64 \<and>
     list_all (\<lambda>b. INPUT_REPORT_MAX \<le> b) (pending sc) \<and> stranded sc = []"

lemma KBD_KEY_CODES_eq [simp]: "KBD_KEY_CODES = 6"
  by (simp add: KBD_KEY_CODES_def)

lemma INPUT_REPORT_MAX_eq [simp]: "INPUT_REPORT_MAX = 65"
  by (simp add: INPUT_REPORT_MAX_def)

lemma length_le16 [simp]: "length (le16 w) = 2"
  by (simp add: le16_def)

lemma list_all_tl [simp]: "list_all P xs \<Longrightarrow> list_all P (tl xs)"
  by (cases xs) simp_all

text \<open>A report no longer than the largest input report fits every request the class queued.\<close>

lemma fits_max [simp]:
  "list_all (\<lambda>b. 65 \<le> b) bs \<Longrightarrow> length (report_bytes r) \<le> 65 \<Longrightarrow> fits r bs \<longleftrightarrow> bs \<noteq> []"
  by (cases bs) (simp_all add: fits_def)

lemma report_conf_length: "report_conf r \<Longrightarrow> length (report_bytes r) \<le> INPUT_REPORT_MAX"
  by (cases r rule: report_bytes.cases) simp_all

lemma report_conf_size:
  "report_conf r \<Longrightarrow> output_report_size (hd (report_bytes r)) = Some (length (report_bytes r))"
  by (cases r rule: report_bytes.cases) (auto simp: output_report_size_def le16_def)

lemmas ok_simps = if_distrib [of snd] if_distrib [of fst] if_distrib [of emitted] if_distrib [of product_id]
  if_distrib [of firmware_version] if_distrib [of "list_all report_conf"] if_distrib [of pending]
  if_distrib [of stranded] if_distrib [of "list_all (\<lambda>b. 65 \<le> b)"] sc_reports_ok_def

lemma ok_ProcessMove: "sc_reports_ok sc \<Longrightarrow> sc_reports_ok (snd (ProcessMove sc a ids))"
  unfolding ProcessMove_def Let_def
  by (simp add: ok_simps cong: if_cong split del: if_split)

lemma ok_ProcessScroll: "sc_reports_ok sc \<Longrightarrow> sc_reports_ok (snd (ProcessScroll sc a ids))"
  unfolding ProcessScroll_def Let_def
  by (simp add: ok_simps cong: if_cong split del: if_split)

lemma ok_swipe_decide: "sc_reports_ok sc \<Longrightarrow> sc_reports_ok (swipe_decide sc a ids sy sx)"
  unfolding swipe_decide_def Let_def
  by (simp add: ok_simps swipe_done_def set_alttab_ids_def cong: if_cong split del: if_split)

lemma ok_TapToClickOrDrag: "sc_reports_ok sc \<Longrightarrow> sc_reports_ok (TapToClickOrDrag sc b)"
  unfolding TapToClickOrDrag_def Let_def tap_action_def
  by (simp add: ok_simps case_prod_beta cong: if_cong split del: if_split)

lemma ok_click_buttons: "sc_reports_ok sc \<Longrightarrow> sc_reports_ok (click_buttons sc r l a n)"
  unfolding click_buttons_def Let_def
  by (simp add: ok_simps cong: if_cong split del: if_split)

lemma ok_ClearTapDrag: "sc_reports_ok sc \<Longrightarrow> sc_reports_ok (ClearTapDrag sc i)"
  unfolding ClearTapDrag_def Let_def
  by (simp add: ok_simps cong: if_cong split del: if_split)

lemma ok_slot_contact: "sc_reports_ok sc \<Longrightarrow> sc_reports_ok (slot_contact sc i)"
  unfolding slot_contact_def Let_def get_axes_def put_axes_def
  by (simp add: ok_simps case_prod_beta cong: if_cong split del: if_split)

lemma ok_slot_release: "sc_reports_ok sc \<Longrightarrow> sc_reports_ok (fst (slot_release sc i r))"
  unfolding slot_release_def Let_def
  by (simp add: ok_simps ok_ClearTapDrag [unfolded sc_reports_ok_def INPUT_REPORT_MAX_eq] cong: if_cong split del: if_split)

lemma ok_shift_slot: "sc_reports_ok sc \<Longrightarrow> sc_reports_ok (fst (shift_slot i (sc, r)))"
proof -
  assume ok: "sc_reports_ok sc"
  define sc1 where "sc1 = (if sc_x sc ! i \<noteq> -1 then slot_contact sc i else sc)"
  have ok1: "sc_reports_ok sc1" using ok ok_slot_contact by (simp add: sc1_def)
  obtain sc2 r2 where eq: "(if sc_x sc1 ! i = -1 then slot_release sc1 i r else (sc1, r)) = (sc2, r2)"
    by (cases "if sc_x sc1 ! i = -1 then slot_release sc1 i r else (sc1, r)")
  have "sc2 = (if sc_x sc1 ! i = -1 then fst (slot_release sc1 i r) else sc1)"
    using eq by (auto split: if_splits)
  then have "sc_reports_ok sc2" using ok_slot_release [OF ok1, of i r] ok1 by simp
  then show ?thesis
    by (simp add: shift_slot_def sc1_def [symmetric] eq sc_reports_ok_def)
qed

lemma ok_fold_shift_slot:
  "sc_reports_ok sc \<Longrightarrow> sc_reports_ok (fst (fold shift_slot is (sc, r)))"
proof (induction "is" arbitrary: sc r)
  case Nil
  then show ?case by simp
next
  case (Cons i "is")
  obtain sc' r' where eq: "shift_slot i (sc, r) = (sc', r')" by (cases "shift_slot i (sc, r)")
  from ok_shift_slot [OF Cons.prems, of i r] eq have "sc_reports_ok sc'" by simp
  then show ?case using Cons.IH eq by simp
qed

lemma ok_alttab_release: "alttab_release sc = Some sc' \<Longrightarrow> sc_reports_ok sc \<Longrightarrow> sc_reports_ok sc'"
  by (auto simp: alttab_release_def bind_eq_Some_conv sc_reports_ok_def split: if_splits)

lemma ok_ProcessThreeFingerSwipe:
  "ProcessThreeFingerSwipe sc a ids = Some p \<Longrightarrow> sc_reports_ok sc \<Longrightarrow> sc_reports_ok (snd p)"
  unfolding ProcessThreeFingerSwipe_def Let_def
  by (auto simp: bind_eq_Some_conv split: if_splits dest!: ok_alttab_release intro!: ok_swipe_decide)
     (auto simp: sc_reports_ok_def)

lemma ok_update_relative_mouse [simp]:
  "sc_reports_ok sc \<Longrightarrow> sc_reports_ok (update_relative_mouse b x y w h sc)"
  by (simp add: sc_reports_ok_def)

lemma ok_ProcessGesture:
  assumes "ProcessGesture sc = Some sc'" "sc_reports_ok sc"
  shows "sc_reports_ok sc'"
proof -
  define sc0 where "sc0 = sc\<lparr>sc_dx := 0, sc_dy := 0\<rparr>"
  obtain a r l ids where th: "thresholds sc0 = (a, r, l, ids)" by (cases "thresholds sc0") blast
  obtain h sc1 where sw: "ProcessThreeFingerSwipe sc0 a ids = Some (h, sc1)"
    using assms(1) by (cases "ProcessThreeFingerSwipe sc0 a ids")
      (auto simp: ProcessGesture_def sc0_def [symmetric] th Let_def)
  have ok1: "sc_reports_ok sc1"
    using ok_ProcessThreeFingerSwipe [OF sw] assms(2) by (simp add: sc0_def sc_reports_ok_def)
  obtain h2 sc2 where p2: "(if h then (h, sc1) else ProcessScroll sc1 a ids) = (h2, sc2)"
    by (cases "if h then (h, sc1) else ProcessScroll sc1 a ids")
  have "sc2 = (if h then sc1 else snd (ProcessScroll sc1 a ids))" using p2 by (auto split: if_splits)
  then have ok2: "sc_reports_ok sc2" using ok1 ok_ProcessScroll [OF ok1, of a ids] by simp
  obtain h3 sc3 where p3: "(if h2 then (h2, sc2) else ProcessMove sc2 a ids) = (h3, sc3)"
    by (cases "if h2 then (h2, sc2) else ProcessMove sc2 a ids")
  have "sc3 = (if h2 then sc2 else snd (ProcessMove sc2 a ids))" using p3 by (auto split: if_splits)
  then have ok3: "sc_reports_ok sc3" using ok2 ok_ProcessMove [OF ok2, of a ids] by simp
  obtain sc4 rf where p4: "fold shift_slot [0..<MAX_FINGERS] (click_buttons sc3 r l a (count_fingers sc0), 0) = (sc4, rf)"
    by (cases "fold shift_slot [0..<MAX_FINGERS] (click_buttons sc3 r l a (count_fingers sc0), 0)")
  have "sc_reports_ok sc4"
    using ok_fold_shift_slot [OF ok_click_buttons [OF ok3]] p4 by (metis fst_conv)
  then have ok5: "sc_reports_ok (TapToClickOrDrag (sc4\<lparr>ticksincelastrelease := ticksincelastrelease sc4 + 1\<rparr>) rf)"
    by (intro ok_TapToClickOrDrag) (simp add: sc_reports_ok_def)
  show ?thesis
    using assms(1) ok5
    by (auto simp: ProcessGesture_def sc0_def [symmetric] th sw p2 p3 p4 Let_def
        simp del: update_relative_mouse_upd split del: if_split)
qed

lemma fold_option_pres:
  assumes "\<And>i x y. f i (Some x) = Some y \<Longrightarrow> P x \<Longrightarrow> P y" "\<And>i. f i None = None"
  shows "fold f is (Some x) = Some y \<Longrightarrow> P x \<Longrightarrow> P y"
proof (induction "is" arbitrary: x)
  case Nil
  then show ?case by simp
next
  case (Cons i "is")
  show ?case
  proof (cases "f i (Some x)")
    case None
    then have "fold f is None = None" using assms(2) by (induction "is") simp_all
    then show ?thesis using Cons.prems None by simp
  next
    case (Some x')
    then show ?thesis using Cons assms(1) [OF Some] by simp
  qed
qed

lemma ok_process_touch:
  "rmi_f11_process_touch dev sc slot fs fr pos = Some sc' \<Longrightarrow> sc_reports_ok sc \<Longrightarrow> sc_reports_ok sc'"
  unfolding rmi_f11_process_touch_def Let_def
  by (auto simp: bind_eq_Some_conv sc_reports_ok_def split: if_splits)

lemma ok_rmi_f11_input:
  assumes "rmi_f11_input dev sc fr idx = Some (sc', n)" "sc_reports_ok sc"
  shows "sc_reports_ok sc'"
proof -
  obtain sc1 where f: "fold (\<lambda>i acc. do {
                   sc \<leftarrow> acc;
                   fsb \<leftarrow> frame_byte fr (idx + drop_bit 2 i);
                   rmi_f11_process_touch dev sc i (finger_state_of fsb i) fr
                     (idx + f11_offset (max_fingers dev) + 5 * i)
                 }) [0..<max_fingers dev] (Some sc) = Some sc1" and eq: "sc' = sc1"
    using assms(1) by (auto simp: rmi_f11_input_def bind_eq_Some_conv)
  show ?thesis unfolding eq
    by (rule fold_option_pres [where P = sc_reports_ok, OF _ _ f assms(2)]) (auto simp: bind_eq_Some_conv dest: ok_process_touch)
qed

lemma f30_button_only_buttondown:
  "f30_button dev fr idx i (Some sc) = Some sc' \<Longrightarrow> \<exists>v. sc' = sc\<lparr>buttondown := v\<rparr>"
  unfolding f30_button_def
  by (cases "i = 0 \<or> \<not> bit (button_mask dev) i")
     (auto simp: bind_eq_Some_conv Let_def simp del: bit_and_iff intro: exI [of _ "buttondown sc"])

lemma ok_f30_button:
  "f30_button dev fr idx i (Some sc) = Some sc' \<Longrightarrow> sc_reports_ok sc \<Longrightarrow> sc_reports_ok sc'"
  by (auto dest!: f30_button_only_buttondown simp: sc_reports_ok_def)

lemma ok_rmi_f30_input:
  assumes "rmi_f30_input dev sc irq fr idx len = Some (sc', n)" "sc_reports_ok sc"
  shows "sc_reports_ok sc'"
proof (cases "ucast irq AND irq_mask (f30 dev) = 0 \<or> len < int (report_size (f30 dev))")
  case True
  then show ?thesis using assms by (auto simp: rmi_f30_input_def split: if_splits)
next
  case False
  then obtain sc1 where f: "fold (f30_button dev fr idx) [0..<gpio_led_count dev] (Some sc) = Some sc1" and eq: "sc' = sc1"
    using assms(1) by (auto simp: rmi_f30_input_def bind_eq_Some_conv)
  show ?thesis unfolding eq
    by (rule fold_option_pres [where P = sc_reports_ok, OF _ _ f assms(2)]) (blast dest: ok_f30_button, simp add: f30_button_def)
qed

lemma ok_clear_slots [simp]: "sc_reports_ok (clear_slots sc) = sc_reports_ok sc"
proof -
  have "sc_reports_ok (fold (\<lambda>i sc. sc\<lparr>sc_x := (sc_x sc)[i := -1], sc_y := (sc_y sc)[i := -1],
          sc_p := (sc_p sc)[i := -1]\<rparr>) xs sc) = sc_reports_ok sc" for xs
    by (induction xs arbitrary: sc) (simp_all add: sc_reports_ok_def)
  then show ?thesis by (simp add: clear_slots_def)
qed

lemma ok_decode_frame:
  "decode_frame dev sc fr = Some sc' \<Longrightarrow> sc_reports_ok sc \<Longrightarrow> sc_reports_ok sc'"
  unfolding decode_frame_def Let_def
  by (auto simp: bind_eq_Some_conv split: if_splits dest!: ok_rmi_f11_input ok_rmi_f30_input)

lemma ok_TrackpadRawInput:
  assumes "TrackpadRawInput dev sc fr = Some sc'" "sc_reports_ok sc"
  shows "sc_reports_ok sc'"
proof (cases "fr ! 0 = RMI_ATTN_REPORT_ID")
  case True
  then obtain sc1 where d: "decode_frame dev (clear_slots sc) fr = Some sc1" and p: "ProcessGesture sc1 = Some sc'"
    using assms(1) by (auto simp: TrackpadRawInput_def bind_eq_Some_conv)
  have "sc_reports_ok sc1" using ok_decode_frame [OF d] assms(2) by simp
  then show ?thesis by (rule ok_ProcessGesture [OF p])
next
  case False
  then show ?thesis using assms by (simp add: TrackpadRawInput_def)
qed

lemma length_info_value: "length str < 64 \<Longrightarrow> length (info_value str) = 64"
  by (simp add: info_value_def Let_def)

lemma ok_ProcessSetting: "sc_reports_ok sc \<Longrightarrow> sc_reports_ok (ProcessSetting sc reg v)"
  unfolding ProcessSetting_def ProcessInfo_def sc_reports_ok_def
  by (auto simp: length_info_value driver_version_def)

lemma ok_SynaWriteReport:
  "SynaWriteReport dev len pkt = Some (st, dev') \<Longrightarrow> sc_reports_ok (gesture dev) \<Longrightarrow> sc_reports_ok (gesture dev')"
  by (auto simp: SynaWriteReport_def bind_eq_Some_conv ok_ProcessSetting split: option.splits if_splits)
     (simp_all add: sc_reports_ok_def)

lemma ok_init_softc: "sc_reports_ok (init_softc rx ry)"
  by (simp add: init_softc_def SetDefaultSettings_def sc_reports_ok_def)

lemma ok_device_step:
  "device_step dev e = Some dev' \<Longrightarrow> sc_reports_ok (gesture dev) \<Longrightarrow> sc_reports_ok (gesture dev')"
  by (cases e) (auto simp: OnInterruptIsr_def SynaTimerFunc_def Let_def bind_eq_Some_conv
      split: if_splits dest: ok_TrackpadRawInput)

end
