(* ===== verification/Driver.thy ===== *)
theory Driver
  imports Report_Types
begin

text \<open>
  Driver start-up and the driver as a whole.  \<open>DriverEntry\<close> and
  \<open>OnDeviceAdd\<close> (driver.cpp 22-340) create the framework objects one after
  the other and stop at the first creation that fails; the framework is an
  environment \<open>wdf_env\<close> that answers each creation call with a status.
  \<open>driver_step\<close> composes the components the framework calls once the
  device exists: interrupt transfers and timer ticks (\<open>device_step\<close>), and
  the read, write and feature requests of hiddevice.cpp.
\<close>

subsection \<open>Framework calls and the state of device creation\<close>

datatype wdf_call =
    WdfDriverCreate | WdfDeviceCreate | TopLevelQueueCreate | SpbQueueCreate | ReportQueueCreate
  | WdfInterruptCreate | WdfTimerCreate

type_synonym wdf_env = "wdf_call \<Rightarrow> ntstatus"

text \<open>
  The objects created so far, in order, and the device context, which exists
  once \<open>WdfDeviceCreate\<close> succeeded.
\<close>

record add_state =
  created :: "wdf_call list"
  ctx :: "device option"

definition NT_SUCCESS :: "ntstatus \<Rightarrow> bool" where
  "NT_SUCCESS st \<longleftrightarrow> st = STATUS_SUCCESS"

text \<open>One framework creation call: the object exists afterwards exactly when it succeeded.\<close>

definition wdf_create :: "wdf_env \<Rightarrow> wdf_call \<Rightarrow> add_state \<Rightarrow> ntstatus \<times> add_state" where
  "wdf_create env c s =
     (let st = env c in (st, if NT_SUCCESS st then s\<lparr>created := created s @ [c]\<rparr> else s))"

definition DriverEntry :: "wdf_env \<Rightarrow> ntstatus" where
  "DriverEntry env = fst (wdf_create env WdfDriverCreate \<lparr>created = [], ctx = None\<rparr>)"

subsection \<open>OnDeviceAdd\<close>

text \<open>
  Lines 93-192: the filter and callback set-up cannot fail; then the device is
  created, its zero-filled context gets the default settings (line 187), and
  \<open>FxDevice\<close> is recorded.  The output resolution is a parameter, as in
  \<open>init_softc\<close>.
\<close>

definition add_device :: "wdf_env \<Rightarrow> int \<Rightarrow> int \<Rightarrow> ntstatus \<times> add_state" where
  "add_device env rx ry =
     (let (st, s) = wdf_create env WdfDeviceCreate \<lparr>created = [], ctx = None\<rparr> in
      if \<not> NT_SUCCESS st then (st, s)
      else (st, s\<lparr>ctx := Some (init_device rx ry)\<rparr>))"

text \<open>Lines 193-285: the top-level queue, the sequential SPB queue, the manual report queue.\<close>

definition add_queues :: "wdf_env \<Rightarrow> add_state \<Rightarrow> ntstatus \<times> add_state" where
  "add_queues env s =
     (let (st, s) = wdf_create env TopLevelQueueCreate s in
      if \<not> NT_SUCCESS st then (st, s) else
      let (st, s) = wdf_create env SpbQueueCreate s in
      if \<not> NT_SUCCESS st then (st, s) else
      wdf_create env ReportQueueCreate s)"

text \<open>
  Lines 287-335: the interrupt object (passive handling), the periodic timer,
  and, when both exist, \<open>DeviceMode := DEVICE_MODE_MOUSE\<close>.
\<close>

definition add_interrupt_timer :: "wdf_env \<Rightarrow> add_state \<Rightarrow> ntstatus \<times> add_state" where
  "add_interrupt_timer env s =
     (let (st, s) = wdf_create env WdfInterruptCreate s in
      if \<not> NT_SUCCESS st then (st, s) else
      let (st, s) = wdf_create env WdfTimerCreate s in
      if \<not> NT_SUCCESS st then (st, s) else
      (st, s\<lparr>ctx := map_option (\<lambda>d. d\<lparr>DeviceMode := DEVICE_MODE_MOUSE\<rparr>) (ctx s)\<rparr>))"

definition OnDeviceAdd :: "wdf_env \<Rightarrow> int \<Rightarrow> int \<Rightarrow> ntstatus \<times> add_state" where
  "OnDeviceAdd env rx ry =
     (let (st, s) = add_device env rx ry in
      if \<not> NT_SUCCESS st then (st, s) else
      let (st, s) = add_queues env s in
      if \<not> NT_SUCCESS st then (st, s) else
      add_interrupt_timer env s)"

text \<open>
  The reference: the creation calls in the code's order; the result is the
  status of the first one that fails, and the objects created are those
  before it.
\<close>

definition add_order :: "wdf_call list" where
  "add_order = [WdfDeviceCreate, TopLevelQueueCreate, SpbQueueCreate, ReportQueueCreate,
                WdfInterruptCreate, WdfTimerCreate]"

definition first_failure :: "wdf_env \<Rightarrow> wdf_call list \<Rightarrow> ntstatus" where
  "first_failure env cs = (case find (\<lambda>c. \<not> NT_SUCCESS (env c)) cs of None \<Rightarrow> STATUS_SUCCESS | Some c \<Rightarrow> env c)"

subsection \<open>The driver after start-up\<close>

text \<open>
  The events the framework delivers to an added device: interrupt transfers
  and timer ticks, read requests (with the status of their forwarding to the
  report queue and the size of their buffer), output reports, and feature
  requests, which only read the
  context.  The request dispatcher itself is not in the sources.
\<close>

datatype drv_event =
    DevEvent event | ReadRequest ntstatus nat | WriteRequest nat "xfer_packet option"
  | FeatureRequest nat "xfer_packet option"

fun driver_step :: "device \<Rightarrow> drv_event \<Rightarrow> device option" where
  "driver_step dev (DevEvent e) = device_step dev e"
| "driver_step dev (ReadRequest fwd outlen) = Some (snd (snd (SynaReadReport fwd outlen dev)))"
| "driver_step dev (WriteRequest len pkt) = map_option snd (SynaWriteReport dev len pkt)"
| "driver_step dev (FeatureRequest len pkt) = Some dev"

fun driver_run :: "device \<Rightarrow> drv_event list \<Rightarrow> device option" where
  "driver_run dev [] = Some dev"
| "driver_run dev (e # es) = (case driver_step dev e of None \<Rightarrow> None | Some dev' \<Rightarrow> driver_run dev' es)"

text \<open>Well-formed events: 42-byte transfers, and output reports that hold the bytes the handler reads.\<close>

fun drv_event_ok :: "drv_event \<Rightarrow> bool" where
  "drv_event_ok (DevEvent e) \<longleftrightarrow> event_ok e"
| "drv_event_ok (WriteRequest len pkt) \<longleftrightarrow> (case pkt of None \<Rightarrow> True | Some p \<Rightarrow> 3 \<le> length (reportBuffer p))"
| "drv_event_ok (ReadRequest fwd outlen) \<longleftrightarrow> True"
| "drv_event_ok (FeatureRequest len pkt) \<longleftrightarrow> True"


lemma wdf_create_simps [simp]:
  "wdf_create env c s = (env c, if env c = STATUS_SUCCESS then s\<lparr>created := created s @ [c]\<rparr> else s)"
  by (simp add: wdf_create_def NT_SUCCESS_def)

lemma OnDeviceAdd_unfold:
  "OnDeviceAdd env rx ry =
     (if env WdfDeviceCreate \<noteq> STATUS_SUCCESS then (env WdfDeviceCreate, \<lparr>created = [], ctx = None\<rparr>)
      else if env TopLevelQueueCreate \<noteq> STATUS_SUCCESS
      then (env TopLevelQueueCreate, \<lparr>created = [WdfDeviceCreate], ctx = Some (init_device rx ry)\<rparr>)
      else if env SpbQueueCreate \<noteq> STATUS_SUCCESS
      then (env SpbQueueCreate, \<lparr>created = [WdfDeviceCreate, TopLevelQueueCreate], ctx = Some (init_device rx ry)\<rparr>)
      else if env ReportQueueCreate \<noteq> STATUS_SUCCESS
      then (env ReportQueueCreate, \<lparr>created = [WdfDeviceCreate, TopLevelQueueCreate, SpbQueueCreate],
                                    ctx = Some (init_device rx ry)\<rparr>)
      else if env WdfInterruptCreate \<noteq> STATUS_SUCCESS
      then (env WdfInterruptCreate, \<lparr>created = [WdfDeviceCreate, TopLevelQueueCreate, SpbQueueCreate, ReportQueueCreate],
                                     ctx = Some (init_device rx ry)\<rparr>)
      else if env WdfTimerCreate \<noteq> STATUS_SUCCESS
      then (env WdfTimerCreate, \<lparr>created = [WdfDeviceCreate, TopLevelQueueCreate, SpbQueueCreate, ReportQueueCreate,
                                   WdfInterruptCreate], ctx = Some (init_device rx ry)\<rparr>)
      else (STATUS_SUCCESS, \<lparr>created = add_order, ctx = Some ((init_device rx ry)\<lparr>DeviceMode := DEVICE_MODE_MOUSE\<rparr>)\<rparr>))"
  by (simp add: OnDeviceAdd_def add_device_def add_queues_def add_interrupt_timer_def add_order_def NT_SUCCESS_def)

text \<open>
  C11: \<open>OnDeviceAdd\<close> returns the status of the first framework creation
  that fails, in the code's order (device, top-level queue, SPB queue, report
  queue, interrupt, timer), or success; the objects created are exactly
  those before the failure; the device context exists exactly when the
  device was created.
\<close>

theorem OnDeviceAdd_first_failure:
  "fst (OnDeviceAdd env rx ry) = first_failure env add_order \<and>
   created (snd (OnDeviceAdd env rx ry)) = takeWhile (\<lambda>c. NT_SUCCESS (env c)) add_order \<and>
   (ctx (snd (OnDeviceAdd env rx ry)) = None \<longleftrightarrow> \<not> NT_SUCCESS (env WdfDeviceCreate))"
  by (simp add: OnDeviceAdd_unfold first_failure_def add_order_def NT_SUCCESS_def)

lemma device_step_unconnected: "\<not> ConnectInterrupt dev \<Longrightarrow> device_step dev e = Some dev"
  by (cases e) (simp_all add: OnInterruptIsr_def SynaTimerFunc_def)

lemma init_device_inert: "ConnectInterrupt dev = False \<Longrightarrow> device_run dev es = Some dev"
  by (induction es) (simp_all add: device_step_unconnected)

text \<open>
  C12: the context \<open>OnDeviceAdd\<close> leaves, whatever the framework answered,
  has the interrupt disconnected: every sequence of interrupt transfers and
  timer ticks leaves it unchanged until the interrupt is connected.
\<close>

theorem added_device_inert:
  assumes "ctx (snd (OnDeviceAdd env rx ry)) = Some dev"
  shows "device_run dev es = Some dev"
proof -
  have "ConnectInterrupt dev = False"
    using assms by (auto simp: OnDeviceAdd_unfold init_device_def split: if_splits)
  then show ?thesis by (rule init_device_inert)
qed



lemma gesture_inv_ProcessSetting: "gesture_inv sc \<Longrightarrow> gesture_inv (ProcessSetting sc r v)"
  by (simp add: ProcessSetting_def ProcessInfo_def del: SynaProcessVendorReport_upd)
     (simp add: gesture_inv_def alttab_ok_def softc_wf_def)

lemma driver_step_Some:
  assumes "dev_inv dev" "drv_event_ok e"
  shows "\<exists>dev'. driver_step dev e = Some dev' \<and> dev_inv dev'"
proof (cases e)
  case (DevEvent ev)
  then show ?thesis using device_step_Some [of dev ev] assms by simp
next
  case (ReadRequest fwd outlen)
  then show ?thesis using assms by (simp add: SynaReadReport_def dev_inv_def gesture_inv_def alttab_ok_def softc_wf_def)
next
  case (WriteRequest len pkt)
  then show ?thesis using assms
    by (auto simp: SynaWriteReport_def frame_byte_def dev_inv_def gesture_inv_ProcessSetting
        split: option.splits) (simp_all add: gesture_inv_def alttab_ok_def softc_wf_def)
next
  case (FeatureRequest len pkt)
  then show ?thesis using assms by simp
qed

text \<open>
  C2: from a configured context, every sequence of well-formed driver events
  (interrupt transfers, timer ticks, read, write and feature requests) is
  processed to the end and keeps the decoder invariant.
\<close>

theorem driver_run_Some:
  "dev_inv dev \<Longrightarrow> list_all drv_event_ok es \<Longrightarrow> \<exists>dev'. driver_run dev es = Some dev' \<and> dev_inv dev'"
proof (induction es arbitrary: dev)
  case Nil
  then show ?case by simp
next
  case (Cons e es)
  then obtain dev1 where "driver_step dev e = Some dev1" "dev_inv dev1"
    using driver_step_Some by fastforce
  then show ?case using Cons by simp
qed

theorem added_device_inert_witness:
  "device_run ((init_device 1000 1000)\<lparr>DeviceMode := DEVICE_MODE_MOUSE\<rparr>) [Interrupt ([0, 0] @ frame_example), Timer] =
     Some ((init_device 1000 1000)\<lparr>DeviceMode := DEVICE_MODE_MOUSE\<rparr>)"
proof -
  have "ctx (snd (OnDeviceAdd (\<lambda>c. STATUS_SUCCESS) 1000 1000)) = Some ((init_device 1000 1000)\<lparr>DeviceMode := DEVICE_MODE_MOUSE\<rparr>)"
    by (simp add: OnDeviceAdd_unfold)
  then show ?thesis by (rule added_device_inert)
qed


theorem driver_run_Some_witness:
  "\<exists>dev'. driver_run dev_example
     [ReadRequest STATUS_SUCCESS 65, DevEvent (Interrupt ([0, 0] @ frame_example)), DevEvent Timer,
      WriteRequest 16 (Some \<lparr>reportId = 9, reportBuffer = [9, 255, 0]\<rparr>)] = Some dev' \<and> dev_inv dev'"
  by (rule driver_run_Some [OF dev_example_inv]) (simp add: frame_example_def)

end
