(* ===== verification/Hid_Descriptors.thy ===== *)
theory Hid_Descriptors
  imports Hid
begin

text \<open>
  The descriptor requests of hiddevice.cpp 13-155.  The tables they copy,
  \<open>DefaultHidDescriptor\<close> and \<open>DefaultReportDescriptor\<close>, are not in the
  sources: they are parameters, as byte strings in their packed layout.  The
  HID descriptor (hidport.h, packed) holds \<open>bLength\<close> at byte 0 and the first
  entry's \<open>wReportLength\<close> at bytes 7-8, little-endian.  The framework's
  \<open>WdfRequestRetrieveOutputMemory\<close> is a status given with the request, and
  \<open>WdfMemoryCopyFromBuffer\<close> fails with \<open>STATUS_BUFFER_TOO_SMALL\<close> when the
  caller's memory is smaller than the copy; a copy that reads past its source
  is \<open>None\<close>.
\<close>

definition WdfMemoryCopyFromBuffer :: "nat \<Rightarrow> u8 list \<Rightarrow> nat \<Rightarrow> (ntstatus \<times> u8 list) option" where
  "WdfMemoryCopyFromBuffer outlen src n =
     (if outlen < n then Some (STATUS_BUFFER_TOO_SMALL, [])
      else if n \<le> length src then Some (STATUS_SUCCESS, take n src)
      else None)"

text \<open>\<open>SynaGetHidDescriptor\<close>: copy \<open>bLength\<close> bytes of the HID descriptor.\<close>

definition SynaGetHidDescriptor :: "ntstatus \<Rightarrow> nat \<Rightarrow> u8 list \<Rightarrow> (ntstatus \<times> u8 list) option" where
  "SynaGetHidDescriptor mem_status outlen hid_desc =
     (if mem_status \<noteq> STATUS_SUCCESS then Some (mem_status, [])
      else do {
        bLength \<leftarrow> frame_byte hid_desc 0;
        let bytesToCopy = unat bLength;
        if bytesToCopy = 0 then Some (STATUS_INVALID_DEVICE_STATE, [])
        else WdfMemoryCopyFromBuffer outlen hid_desc bytesToCopy
      })"

definition wReportLength :: "u8 list \<Rightarrow> nat option" where
  "wReportLength hid_desc =
     do {
       lo \<leftarrow> frame_byte hid_desc 7;
       hi \<leftarrow> frame_byte hid_desc 8;
       Some (unat lo + 256 * unat hi)
     }"

text \<open>\<open>SynaGetReportDescriptor\<close>: copy \<open>wReportLength\<close> bytes of the report descriptor.\<close>

definition SynaGetReportDescriptor ::
  "ntstatus \<Rightarrow> nat \<Rightarrow> u8 list \<Rightarrow> u8 list \<Rightarrow> (ntstatus \<times> u8 list) option" where
  "SynaGetReportDescriptor mem_status outlen hid_desc report_desc =
     (if mem_status \<noteq> STATUS_SUCCESS then Some (mem_status, [])
      else do {
        bytesToCopy \<leftarrow> wReportLength hid_desc;
        if bytesToCopy = 0 then Some (STATUS_INVALID_DEVICE_STATE, [])
        else WdfMemoryCopyFromBuffer outlen report_desc bytesToCopy
      })"

text \<open>
  The contract between the two tables: a nine-byte HID descriptor whose
  \<open>bLength\<close> is 9 and whose \<open>wReportLength\<close> is the size of the non-empty
  report descriptor.
\<close>

definition descriptors_consistent :: "u8 list \<Rightarrow> u8 list \<Rightarrow> bool" where
  "descriptors_consistent hid_desc report_desc \<longleftrightarrow>
     length hid_desc = 9 \<and> hid_desc ! 0 = 9 \<and> report_desc \<noteq> [] \<and>
     wReportLength hid_desc = Some (length report_desc)"

text \<open>
  C30: with consistent tables, each descriptor request, whatever the status
  of the caller's memory and whatever its size, reads only inside its table
  and has one of three outcomes: the memory's failure status with nothing
  copied, \<open>STATUS_BUFFER_TOO_SMALL\<close> with nothing copied when the memory is
  smaller than the table, and otherwise success with the whole table.  The
  report descriptor's size is the one the HID descriptor announces.
\<close>

theorem descriptors_requests:
  assumes "descriptors_consistent hid_desc report_desc"
  shows "SynaGetHidDescriptor st outlen1 hid_desc =
           Some (if st \<noteq> STATUS_SUCCESS then (st, [])
                 else if outlen1 < 9 then (STATUS_BUFFER_TOO_SMALL, []) else (STATUS_SUCCESS, hid_desc)) \<and>
         SynaGetReportDescriptor st outlen2 hid_desc report_desc =
           Some (if st \<noteq> STATUS_SUCCESS then (st, [])
                 else if outlen2 < length report_desc then (STATUS_BUFFER_TOO_SMALL, []) else (STATUS_SUCCESS, report_desc))"
  using assms by (simp add: descriptors_consistent_def SynaGetHidDescriptor_def SynaGetReportDescriptor_def
      WdfMemoryCopyFromBuffer_def frame_byte_def)

theorem descriptors_requests_witness:
  "SynaGetHidDescriptor STATUS_SUCCESS 9 [9, 0x21, 0, 1, 0, 1, 0x22, 3, 0] = Some (STATUS_SUCCESS, [9, 0x21, 0, 1, 0, 1, 0x22, 3, 0]) \<and>
   SynaGetReportDescriptor STATUS_SUCCESS 2 [9, 0x21, 0, 1, 0, 1, 0x22, 3, 0] [0x05, 0x01, 0x09] = Some (STATUS_BUFFER_TOO_SMALL, [])"
proof -
  have "descriptors_consistent [9, 0x21, 0, 1, 0, 1, 0x22, 3, 0] [0x05, 0x01, 0x09]"
    by (simp add: descriptors_consistent_def wReportLength_def frame_byte_def)
  then show ?thesis using descriptors_requests [of _ _ STATUS_SUCCESS 9 2] by simp
qed

end
